theory Spec2Isabelle
  imports Main
begin

section \<open>Data model\<close>

text \<open>Item types of \<^verbatim>\<open>fuzzobjects.FuzzType\<close>, as the stages of
  \<^verbatim>\<open>fuzzqueues.py\<close> name them.\<close>

datatype FuzzType = STARTSEED | SEED | BACKFEED | RESULT | MESSAGE | ERROR | ENDSEED

datatype severity = INFO | LOW | MEDIUM | HIGH | CRITICAL

text \<open>A finding as it is kept in \<^verbatim>\<open>fuzz_result.plugins_res\<close>.\<close>

record finding =
  f_name :: string
  f_message :: string
  f_severity :: severity

text \<open>Exceptions. The Python exceptions the code catches or lets through, by class, with
  their text; and the exceptions of exception.py that the stages raise. What is raised
  and not caught inside the program is \<open>Uncaught\<close>.\<close>

datatype py_exception =
  TypeError string | ValueError string | AttributeError string | IndexError string |
  NameError string | re_error string | OtherError string

datatype fuzz_exception =
  FuzzExceptBadOptions string | FuzzExceptInternalError string |
  FuzzExceptIncorrectFilter string | Uncaught py_exception

text \<open>The attributes of a \<^verbatim>\<open>FuzzResult\<close> the stages read or write.
  \<^verbatim>\<open>history.url\<close> and \<^verbatim>\<open>history.method\<close> are flattened into
  \<open>history_url\<close> and \<open>history_method\<close>; an absent exception is \<open>None\<close>.\<close>

record FuzzResult =
  item_type :: FuzzType
  priority :: int
  discarded :: bool
  exception :: "string option"
  url :: string
  history_url :: string
  history_method :: string
  code :: int
  lines :: int
  words :: int
  chars :: int
  rlevel :: int
  plugin_rlevel :: int
  backfeed_level :: int
  from_plugin :: bool
  is_baseline :: bool
  plugins_res :: "finding list"

section \<open>The false-positive probe (RecursiveQ.false_positive_hit)\<close>

text \<open>Python's \<^verbatim>\<open>str.replace(old, new)\<close>: every non-overlapping occurrence,
  left to right; with an empty \<open>old\<close> the new text goes before every character and at
  the end.\<close>

function replace_ne :: "string \<Rightarrow> string \<Rightarrow> string \<Rightarrow> string" where
  "replace_ne old new s =
     (if old = [] \<or> s = [] then s
      else if take (length old) s = old
        then new @ replace_ne old new (drop (length old) s)
      else hd s # replace_ne old new (tl s))"
  by pat_completeness auto
termination
  by (relation "measure (\<lambda>(old, new, s). length s)") auto

declare replace_ne.simps [simp del]

definition str_replace :: "string \<Rightarrow> string \<Rightarrow> string \<Rightarrow> string" where
  "str_replace s old new =
     (if old = [] then new @ concat (map (\<lambda>c. c # new) s) else replace_ne old new s)"

text \<open>The part of the session options the probe reads: \<^verbatim>\<open>options["proxies"]\<close>
  (triples ip, port, protocol) and \<^verbatim>\<open>options["headers"]\<close> (pairs).\<close>

record probe_options =
  proxies :: "(string \<times> string \<times> string) list"
  headers :: "(string \<times> string) list"

text \<open>What \<^verbatim>\<open>requests.get\<close> is called with, and what it gives back: the status
  code and the body, already decoded with the encoding of the response headers (UTF-8
  when there is none). A raised exception is \<open>Inl\<close>.\<close>

record probe_request =
  rq_url :: string
  rq_headers :: "(string \<times> string) list"
  rq_proxies :: "(string \<times> string) list"

record response =
  status_code :: int
  content :: string

text \<open>The network is outside the program: the answer to the \<open>n\<close>-th request made by one
  call of the probe (counted from 0) is a parameter. Two requests to the same URL may
  differ.\<close>

type_synonym network = "nat \<Rightarrow> probe_request \<Rightarrow> string + response"

text \<open>The characters that \<^verbatim>\<open>\s\<close> matches in a \<^verbatim>\<open>str\<close>, that is the white space
  of Unicode, among the code points up to U+00FF that a \<^typ>\<open>char\<close> holds: the
  space, U+0009 to U+000D, U+001C to U+001F, the next line U+0085 and the no-break space
  U+00A0.\<close>

definition isspace :: "char \<Rightarrow> bool" where
  "isspace c = (c \<in> set [CHR '' '', CHR 0x09, CHR 0x0A, CHR 0x0B, CHR 0x0C, CHR 0x0D,
                          CHR 0x1C, CHR 0x1D, CHR 0x1E, CHR 0x1F, CHR 0x85, CHR 0xA0])"

text \<open>\<^verbatim>\<open>len(re.findall(r"\S+", s))\<close>: the number of maximal runs of non-whitespace
  characters. The flag says whether the previous character was inside a run.\<close>

fun count_runs :: "bool \<Rightarrow> string \<Rightarrow> int" where
  "count_runs inside [] = 0"
| "count_runs inside (c # cs) =
     (if isspace c then count_runs False cs
      else (if inside then 0 else 1) + count_runs True cs)"

datatype probe_error = Exception

definition get_response_tuple ::
  "network \<Rightarrow> nat \<Rightarrow> string \<Rightarrow> (string \<times> string) list \<Rightarrow> (string \<times> string) list
     \<Rightarrow> probe_error + (int \<times> int)" where
  "get_response_tuple net n check_url headers_dict proxy_dict =
     (case net n \<lparr>rq_url = check_url, rq_headers = headers_dict, rq_proxies = proxy_dict\<rparr> of
        Inl e \<Rightarrow> Inl Exception
      | Inr junk_response \<Rightarrow>
          Inr (status_code junk_response, count_runs False (content junk_response)))"

definition dict_set :: "('k \<times> 'v) list \<Rightarrow> 'k \<Rightarrow> 'v \<Rightarrow> ('k \<times> 'v) list" where
  "dict_set d k v =
     (if k \<in> fst ` set d then map (\<lambda>(k', v'). if k' = k then (k', v) else (k', v')) d
      else d @ [(k, v)])"

definition proxy_dict_of :: "probe_options \<Rightarrow> (string \<times> string) list" where
  "proxy_dict_of options =
     (case proxies options of
        [] \<Rightarrow> []
      | (ip, port, proto) # _ \<Rightarrow>
          (let proxy_string = proto @ ''://'' @ ip @ '':'' @ port
           in [(''http'', proxy_string), (''https'', proxy_string)]))"

definition headers_dict_of :: "probe_options \<Rightarrow> (string \<times> string) list" where
  "headers_dict_of options =
     (if headers options \<noteq> []
      then fold (\<lambda>header d. dict_set d (fst header) (snd header)) (headers options) []
      else [(''User-Agent'',
             ''Mozilla/5.0 (X11; Linux x86_64; rv:60.0) Gecko/20100101 Firefox/60.0'')])"

text \<open>The result is the verdict (\<open>True\<close>: false positive) together with the URLs that were
  requested, in order. The two \<^verbatim>\<open>logger.exception\<close> calls write to the log only.\<close>

definition false_positive_hit ::
  "network \<Rightarrow> FuzzResult \<Rightarrow> probe_options \<Rightarrow> bool \<times> string list" where
  "false_positive_hit net seed options =
     (let proxy_dict = proxy_dict_of options;
          headers_dict = headers_dict_of options;
          recursion_url = history_url seed;
          check_url = str_replace recursion_url ''FUZZ'' ''thisdoesnotexist123''
      in case get_response_tuple net 0 check_url headers_dict proxy_dict of
           Inl e \<Rightarrow> (False, [check_url])
         | Inr junk_response_tuple \<Rightarrow>
             if fst junk_response_tuple = code seed \<and> snd junk_response_tuple = words seed
               then (True, [check_url])
             else if fst junk_response_tuple \<noteq> code seed
               then (False, [check_url])
             else
               (let check_url2 = str_replace recursion_url ''FUZZ'' ''thisalsodoesnotexist123''
                in case get_response_tuple net 1 check_url2 headers_dict proxy_dict of
                     Inl e \<Rightarrow> (False, [check_url, check_url2])
                   | Inr second_junk_response_tuple \<Rightarrow>
                       if fst second_junk_response_tuple = fst junk_response_tuple \<and>
                          snd second_junk_response_tuple = snd junk_response_tuple
                         then (False, [check_url, check_url2])
                       else (True, [check_url, check_url2])))"

text \<open>The two nonce probes as the function issues them, named for the statements below.\<close>

definition first_probe :: "network \<Rightarrow> FuzzResult \<Rightarrow> probe_options \<Rightarrow> probe_error + (int \<times> int)" where
  "first_probe net seed options =
     get_response_tuple net 0 (str_replace (history_url seed) ''FUZZ'' ''thisdoesnotexist123'')
       (headers_dict_of options) (proxy_dict_of options)"

definition second_probe :: "network \<Rightarrow> FuzzResult \<Rightarrow> probe_options \<Rightarrow> probe_error + (int \<times> int)" where
  "second_probe net seed options =
     get_response_tuple net 1 (str_replace (history_url seed) ''FUZZ'' ''thisalsodoesnotexist123'')
       (headers_dict_of options) (proxy_dict_of options)"

text \<open>Concrete inputs: a candidate seed (status 200, 3 words), default options, and a
  network that answers from a fixed list.\<close>

definition ex_seed :: FuzzResult where
  "ex_seed = \<lparr>item_type = SEED, priority = 10, discarded = False, exception = None,
     url = ''http://h/admin/FUZZ'', history_url = ''http://h/admin/FUZZ'',
     history_method = ''GET'', code = 200, lines = 5, words = 3, chars = 20, rlevel = 1,
     plugin_rlevel = 0, backfeed_level = 0, from_plugin = False, is_baseline = False,
     plugins_res = []\<rparr>"

definition ex_options :: probe_options where
  "ex_options = \<lparr>proxies = [], headers = []\<rparr>"

definition net_of :: "(string + response) list \<Rightarrow> network" where
  "net_of answers n rq = (if n < length answers then answers ! n else Inl ''unreachable'')"

section \<open>Stage outputs (FuzzQueue)\<close>

text \<open>What a stage has put on its channels, oldest first. \<open>results_queue\<close> is the
  user-visible queue that \<^verbatim>\<open>Fuzzer.__next__\<close> reads.\<close>

record stage_out =
  queue_out :: "FuzzResult list"
  queue_discard :: "FuzzResult list"
  results_queue :: "FuzzResult list"

definition empty_out :: stage_out where
  "empty_out = \<lparr>queue_out = [], queue_discard = [], results_queue = []\<rparr>"

text \<open>Modelled from the spec: \<^verbatim>\<open>FuzzQueue.send\<close> of myqueues.py, which is not among the
  sources ("forwards to the next stage's input; if item.discarded is true and the stage
  doesn't opt into discarded items, routes to discard channel"). \<^verbatim>\<open>SeedQueue.send\<close>
  in fuzzqueues.py makes the same split.\<close>

definition send :: "stage_out \<Rightarrow> FuzzResult \<Rightarrow> stage_out" where
  "send out item =
     (if discarded item then out\<lparr>queue_discard := queue_discard out @ [item]\<rparr>
      else out\<lparr>queue_out := queue_out out @ [item]\<rparr>)"

text \<open>Modelled from the spec: \<^verbatim>\<open>FuzzQueue.discard\<close> of myqueues.py marks the item
  discarded and hands it to \<open>send\<close>, so that it reaches the discard channel.\<close>

definition discard :: "stage_out \<Rightarrow> FuzzResult \<Rightarrow> stage_out" where
  "discard out item = send out (item\<lparr>discarded := True\<rparr>)"

text \<open>Modelled from the spec: \<^verbatim>\<open>FuzzQueue._throw\<close> of myqueues.py ("propagated as an
  ERROR item"): an item of type \<open>ERROR\<close> carrying the exception goes to the results
  queue, where \<^verbatim>\<open>Fuzzer.__next__\<close> finds it.\<close>

definition error_item :: "string \<Rightarrow> FuzzResult" where
  "error_item e = \<lparr>item_type = ERROR, priority = 0, discarded = False, exception = Some e,
     url = [], history_url = [], history_method = [], code = 0, lines = 0, words = 0,
     chars = 0, rlevel = 0, plugin_rlevel = 0, backfeed_level = 0, from_plugin = False,
     is_baseline = False, plugins_res = []\<rparr>"

definition throw :: "stage_out \<Rightarrow> string \<Rightarrow> stage_out" where
  "throw out e = out\<lparr>results_queue := results_queue out @ [error_item e]\<rparr>"

section \<open>The transport stage (HttpQueue) and the consumer (Fuzzer)\<close>

text \<open>The HTTP pool of myhttp.py is a collaborator: the stage enqueues into it and reads
  pairs (result, requeue) from \<^verbatim>\<open>iter_results\<close>. \<open>hq_pool\<close> holds what the stage has
  enqueued again.\<close>

record http_queue =
  hq_out :: stage_out
  hq_pool :: "FuzzResult list"

text \<open>One turn of the loop of \<^verbatim>\<open>HttpQueue.__read_http_results\<close>, for the pair read
  from the pool.\<close>

definition read_http_result :: "bool \<Rightarrow> http_queue \<Rightarrow> FuzzResult \<times> bool \<Rightarrow> http_queue" where
  "read_http_result scanmode q p =
     (case p of (fuzz_result, requeue) \<Rightarrow>
        if requeue then q\<lparr>hq_pool := hq_pool q @ [fuzz_result]\<rparr>
        else (case exception fuzz_result of
                Some e \<Rightarrow> if \<not> scanmode then q\<lparr>hq_out := throw (hq_out q) e\<rparr>
                          else q\<lparr>hq_out := send (hq_out q) fuzz_result\<rparr>
              | None \<Rightarrow> q\<lparr>hq_out := send (hq_out q) fuzz_result\<rparr>))"

text \<open>The loop itself, over the pairs the pool hands out until it is deregistered.\<close>

definition read_http_results :: "bool \<Rightarrow> http_queue \<Rightarrow> (FuzzResult \<times> bool) list \<Rightarrow> http_queue" where
  "read_http_results scanmode q ps = fold (\<lambda>p q'. read_http_result scanmode q' p) ps q"

text \<open>\<^verbatim>\<open>Fuzzer.__next__\<close> of core.py on the item taken from the results queue
  (\<open>None\<close> is the end-of-run marker): an \<open>ERROR\<close> item raises its exception.\<close>

datatype next_result = StopIteration | Raise "string option" | Return FuzzResult

definition Fuzzer_next :: "FuzzResult option \<Rightarrow> next_result" where
  "Fuzzer_next fuzz_result =
     (case fuzz_result of
        None \<Rightarrow> StopIteration
      | Some r \<Rightarrow> if item_type r = ERROR then Raise (exception r) else Return r)"

text \<open>\<^verbatim>\<open>FuzzSession.fuzz\<close> of runtime_session.py for one item: the exception leaves the
  generator through its \<^verbatim>\<open>finally\<close> block, which calls \<^verbatim>\<open>cancel_job\<close>. The
  second component says whether the job was cancelled.\<close>

definition fuzz_step :: "FuzzResult option \<Rightarrow> next_result \<times> bool" where
  "fuzz_step fuzz_result =
     (case Fuzzer_next fuzz_result of
        Return r \<Rightarrow> (Return r, False)
      | StopIteration \<Rightarrow> (StopIteration, True)
      | Raise e \<Rightarrow> (Raise e, True))"

definition ex_error_result :: FuzzResult where
  "ex_error_result = \<lparr>item_type = RESULT, priority = 10, discarded = False,
     exception = Some ''Connection refused'',
     url = ''http://h/admin'', history_url = ''http://h/admin'',
     history_method = ''GET'', code = -1, lines = 0, words = 0, chars = 0, rlevel = 1,
     plugin_rlevel = 0, backfeed_level = 0, from_plugin = False, is_baseline = False,
     plugins_res = []\<rparr>"

definition ex_http_queue :: http_queue where
  "ex_http_queue = \<lparr>hq_out = empty_out, hq_pool = []\<rparr>"

section \<open>The filter stages (FilterQ, SliceQ)\<close>

text \<open>The filter object of a stage is a \<^verbatim>\<open>BaseFilter\<close> (filters/base_filter.py, not
  among the sources): either the expression filter or the simple filter. Its two methods
  are parameters here. \<open>is_visible\<close> may raise (\<open>Inl\<close>), may change the filter (the
  cache of \<^verbatim>\<open>unique\<close>) and may change the result (the assignment operators), so it
  returns the verdict, the filter and the result afterwards.\<close>

record 'f base_filter =
  set_baseline :: "'f \<Rightarrow> FuzzResult \<Rightarrow> 'f"
  is_visible :: "'f \<Rightarrow> FuzzResult \<Rightarrow> (string + bool) \<times> 'f \<times> FuzzResult"

text \<open>\<^verbatim>\<open>FilterQ.process\<close>. An exception of the filter leaves the stage (\<open>Inl\<close>).\<close>

definition FilterQ_process ::
  "'f base_filter \<Rightarrow> 'f \<times> stage_out \<Rightarrow> FuzzResult \<Rightarrow> string + ('f \<times> stage_out)" where
  "FilterQ_process F st fuzz_result =
     (case st of (ffilter, out) \<Rightarrow>
        let ffilter1 = (if is_baseline fuzz_result
                        then set_baseline F ffilter fuzz_result else ffilter)
        in case is_visible F ffilter1 fuzz_result of
             (Inl e, ffilter2, fuzz_result2) \<Rightarrow> Inl e
           | (Inr visible, ffilter2, fuzz_result2) \<Rightarrow>
               if visible \<or> is_baseline fuzz_result2
               then Inr (ffilter2, send out fuzz_result2)
               else Inr (ffilter2, discard out fuzz_result2))"

text \<open>\<^verbatim>\<open>SliceQ.process\<close>: \<^verbatim>\<open>or\<close> does not evaluate its right operand for a
  baseline.\<close>

definition SliceQ_process ::
  "'f base_filter \<Rightarrow> 'f \<times> stage_out \<Rightarrow> FuzzResult \<Rightarrow> string + ('f \<times> stage_out)" where
  "SliceQ_process F st fuzz_result =
     (case st of (ffilter, out) \<Rightarrow>
        if is_baseline fuzz_result then Inr (ffilter, send out fuzz_result)
        else case is_visible F ffilter fuzz_result of
               (Inl e, ffilter2, fuzz_result2) \<Rightarrow> Inl e
             | (Inr visible, ffilter2, fuzz_result2) \<Rightarrow>
                 if visible then Inr (ffilter2, send out fuzz_result2)
                 else Inr (ffilter2, discard out fuzz_result2))"

text \<open>A filter that hides everything and remembers the status code of the baseline, and
  one that always raises, as concrete inputs.\<close>

definition hide_all :: "int option base_filter" where
  "hide_all = \<lparr>set_baseline = (\<lambda>f r. Some (code r)),
               is_visible = (\<lambda>f r. (Inr False, f, r))\<rparr>"

definition raise_all :: "int option base_filter" where
  "raise_all = \<lparr>set_baseline = (\<lambda>f r. Some (code r)),
                is_visible = (\<lambda>f r. (Inl ''IncorrectFilter'', f, r))\<rparr>"

definition ex_baseline :: FuzzResult where
  "ex_baseline = \<lparr>item_type = RESULT, priority = 10, discarded = False, exception = None,
     url = ''http://h/'', history_url = ''http://h/'',
     history_method = ''GET'', code = 404, lines = 7, words = 12, chars = 90, rlevel = 1,
     plugin_rlevel = 0, backfeed_level = 0, from_plugin = False, is_baseline = True,
     plugins_res = []\<rparr>"

section \<open>The session and the routing stage (RoutingQ)\<close>

definition PRIORITY_STEP :: int where
  "PRIORITY_STEP = 10"

text \<open>The attribute of \<^verbatim>\<open>FuzzSession\<close> that routing advances, and its value after
  \<^verbatim>\<open>__init__\<close>.\<close>

record FuzzSession =
  current_priority_level :: int

definition new_session :: FuzzSession where
  "new_session = \<lparr>current_priority_level = PRIORITY_STEP\<rparr>"

definition assign_next_priority_level :: "FuzzSession \<Rightarrow> int \<times> FuzzSession" where
  "assign_next_priority_level self =
     (let self' = self\<lparr>current_priority_level := current_priority_level self + PRIORITY_STEP\<rparr>
      in (current_priority_level self', self'))"

text \<open>Modelled from the spec: the counters of \<^verbatim>\<open>FuzzStats\<close> (fuzzobjects.py, not among
  the sources) that the stages touch: \<^verbatim>\<open>new_seed\<close> bumps \<open>pending_seeds\<close>,
  \<^verbatim>\<open>new_backfeed\<close> bumps \<open>backfeed\<close>, \<^verbatim>\<open>pending_fuzz.inc()\<close> bumps
  \<open>pending_fuzz\<close>; \<open>cancelled\<close> is the flag that \<^verbatim>\<open>cancel()\<close> sets.\<close>

record FuzzStats =
  pending_seeds :: int
  pending_fuzz :: int
  backfeed :: int
  cancelled :: bool
  seed_list :: "string list"

definition new_seed :: "FuzzStats \<Rightarrow> FuzzStats" where
  "new_seed stats = stats\<lparr>pending_seeds := pending_seeds stats + 1\<rparr>"

definition new_backfeed :: "FuzzStats \<Rightarrow> FuzzStats" where
  "new_backfeed stats = stats\<lparr>backfeed := backfeed stats + 1\<rparr>"

text \<open>The routing stage: the session, the stats, what has been put on the two routes
  (the input of the seed stage and the input of the transport stage), and its own
  output.\<close>

record routing =
  session :: FuzzSession
  compiled_stats :: FuzzStats
  route_seed :: "FuzzResult list"
  route_backfeed :: "FuzzResult list"
  routing_out :: stage_out

definition new_routing :: routing where
  "new_routing = \<lparr>session = new_session,
     compiled_stats = \<lparr>pending_seeds = 0, pending_fuzz = 0, backfeed = 0, cancelled = False,
       seed_list = []\<rparr>,
     route_seed = [], route_backfeed = [], routing_out = empty_out\<rparr>"

definition RoutingQ_process :: "routing \<Rightarrow> FuzzResult \<Rightarrow> routing" where
  "RoutingQ_process q fuzz_result =
     (if item_type fuzz_result = SEED then
        (case assign_next_priority_level (session q) of
           (priority_level, session') \<Rightarrow>
             let fuzz_result' = fuzz_result\<lparr>priority := priority_level\<rparr>;
                 stats' = new_seed (compiled_stats q)
             in q\<lparr>session := session',
                  compiled_stats := stats'\<lparr>seed_list := seed_list stats' @ [url fuzz_result']\<rparr>,
                  route_seed := route_seed q @ [fuzz_result']\<rparr>)
      else if item_type fuzz_result = BACKFEED then
        q\<lparr>compiled_stats := new_backfeed (compiled_stats q),
          route_backfeed := route_backfeed q @ [fuzz_result]\<rparr>
      else q\<lparr>routing_out := send (routing_out q) fuzz_result\<rparr>)"

text \<open>A run of the stage over the items that reach it, with the log the claims are about:
  for every routed \<open>SEED\<close>, the priority the item arrived with and the priority it was
  routed with.\<close>

fun routed_seeds :: "routing \<Rightarrow> FuzzResult list \<Rightarrow> (int \<times> int) list" where
  "routed_seeds q [] = []"
| "routed_seeds q (fuzz_result # rest) =
     (if item_type fuzz_result = SEED
      then [(priority fuzz_result, priority (last (route_seed (RoutingQ_process q fuzz_result))))]
      else [])
     @ routed_seeds (RoutingQ_process q fuzz_result) rest"

text \<open>Modelled from the spec: the factories of factories/fuzzresfactory.py that synthesise
  a seed from a result are not among the sources. The spec has the items of a seed share
  the seed's priority ("their priority field, which is equal for siblings"; \<^verbatim>\<open>end_seed\<close>
  sends \<open>ENDSEED\<close> with \<^verbatim>\<open>compiled_seed.priority\<close>), and a synthesised seed is a copy of
  the result that caused it. So an item reaches routing with the priority of its cause:
  that of the start seed, \<open>p0\<close>, or that of a seed routed earlier in the run.\<close>

fun well_caused :: "int \<Rightarrow> routing \<Rightarrow> FuzzResult list \<Rightarrow> bool" where
  "well_caused p0 q [] = True"
| "well_caused p0 q (fuzz_result # rest) =
     ((priority fuzz_result = p0 \<or> priority fuzz_result \<in> priority ` set (route_seed q)) \<and>
      well_caused p0 (RoutingQ_process q fuzz_result) rest)"

text \<open>Concrete seeds: two directories found under the start seed (priority 10), and one
  found under the first of them once it was routed with priority 20.\<close>

definition seed_at :: "string \<Rightarrow> int \<Rightarrow> FuzzResult" where
  "seed_at u p = \<lparr>item_type = SEED, priority = p, discarded = False, exception = None,
     url = u, history_url = u, history_method = ''GET'', code = 301, lines = 0, words = 0,
     chars = 0, rlevel = 1, plugin_rlevel = 0, backfeed_level = 0, from_plugin = False,
     is_baseline = False, plugins_res = []\<rparr>"

definition ex_run :: "FuzzResult list" where
  "ex_run = [seed_at ''http://h/admin/FUZZ'' 10, seed_at ''http://h/api/FUZZ'' 10,
             seed_at ''http://h/admin/users/FUZZ'' 20]"

section \<open>Python's decimal rendering of integers\<close>

function digits_of :: "nat \<Rightarrow> string" where
  "digits_of n =
     (if n < 10 then [''0123456789'' ! n]
      else digits_of (n div 10) @ [''0123456789'' ! (n mod 10)])"
  by pat_completeness auto
termination
  by (relation "measure id") auto

declare digits_of.simps [simp del]

text \<open>\<^verbatim>\<open>str(i)\<close> for an integer, as an f-string renders it.\<close>

definition str_int :: "int \<Rightarrow> string" where
  "str_int i = (if i < 0 then CHR ''-'' # digits_of (nat (- i)) else digits_of (nat i))"

section \<open>The URL cache (HttpCache)\<close>

text \<open>Modelled from the spec: \<^verbatim>\<open>HttpCache.check_cache\<close> of externals/reqresp/cache.py,
  which is not among the sources ("a set of URL keys partitioned by category",
  "\<^verbatim>\<open>check_cache(key, category, update)\<close> atomically tests membership and
  optionally inserts; returns prior membership"). The calls in fuzzqueues.py that pass no
  category mean \<open>processed\<close>, and those that pass no \<^verbatim>\<open>update\<close> insert.\<close>

datatype cache_type = Processed | Recursion

record HttpCache =
  cache_processed :: "string list"
  cache_recursion :: "string list"

definition check_cache :: "HttpCache \<Rightarrow> string \<Rightarrow> cache_type \<Rightarrow> bool \<Rightarrow> bool \<times> HttpCache" where
  "check_cache cache url_key ctype update =
     (case ctype of
        Processed \<Rightarrow>
          (url_key \<in> set (cache_processed cache),
           if update \<and> url_key \<notin> set (cache_processed cache)
           then cache\<lparr>cache_processed := cache_processed cache @ [url_key]\<rparr> else cache)
      | Recursion \<Rightarrow>
          (url_key \<in> set (cache_recursion cache),
           if update \<and> url_key \<notin> set (cache_recursion cache)
           then cache\<lparr>cache_recursion := cache_recursion cache @ [url_key]\<rparr> else cache))"

section \<open>The plugin stage (PluginExecutor.process_results)\<close>

text \<open>One output of a plugin, a \<^verbatim>\<open>FuzzPlugin\<close>: a message, an exception or a seed.
  \<open>pl_is_visible\<close> is what its method \<^verbatim>\<open>is_visible()\<close> returns; an empty message
  stands for a missing one (both are falsy).\<close>

record FuzzPlugin =
  pl_name :: string
  pl_message :: string
  pl_severity :: severity
  pl_exception :: "string option"
  pl_is_visible :: bool
  pl_seed :: "FuzzResult option"

text \<open>What is kept of a plugin output appended to \<^verbatim>\<open>plugins_res\<close>, and
  \<^verbatim>\<open>plugin_factory.create("plugin_from_finding", name, message, severity)\<close>.\<close>

definition finding_of :: "FuzzPlugin \<Rightarrow> finding" where
  "finding_of plugin = \<lparr>f_name = pl_name plugin, f_message = pl_message plugin,
     f_severity = pl_severity plugin\<rparr>"

definition plugin_from_finding :: "string \<Rightarrow> string \<Rightarrow> severity \<Rightarrow> finding" where
  "plugin_from_finding name message sev = \<lparr>f_name = name, f_message = message, f_severity = sev\<rparr>"

text \<open>What the executor reads from its surroundings. The scope check of the request
  object, the terminal colours and the network of the false-positive probe are
  collaborators and stay parameters; \<open>nets k\<close> is the network as the \<open>k\<close>-th probe of one
  call of \<^verbatim>\<open>process_results\<close> finds it.\<close>

record plugin_env =
  transport :: string
  domain_scope :: bool
  cancel_on_plugin_except :: bool
  max_plugin_rlevel :: int
  check_in_scope :: "FuzzResult \<Rightarrow> string \<Rightarrow> bool \<Rightarrow> bool"
  colour_string :: "string \<Rightarrow> string \<Rightarrow> string"
  probe_opts :: probe_options
  nets :: "nat \<Rightarrow> network"

text \<open>The state the loop works on: the result the plugins ran on, the per-plugin counters
  (\<^verbatim>\<open>queued_requests\<close>, \<^verbatim>\<open>queued_seeds\<close>) in insertion order, the cache, the
  stage's channels, the number of probes made and the seed types warned about.\<close>

record plugin_state =
  ps_result :: FuzzResult
  queued_dict :: "(string \<times> nat \<times> nat) list"
  ps_cache :: HttpCache
  ps_out :: stage_out
  ps_probes :: nat
  ps_warnings :: "FuzzType list"

datatype plugin_error = KeyError string

definition append_finding :: "plugin_state \<Rightarrow> finding \<Rightarrow> plugin_state" where
  "append_finding st f =
     st\<lparr>ps_result := (ps_result st)\<lparr>plugins_res := plugins_res (ps_result st) @ [f]\<rparr>\<rparr>"

text \<open>\<^verbatim>\<open>queued_dict[name]["queued_requests"] += 1\<close> and the same for the seeds: a
  missing name is a \<^verbatim>\<open>KeyError\<close>.\<close>

definition bump_requests :: "(string \<times> nat \<times> nat) list \<Rightarrow> string \<Rightarrow> (string \<times> nat \<times> nat) list option" where
  "bump_requests d name =
     (case map_of d name of
        None \<Rightarrow> None
      | Some (r, s) \<Rightarrow> Some (map (\<lambda>(k, v). if k = name then (k, (r + 1, s)) else (k, v)) d))"

definition bump_seeds :: "(string \<times> nat \<times> nat) list \<Rightarrow> string \<Rightarrow> (string \<times> nat \<times> nat) list option" where
  "bump_seeds d name =
     (case map_of d name of
        None \<Rightarrow> None
      | Some (r, s) \<Rightarrow> Some (map (\<lambda>(k, v). if k = name then (k, (r, s + 1)) else (k, v)) d))"

definition requeue_limit :: int where
  "requeue_limit = 15"

definition requeue_message :: "FuzzPlugin \<Rightarrow> FuzzResult \<Rightarrow> string" where
  "requeue_message plugin seed =
     ''Plugin '' @ pl_name plugin @ '': This request has been requeued '' @
     str_int requeue_limit @ '' times. '' @
     ''Will not enqueue an additional request to '' @ url seed"

text \<open>The last check before a seed is sent: the cache is asked again, this time
  inserting.\<close>

definition send_unless_cached :: "plugin_state \<Rightarrow> FuzzResult \<Rightarrow> cache_type \<Rightarrow> plugin_state" where
  "send_unless_cached st seed ctype =
     (case check_cache (ps_cache st) (history_url seed) ctype True of
        (cached, cache') \<Rightarrow>
          if \<not> cached then st\<lparr>ps_cache := cache', ps_out := send (ps_out st) seed\<rparr>
          else st\<lparr>ps_cache := cache'\<rparr>)"

text \<open>One turn of the \<^verbatim>\<open>while\<close> loop, for the output taken from the queue.\<close>

definition process_plugin :: "plugin_env \<Rightarrow> plugin_state \<Rightarrow> FuzzPlugin \<Rightarrow> plugin_error + plugin_state" where
  "process_plugin env st plugin =
     (case pl_exception plugin of
        Some e \<Rightarrow>
          Inr (append_finding
                 (if cancel_on_plugin_except env then st\<lparr>ps_out := throw (ps_out st) e\<rparr> else st)
                 (finding_of plugin))
      | None \<Rightarrow>
          if pl_message plugin \<noteq> [] \<and> pl_is_visible plugin
            then Inr (append_finding st (finding_of plugin))
          else (case pl_seed plugin of
            None \<Rightarrow> Inr st
          | Some seed \<Rightarrow>
              if transport env \<noteq> ''http/s'' then Inr st
              else if \<not> check_in_scope env (ps_result st) (history_url seed) (domain_scope env)
                then Inr st
              else if item_type seed = BACKFEED then
                (if fst (check_cache (ps_cache st) (url seed) Processed False) then Inr st
                 else if backfeed_level seed \<ge> requeue_limit then
                   Inr (append_finding st
                          (plugin_from_finding (pl_name plugin) (requeue_message plugin seed) INFO))
                 else (case bump_requests (queued_dict st) (pl_name plugin) of
                         None \<Rightarrow> Inl (KeyError (pl_name plugin))
                       | Some d \<Rightarrow> Inr (send_unless_cached (st\<lparr>queued_dict := d\<rparr>) seed Processed)))
              else if item_type seed = SEED then
                (if fst (check_cache (ps_cache st) (url seed) Recursion False) then Inr st
                 else if plugin_rlevel (ps_result st) \<ge> max_plugin_rlevel env then Inr st
                 else if fst (false_positive_hit (nets env (ps_probes st)) seed (probe_opts env))
                   then Inr (st\<lparr>ps_probes := ps_probes st + 1\<rparr>)
                 else (case bump_seeds (queued_dict st) (pl_name plugin) of
                         None \<Rightarrow> Inl (KeyError (pl_name plugin))
                       | Some d \<Rightarrow>
                           Inr (send_unless_cached
                                  (st\<lparr>queued_dict := d, ps_probes := ps_probes st + 1\<rparr>)
                                  seed Recursion)))
              else Inr (st\<lparr>ps_warnings := ps_warnings st @ [item_type seed]\<rparr>)))"

text \<open>The loop over the outputs the plugins left in the queue.\<close>

fun process_plugins :: "plugin_env \<Rightarrow> plugin_state \<Rightarrow> FuzzPlugin list \<Rightarrow> plugin_error + plugin_state" where
  "process_plugins env st [] = Inr st"
| "process_plugins env st (plugin # rest) =
     (case process_plugin env st plugin of
        Inl e \<Rightarrow> Inl e
      | Inr st' \<Rightarrow> process_plugins env st' rest)"

text \<open>The summary findings appended after the loop, per plugin in the order of
  \<^verbatim>\<open>queued_dict\<close>.\<close>

definition summary_findings :: "plugin_env \<Rightarrow> string \<times> nat \<times> nat \<Rightarrow> finding list" where
  "summary_findings env entry =
     (case entry of (plugin_name, queued_requests, queued_seeds) \<Rightarrow>
        (if queued_requests \<noteq> 0
         then [plugin_from_finding plugin_name
                 (''Plugin '' @ plugin_name @ '': Enqueued '' @
                  colour_string env ''fgYellow''
                    (str_int (int queued_requests) @ '' request'' @
                     (if queued_requests > 1 then ''s'' else '''')))
                 INFO]
         else []) @
        (if queued_seeds \<noteq> 0
         then [plugin_from_finding plugin_name
                 (''Plugin '' @ plugin_name @ '': Enqueued '' @
                  colour_string env ''fgRed''
                    (str_int (int queued_seeds) @ '' seed'' @
                     (if queued_seeds > 1 then ''s'' else '''')))
                 INFO]
         else []))"

definition process_results :: "plugin_env \<Rightarrow> plugin_state \<Rightarrow> FuzzPlugin list \<Rightarrow> plugin_error + plugin_state" where
  "process_results env st plugins_res_queue =
     (case process_plugins env st plugins_res_queue of
        Inl e \<Rightarrow> Inl e
      | Inr st' \<Rightarrow>
          Inr (fold (\<lambda>f s. append_finding s f)
                 (concat (map (summary_findings env) (queued_dict st'))) st'))"

text \<open>Concrete inputs: an executor over HTTP with everything in scope, a result the
  plugins ran on, and a plugin output asking to requeue a request that has been requeued
  15 times already.\<close>

definition ex_plugin_env :: plugin_env where
  "ex_plugin_env = \<lparr>transport = ''http/s'', domain_scope = False,
     cancel_on_plugin_except = False, max_plugin_rlevel = 2,
     check_in_scope = (\<lambda>r u d. True), colour_string = (\<lambda>c s. s),
     probe_opts = ex_options, nets = (\<lambda>k. net_of [])\<rparr>"

definition ex_plugin_state :: plugin_state where
  "ex_plugin_state = \<lparr>ps_result = ex_seed\<lparr>item_type := RESULT\<rparr>,
     queued_dict = [(''links'', 0, 0)],
     ps_cache = \<lparr>cache_processed = [''http://h/admin/''], cache_recursion = []\<rparr>,
     ps_out = empty_out, ps_probes = 0, ps_warnings = []\<rparr>"

definition backfeed_at :: "string \<Rightarrow> int \<Rightarrow> FuzzResult" where
  "backfeed_at u level = \<lparr>item_type = BACKFEED, priority = 10, discarded = False,
     exception = None, url = u, history_url = u, history_method = ''GET'', code = 0,
     lines = 0, words = 0, chars = 0, rlevel = 1, plugin_rlevel = 0,
     backfeed_level = level, from_plugin = True, is_baseline = False, plugins_res = []\<rparr>"

definition ex_backfeed_plugin :: "string \<Rightarrow> int \<Rightarrow> FuzzPlugin" where
  "ex_backfeed_plugin u level = \<lparr>pl_name = ''links'', pl_message = [], pl_severity = INFO,
     pl_exception = None, pl_is_visible = False, pl_seed = Some (backfeed_at u level)\<rparr>"

text \<open>The same executor for a result whose scope holds no URL.\<close>

definition ex_out_of_scope_env :: plugin_env where
  "ex_out_of_scope_env = ex_plugin_env\<lparr>check_in_scope := (\<lambda>r u d. False)\<rparr>"

section \<open>The seed stage (SeedQueue)\<close>

datatype FuzzWordType = WORD | FUZZRES

record FuzzWord =
  fw_content :: string
  fw_type :: FuzzWordType

text \<open>A payload tuple of the dictionary is a list of words, one per marker.\<close>

type_synonym dictio_item = "FuzzWord list"

text \<open>What the seed stage reads from the session and from other threads. The result
  factories and \<^verbatim>\<open>compile_dictio\<close> are not among the sources and stay parameters:
  they build a request from the current seed and a payload tuple, and the payload
  iterator for a seed. \<open>qsize_at k\<close> is what \<^verbatim>\<open>queue_out.qsize()\<close> returns at the
  \<open>k\<close>-th look of this stage, \<open>processed_at k\<close> what \<^verbatim>\<open>stats.processed()\<close> returns
  at its \<open>k\<close>-th look: both move with the threads that consume.\<close>

record seed_env =
  concurrent :: nat
  seed_payload :: bool
  limitrequests :: bool
  LIMITREQUESTS_THRESHOLD :: nat
  queued_requests :: nat
  start_url :: string
  compiled_baseline :: "FuzzResult option"
  seed_from_options_and_dict :: "FuzzResult \<Rightarrow> dictio_item \<Rightarrow> FuzzResult"
  fuzzres_from_options_and_dict :: "FuzzResult \<Rightarrow> dictio_item \<Rightarrow> FuzzResult"
  compile_dictio :: "FuzzResult \<Rightarrow> dictio_item list"
  qsize_at :: "nat \<Rightarrow> nat"
  processed_at :: "nat \<Rightarrow> nat"

text \<open>The stage's state: the current seed and what is left of its payload iterator, the
  cache, the stats, the channels, and how often the two counters of other threads have
  been looked at.\<close>

record seed_queue =
  compiled_seed :: FuzzResult
  compiled_dictio :: "dictio_item list"
  sq_cache :: HttpCache
  sq_stats :: FuzzStats
  sq_out :: stage_out
  sq_looks :: nat
  sq_waits :: nat

text \<open>The "poor man's blocking put" of \<^verbatim>\<open>SeedQueue.send\<close>: look at the size of the
  output queue until it is at most \<open>limit\<close>. The loop has no bound of its own; \<open>fuel\<close>
  bounds the looks, and \<open>None\<close> says the put has not happened within them. The result is
  the number of looks made so far.\<close>

fun wait_for_room :: "(nat \<Rightarrow> nat) \<Rightarrow> nat \<Rightarrow> nat \<Rightarrow> nat \<Rightarrow> nat option" where
  "wait_for_room qsize limit 0 look = None"
| "wait_for_room qsize limit (Suc fuel) look =
     (if qsize look > limit then wait_for_room qsize limit fuel (Suc look)
      else Some (Suc look))"

definition SeedQueue_send :: "seed_env \<Rightarrow> nat \<Rightarrow> seed_queue \<Rightarrow> FuzzResult \<Rightarrow> seed_queue option" where
  "SeedQueue_send env fuel q item =
     (if discarded item
      then Some (q\<lparr>sq_out := (sq_out q)\<lparr>queue_discard := queue_discard (sq_out q) @ [item]\<rparr>\<rparr>)
      else (case wait_for_room (qsize_at env) (concurrent env * 5) fuel (sq_looks q) of
              None \<Rightarrow> None
            | Some looks \<Rightarrow>
                Some (q\<lparr>sq_looks := looks,
                       sq_out := (sq_out q)\<lparr>queue_out := queue_out (sq_out q) @ [item]\<rparr>\<rparr>)))"

text \<open>Modelled from the spec: \<^verbatim>\<open>send_first\<close> and \<^verbatim>\<open>send_last\<close> of myqueues.py
  ("bypass ordering"; "guarantees queue-tail placement").\<close>

definition send_first :: "stage_out \<Rightarrow> FuzzResult \<Rightarrow> stage_out" where
  "send_first out item = out\<lparr>queue_out := item # queue_out out\<rparr>"

definition send_last :: "stage_out \<Rightarrow> FuzzResult \<Rightarrow> stage_out" where
  "send_last out item = out\<lparr>queue_out := queue_out out @ [item]\<rparr>"

text \<open>\<^verbatim>\<open>FuzzItem(item_type=FuzzType.ENDSEED)\<close> with the priority set by
  \<^verbatim>\<open>end_seed\<close>.\<close>

definition endseed_item :: "int \<Rightarrow> FuzzResult" where
  "endseed_item p = \<lparr>item_type = ENDSEED, priority = p, discarded = False, exception = None,
     url = [], history_url = [], history_method = [], code = 0, lines = 0, words = 0,
     chars = 0, rlevel = 0, plugin_rlevel = 0, backfeed_level = 0, from_plugin = False,
     is_baseline = False, plugins_res = []\<rparr>"

definition end_seed :: "seed_queue \<Rightarrow> seed_queue" where
  "end_seed q = q\<lparr>sq_out := send_last (sq_out q) (endseed_item (priority (compiled_seed q)))\<rparr>"

text \<open>\<^verbatim>\<open>get_fuzz_res\<close>. The loop never calls it with an empty tuple, for which
  \<^verbatim>\<open>dictio_item[0]\<close> would not exist.\<close>

definition get_fuzz_res :: "seed_env \<Rightarrow> seed_queue \<Rightarrow> dictio_item \<Rightarrow> FuzzResult" where
  "get_fuzz_res env q dictio_item =
     (if seed_payload env \<and> dictio_item \<noteq> [] \<and> fw_type (hd dictio_item) = FUZZRES
      then seed_from_options_and_dict env (compiled_seed q) dictio_item
      else fuzzres_from_options_and_dict env (compiled_seed q) dictio_item)"

text \<open>The three lines \<^verbatim>\<open>send_dictionary\<close> runs for the empty payload and for every
  payload tuple: build the request, and send it unless its URL is in the cache.\<close>

definition send_word :: "seed_env \<Rightarrow> nat \<Rightarrow> seed_queue \<Rightarrow> dictio_item \<Rightarrow> seed_queue option" where
  "send_word env fuel q fuzz_word =
     (let fuzz_result = get_fuzz_res env q fuzz_word
      in case check_cache (sq_cache q) (url fuzz_result) Processed True of
           (cached, cache') \<Rightarrow>
             if \<not> cached
             then SeedQueue_send env fuel
                    (q\<lparr>sq_cache := cache',
                       sq_stats := (sq_stats q)\<lparr>pending_fuzz := pending_fuzz (sq_stats q) + 1\<rparr>\<rparr>)
                    fuzz_result
             else Some (q\<lparr>sq_cache := cache'\<rparr>))"

text \<open>The \<^verbatim>\<open>while fuzz_word\<close> loop, with the tuple in hand and the rest of the
  iterator. \<^verbatim>\<open>time.sleep(self.delay)\<close> changes nothing here.\<close>

fun send_words :: "seed_env \<Rightarrow> nat \<Rightarrow> seed_queue \<Rightarrow> dictio_item \<Rightarrow> dictio_item list \<Rightarrow> seed_queue option" where
  "send_words env fuel q fuzz_word [] =
     (if fuzz_word = [] \<or> cancelled (sq_stats q) then Some (q\<lparr>compiled_dictio := []\<rparr>)
      else case send_word env fuel q fuzz_word of
             None \<Rightarrow> None
           | Some q' \<Rightarrow> Some (q'\<lparr>compiled_dictio := []\<rparr>))"
| "send_words env fuel q fuzz_word (next_word # rest) =
     (if fuzz_word = [] \<or> cancelled (sq_stats q)
        then Some (q\<lparr>compiled_dictio := next_word # rest\<rparr>)
      else case send_word env fuel q fuzz_word of
             None \<Rightarrow> None
           | Some q' \<Rightarrow> send_words env fuel q' next_word rest)"

text \<open>\<^verbatim>\<open>send_dictionary\<close>. The result is \<open>None\<close> when a blocking put has not returned
  within the fuel; otherwise the exception raised, if any, and the state.\<close>

definition send_dictionary :: "seed_env \<Rightarrow> nat \<Rightarrow> seed_queue \<Rightarrow> (fuzz_exception option \<times> seed_queue) option" where
  "send_dictionary env fuel q =
     (case send_word env fuel q [\<lparr>fw_content = [], fw_type = WORD\<rparr>] of
        None \<Rightarrow> None
      | Some q1 \<Rightarrow>
          (case compiled_dictio q1 of
             [] \<Rightarrow> Some (Some (FuzzExceptBadOptions
                               ''Empty dictionary! Please check payload or filter.''), q1)
           | fuzz_word # rest \<Rightarrow>
               (case send_words env fuel (q1\<lparr>compiled_dictio := rest\<rparr>) fuzz_word rest of
                  None \<Rightarrow> None
                | Some q2 \<Rightarrow> Some (None, end_seed q2))))"

text \<open>\<^verbatim>\<open>send_baseline\<close>: after the baseline is sent the stage waits until another
  thread has processed something.\<close>

fun wait_for_processed :: "(nat \<Rightarrow> nat) \<Rightarrow> nat \<Rightarrow> nat \<Rightarrow> nat option" where
  "wait_for_processed processed 0 look = None"
| "wait_for_processed processed (Suc fuel) look =
     (if processed look = 0 then wait_for_processed processed fuel (Suc look)
      else Some (Suc look))"

definition send_baseline :: "seed_env \<Rightarrow> nat \<Rightarrow> seed_queue \<Rightarrow> seed_queue option" where
  "send_baseline env fuel q =
     (case compiled_baseline env of
        None \<Rightarrow> Some q
      | Some fuzz_baseline \<Rightarrow>
          if pending_seeds (sq_stats q) = 1 then
            (let q1 = q\<lparr>sq_stats := (sq_stats q)\<lparr>pending_fuzz := pending_fuzz (sq_stats q) + 1\<rparr>,
                       sq_out := send_first (sq_out q) fuzz_baseline\<rparr>
             in if cancelled (sq_stats q1) then Some q1
                else (case wait_for_processed (processed_at env) fuel (sq_waits q1) of
                        None \<Rightarrow> None
                      | Some waits \<Rightarrow> Some (q1\<lparr>sq_waits := waits\<rparr>)))
          else Some q)"

definition add_initial_recursion_to_cache :: "seed_env \<Rightarrow> seed_queue \<Rightarrow> seed_queue" where
  "add_initial_recursion_to_cache env q =
     q\<lparr>sq_cache := snd (check_cache (sq_cache q) (str_replace (start_url env) ''FUZZ'' [])
                          Recursion True)\<rparr>"

definition restart :: "seed_env \<Rightarrow> seed_queue \<Rightarrow> FuzzResult \<Rightarrow> seed_queue" where
  "restart env q seed = q\<lparr>compiled_seed := seed, compiled_dictio := compile_dictio env seed\<rparr>"

definition send_baseline_and_dictionary ::
  "seed_env \<Rightarrow> nat \<Rightarrow> seed_queue \<Rightarrow> (fuzz_exception option \<times> seed_queue) option" where
  "send_baseline_and_dictionary env fuel q =
     (case send_baseline env fuel q of
        None \<Rightarrow> None
      | Some q' \<Rightarrow> send_dictionary env fuel q')"

definition SeedQueue_process ::
  "seed_env \<Rightarrow> nat \<Rightarrow> seed_queue \<Rightarrow> FuzzResult \<Rightarrow> (fuzz_exception option \<times> seed_queue) option" where
  "SeedQueue_process env fuel q fuzz_item =
     (if item_type fuzz_item \<noteq> STARTSEED \<and> item_type fuzz_item \<noteq> SEED
      then Some (Some (FuzzExceptInternalError ''SeedQueue: Unknown item type in queue!''), q)
      else
        (let q1 = (if item_type fuzz_item = STARTSEED
                   then (add_initial_recursion_to_cache env q)
                          \<lparr>sq_stats := new_seed (sq_stats (add_initial_recursion_to_cache env q))\<rparr>
                   else restart env q fuzz_item)
         in if limitrequests env then
              (if \<not> queued_requests env > LIMITREQUESTS_THRESHOLD env
               then send_baseline_and_dictionary env fuel q1
               else Some (None, end_seed q1))
            else send_baseline_and_dictionary env fuel q1))"

text \<open>Concrete inputs: a session with an empty wordlist, whose output queue has room at
  the second look.\<close>

definition ex_request :: "FuzzResult \<Rightarrow> dictio_item \<Rightarrow> FuzzResult" where
  "ex_request seed dictio_item =
     seed\<lparr>item_type := RESULT,
          url := str_replace (url seed) ''FUZZ'' (concat (map fw_content dictio_item))\<rparr>"

definition ex_seed_env :: seed_env where
  "ex_seed_env = \<lparr>concurrent = 2, seed_payload = False, limitrequests = False,
     LIMITREQUESTS_THRESHOLD = 1000, queued_requests = 0, start_url = ''http://h/FUZZ'',
     compiled_baseline = None, seed_from_options_and_dict = ex_request,
     fuzzres_from_options_and_dict = ex_request, compile_dictio = (\<lambda>seed. []),
     qsize_at = (\<lambda>k. if k = 0 then 11 else 3), processed_at = (\<lambda>k. k)\<rparr>"

definition ex_seed_queue :: seed_queue where
  "ex_seed_queue = \<lparr>compiled_seed = seed_at ''http://h/FUZZ'' 10, compiled_dictio = [],
     sq_cache = \<lparr>cache_processed = [], cache_recursion = []\<rparr>,
     sq_stats = \<lparr>pending_seeds = 1, pending_fuzz = 0, backfeed = 0, cancelled = False,
                 seed_list = []\<rparr>,
     sq_out = empty_out, sq_looks = 0, sq_waits = 0\<rparr>"

text \<open>The same session with the request limit active and the pool over its
  threshold.\<close>

definition ex_limited_env :: seed_env where
  "ex_limited_env = ex_seed_env\<lparr>limitrequests := True, queued_requests := 1001\<rparr>"

text \<open>The state in which \<^verbatim>\<open>process\<close> starts to emit: after the bookkeeping for a
  \<open>STARTSEED\<close>, or after \<^verbatim>\<open>restart\<close> for a \<open>SEED\<close>.\<close>

definition seed_to_emit :: "seed_env \<Rightarrow> seed_queue \<Rightarrow> FuzzResult \<Rightarrow> seed_queue" where
  "seed_to_emit env q fuzz_item =
     (if item_type fuzz_item = STARTSEED
      then (add_initial_recursion_to_cache env q)
             \<lparr>sq_stats := new_seed (sq_stats (add_initial_recursion_to_cache env q))\<rparr>
      else restart env q fuzz_item)"

section \<open>The filter expression language (FuzzResFilter)\<close>

subsection \<open>Values\<close>

text \<open>The Python values an expression computes with. \<open>PRes\<close> is a result object (the
  payload of a pre-built request), \<open>PObj\<close> any other object, by its name.\<close>

datatype pyval =
  PNone | PBool bool | PInt int | PStr string | PList "pyval list" |
  PDict "(pyval \<times> pyval) list" | PRes FuzzResult | PObj string

fun truthy :: "pyval \<Rightarrow> bool" where
  "truthy PNone = False"
| "truthy (PBool b) = b"
| "truthy (PInt i) = (i \<noteq> 0)"
| "truthy (PStr s) = (s \<noteq> [])"
| "truthy (PList xs) = (xs \<noteq> [])"
| "truthy (PDict d) = (d \<noteq> [])"
| "truthy (PRes r) = True"
| "truthy (PObj n) = True"

text \<open>\<^verbatim>\<open>a and b\<close>, \<^verbatim>\<open>a or b\<close> and \<^verbatim>\<open>not a\<close> on values that are already
  computed.\<close>

definition py_and :: "pyval \<Rightarrow> pyval \<Rightarrow> pyval" where
  "py_and a b = (if truthy a then b else a)"

definition py_or :: "pyval \<Rightarrow> pyval \<Rightarrow> pyval" where
  "py_or a b = (if truthy a then a else b)"

definition py_not :: "pyval \<Rightarrow> pyval" where
  "py_not a = PBool (\<not> truthy a)"

subsection \<open>The parsed expression\<close>

text \<open>The tokens that the grammar of \<^verbatim>\<open>FuzzResFilter.__init__\<close> builds, named after its
  elements. An \<open>operator_call\<close> carries the offset of its \<^verbatim>\<open>|\<close> in the expression
  (the \<^verbatim>\<open>l\<close> of its parse action) and the groups of its regular expression as they
  matched. The elements of \<^verbatim>\<open>finalformula\<close> are kept flat, as pyparsing hands them to
  \<^verbatim>\<open>__myreduce\<close>: a parenthesised group is one element, a \<^verbatim>\<open>definition_expr\<close>
  contributes each of its definitions.\<close>

datatype symbol =
  fuzz_symbol "int option" "string option" | res_symbol string | int_values int |
  quoted_str_value string

datatype call =
  no_call | diff_call symbol | operator_call nat string "string option" "string option"

datatype fuzz_statement = Statement symbol call

datatype right_side = error_value | right_statement fuzz_statement

datatype defn = symbol_expr fuzz_statement string right_side | plain fuzz_statement

datatype bool_operator = op_and | op_or

type_synonym definition_not = "bool \<times> defn"

type_synonym definition_expr = "definition_not \<times> (bool_operator \<times> definition_not) list"

datatype element = nested_definition_not bool definition_expr | single definition_not

type_synonym finalformula = "element \<times> (bool_operator \<times> element) list"

text \<open>What \<^verbatim>\<open>parseString\<close> has matched when it returns or raises. pyparsing runs
  the parse action of an element as soon as the element has matched, so the actions of
  what was matched before a failure have run. \<open>ParseResults\<close> is the match of the
  whole text. \<open>ParseException matched unclosed\<close> is the failure: \<open>matched\<close> holds the
  elements of \<^verbatim>\<open>finalformula\<close> that matched before the text that does not (it is
  \<open>None\<close> when already the first clause fails, and then the action of
  \<^verbatim>\<open>finalformula\<close> does not run), and \<open>unclosed\<close> the \<^verbatim>\<open>definition_expr\<close>
  that matched after an opening parenthesis whose closing parenthesis is missing: the
  actions of its definitions have run, the actions of the group have not.\<close>

datatype parsed =
  ParseResults finalformula | ParseException "finalformula option" "definition_expr option"

subsection \<open>What lies outside complexfilter.py\<close>

datatype set_operation = assign | operator_add | flipped_add | operator_sub

text \<open>The functions the filter calls and does not define: built-ins of Python, the
  \<^verbatim>\<open>re\<close> and \<^verbatim>\<open>urllib\<close> libraries, the helpers of helpers/
  (\<^verbatim>\<open>rgetattr\<close>, \<^verbatim>\<open>rsetattr\<close>, \<^verbatim>\<open>diff\<close>,
  \<^verbatim>\<open>value_in_any_list_item\<close>), the payload manager, and pyparsing for the
  expressions the parser below does not cover. They are parameters; each is a function,
  so the same call gives the same answer. An exception they raise is \<open>Inl\<close>.
  \<open>ERROR_CODE\<close> is the error code of facade.py as the stages of fuzzqueues.py import
  it.\<close>

record pylib =
  ERROR_CODE :: int
  repr_of :: "pyval \<Rightarrow> string"
  int_of :: "pyval \<Rightarrow> py_exception + int"
  eq_other :: "pyval \<Rightarrow> pyval \<Rightarrow> bool"
  obj_hashable :: "pyval \<Rightarrow> bool"
  str_lower :: "string \<Rightarrow> string"
  str_upper :: "string \<Rightarrow> string"
  str_strip :: "string \<Rightarrow> string"
  re_search :: "pyval \<Rightarrow> pyval \<Rightarrow> py_exception + bool"
  re_group1 :: "pyval \<Rightarrow> pyval \<Rightarrow> py_exception + pyval option"
  unquote :: "pyval \<Rightarrow> py_exception + pyval"
  diff :: "pyval \<Rightarrow> pyval \<Rightarrow> py_exception + pyval"
  value_in_any_list_item :: "pyval \<Rightarrow> pyval \<Rightarrow> py_exception + bool"
  rgetattr :: "pyval \<Rightarrow> string \<Rightarrow> py_exception + pyval"
  rsetattr :: "FuzzResult \<Rightarrow> string option \<Rightarrow> pyval \<Rightarrow> set_operation
                 \<Rightarrow> py_exception + FuzzResult"
  get_payload_content :: "FuzzResult \<Rightarrow> int \<Rightarrow> py_exception + pyval"
  pyparsing :: "string \<Rightarrow> parsed"
  parse_exception_text :: "string \<Rightarrow> string"

text \<open>\<^verbatim>\<open>str(x)\<close>, \<^verbatim>\<open>int(x)\<close> and \<^verbatim>\<open>x == y\<close>, fixed where Python fixes them for
  the simple values.\<close>

fun py_str :: "pylib \<Rightarrow> pyval \<Rightarrow> string" where
  "py_str lib PNone = ''None''"
| "py_str lib (PBool b) = (if b then ''True'' else ''False'')"
| "py_str lib (PInt i) = str_int i"
| "py_str lib (PStr s) = s"
| "py_str lib v = repr_of lib v"

fun py_int :: "pylib \<Rightarrow> pyval \<Rightarrow> py_exception + int" where
  "py_int lib (PInt i) = Inr i"
| "py_int lib (PBool b) = Inr (if b then 1 else 0)"
| "py_int lib v = int_of lib v"

fun number_of :: "pyval \<Rightarrow> int option" where
  "number_of (PInt i) = Some i"
| "number_of (PBool b) = Some (if b then 1 else 0)"
| "number_of v = None"

fun py_eq :: "pylib \<Rightarrow> pyval \<Rightarrow> pyval \<Rightarrow> bool" where
  "py_eq lib PNone PNone = True"
| "py_eq lib (PStr a) (PStr b) = (a = b)"
| "py_eq lib a b =
     (case (number_of a, number_of b) of
        (Some x, Some y) \<Rightarrow> x = y
      | (None, None) \<Rightarrow>
          (case (a, b) of
             (PNone, _) \<Rightarrow> False | (_, PNone) \<Rightarrow> False
           | (PStr _, _) \<Rightarrow> False | (_, PStr _) \<Rightarrow> False
           | _ \<Rightarrow> eq_other lib a b)
      | _ \<Rightarrow> False)"

fun hashable :: "pylib \<Rightarrow> pyval \<Rightarrow> bool" where
  "hashable lib (PList xs) = False"
| "hashable lib (PDict d) = False"
| "hashable lib (PRes r) = obj_hashable lib (PRes r)"
| "hashable lib (PObj n) = obj_hashable lib (PObj n)"
| "hashable lib v = True"

text \<open>\<^verbatim>\<open>a in b\<close> for strings: \<open>a\<close> occurs in \<open>b\<close>.\<close>

fun str_contains :: "string \<Rightarrow> string \<Rightarrow> bool" where
  "str_contains [] a = (a = [])"
| "str_contains (c # cs) a = (take (length a) (c # cs) = a \<or> str_contains cs a)"

text \<open>\<^verbatim>\<open>s.strip("'")\<close>.\<close>

definition strip_quotes :: "string \<Rightarrow> string" where
  "strip_quotes s =
     rev (dropWhile (\<lambda>c. c = CHR 0x27) (rev (dropWhile (\<lambda>c. c = CHR 0x27) s)))"

subsection \<open>Evaluation\<close>

text \<open>The attributes of a \<^verbatim>\<open>FuzzResFilter\<close> that evaluation reads and writes:
  \<^verbatim>\<open>filter_string\<close> (empty when there is none), \<^verbatim>\<open>stack\<close>, \<^verbatim>\<open>_cache\<close> (per
  offset of a \<^verbatim>\<open>unique\<close> call, the values seen) and \<^verbatim>\<open>fuzz_result\<close>.\<close>

record FuzzResFilter =
  filter_string :: string
  self_stack :: "string list"
  self_cache :: "nat \<Rightarrow> pyval list"
  self_fuzz_result :: FuzzResult

definition new_filter :: "string \<Rightarrow> FuzzResult \<Rightarrow> FuzzResFilter" where
  "new_filter s r = \<lparr>filter_string = s, self_stack = [], self_cache = (\<lambda>l. []),
     self_fuzz_result = r\<rparr>"

text \<open>A parse action works on the filter object and returns a value or raises; what it
  has changed before raising stays changed.\<close>

type_synonym 'a action = "FuzzResFilter \<Rightarrow> (fuzz_exception + 'a) \<times> FuzzResFilter"

definition returns :: "'a \<Rightarrow> 'a action" where
  "returns x self = (Inr x, self)"

definition raises :: "fuzz_exception \<Rightarrow> 'a action" where
  "raises e self = (Inl e, self)"

definition and_then :: "'a action \<Rightarrow> ('a \<Rightarrow> 'b action) \<Rightarrow> 'b action" where
  "and_then m f self = (case m self of (Inl e, self') \<Rightarrow> (Inl e, self')
                                     | (Inr x, self') \<Rightarrow> f x self')"

text \<open>The result of a library call inside an action: an exception is not caught
  here.\<close>

definition lift :: "py_exception + 'a \<Rightarrow> 'a action" where
  "lift r = (case r of Inl e \<Rightarrow> raises (Uncaught e) | Inr x \<Rightarrow> returns x)"

definition get_field_value :: "pylib \<Rightarrow> pyval \<Rightarrow> string \<Rightarrow> pyval action" where
  "get_field_value lib fuzz_val field self =
     (let self' = self\<lparr>self_stack := self_stack self @ [field]\<rparr>
      in case rgetattr lib fuzz_val field of
           Inl (IndexError m) \<Rightarrow>
             (Inl (FuzzExceptIncorrectFilter
                     ''Non existent FUZZ payload! Use a correct index.''), self')
         | Inl (AttributeError m) \<Rightarrow>
             (Inl (FuzzExceptIncorrectFilter
                     (''Attribute '' @ field @
                      '' not found in fuzzresult or using a string payload. '' @ m)), self')
         | Inl e \<Rightarrow> (Inl (Uncaught e), self')
         | Inr ret \<Rightarrow> (Inr ret, self'))"

definition compute_res_symbol :: "pylib \<Rightarrow> string \<Rightarrow> pyval action" where
  "compute_res_symbol lib field self =
     get_field_value lib (PRes (self_fuzz_result self)) field self"

definition compute_fuzz_symbol :: "pylib \<Rightarrow> int option \<Rightarrow> string option \<Rightarrow> pyval action" where
  "compute_fuzz_symbol lib index field self =
     (let p_index = (case index of Some i \<Rightarrow> i | None \<Rightarrow> 1)
      in case get_payload_content lib (self_fuzz_result self) p_index of
           Inl (IndexError m) \<Rightarrow>
             (Inl (FuzzExceptIncorrectFilter
                     ''Non existent FUZZ payload! Use a correct index.''), self)
         | Inl e \<Rightarrow> (Inl (Uncaught e), self)
         | Inr fuzz_val \<Rightarrow>
             (case field of
                Some f \<Rightarrow> if f \<noteq> [] then get_field_value lib fuzz_val f self
                          else (Inr fuzz_val, self)
              | None \<Rightarrow> (Inr fuzz_val, self)))"

fun compute_symbol :: "pylib \<Rightarrow> symbol \<Rightarrow> pyval action" where
  "compute_symbol lib (fuzz_symbol index field) = compute_fuzz_symbol lib index field"
| "compute_symbol lib (res_symbol field) = compute_res_symbol lib field"
| "compute_symbol lib (int_values i) = returns (PInt i)"
| "compute_symbol lib (quoted_str_value s) = returns (PStr s)"

text \<open>The string methods \<^verbatim>\<open>_get_operator_value\<close> calls on the value: they exist on
  strings only, and \<^verbatim>\<open>None\<close> is no argument for them.\<close>

definition method_replace :: "pyval \<Rightarrow> string option \<Rightarrow> string option \<Rightarrow> py_exception + pyval" where
  "method_replace fuzz_val param1 param2 =
     (case fuzz_val of
        PStr s \<Rightarrow> (case (param1, param2) of
                     (Some a, Some b) \<Rightarrow> Inr (PStr (str_replace s a b))
                   | _ \<Rightarrow> Inl (TypeError ''replace''))
      | _ \<Rightarrow> Inl (AttributeError ''replace''))"

definition method_upper :: "pylib \<Rightarrow> pyval \<Rightarrow> py_exception + pyval" where
  "method_upper lib fuzz_val =
     (case fuzz_val of PStr s \<Rightarrow> Inr (PStr (str_upper lib s))
                     | _ \<Rightarrow> Inl (AttributeError ''upper''))"

definition method_lower :: "pylib \<Rightarrow> pyval \<Rightarrow> py_exception + pyval" where
  "method_lower lib fuzz_val =
     (case fuzz_val of PStr s \<Rightarrow> Inr (PStr (str_lower lib s))
                     | _ \<Rightarrow> Inl (AttributeError ''lower''))"

definition method_startswith :: "pylib \<Rightarrow> pyval \<Rightarrow> string option \<Rightarrow> py_exception + pyval" where
  "method_startswith lib fuzz_val param1 =
     (case fuzz_val of
        PStr s \<Rightarrow> (case param1 of
                     Some a \<Rightarrow> Inr (PBool (take (length a) (str_strip lib s) = a))
                   | None \<Rightarrow> Inl (TypeError ''startswith''))
      | _ \<Rightarrow> Inl (AttributeError ''strip''))"

text \<open>The branch of \<^verbatim>\<open>_get_operator_value\<close> for \<^verbatim>\<open>gregex\<close>: the first group of the
  first match, or the empty string.\<close>

definition gregex_value :: "pylib \<Rightarrow> string option \<Rightarrow> pyval \<Rightarrow> pyval action" where
  "gregex_value lib param1 fuzz_val =
     (case re_group1 lib (case param1 of Some p \<Rightarrow> PStr p | None \<Rightarrow> PNone) fuzz_val of
        Inl (re_error m) \<Rightarrow>
          raises (FuzzExceptBadOptions (''Invalid regex expression used in expression: '' @ m))
      | Inl e \<Rightarrow> raises (Uncaught e)
      | Inr None \<Rightarrow> returns (PStr [])
      | Inr (Some g) \<Rightarrow> returns g)"

text \<open>The branch for \<^verbatim>\<open>unique\<close>: \<^verbatim>\<open>True\<close> and the value remembered when the
  value is not yet in the set kept for this call, \<^verbatim>\<open>False\<close> otherwise.\<close>

definition unique_value :: "pylib \<Rightarrow> nat \<Rightarrow> pyval \<Rightarrow> pyval action" where
  "unique_value lib location fuzz_val self =
     (if \<not> hashable lib fuzz_val then (Inl (Uncaught (TypeError ''unhashable'')), self)
      else if \<not> (\<exists>x \<in> set (self_cache self location). py_eq lib x fuzz_val)
        then (Inr (PBool True),
              self\<lparr>self_cache := (self_cache self)
                      (location := self_cache self location @ [fuzz_val])\<rparr>)
      else (Inr (PBool False), self))"

text \<open>\<^verbatim>\<open>_get_operator_value\<close>. \<open>raw1\<close> and \<open>raw2\<close> are the groups \<^verbatim>\<open>param1\<close> and
  \<^verbatim>\<open>param2\<close> as matched; a non-empty one loses its quotes first. The branches for
  \<^verbatim>\<open>encode\<close> and \<^verbatim>\<open>decode\<close> call \<^verbatim>\<open>Facade()\<close>, a name the module imports
  under \<^verbatim>\<open>TYPE_CHECKING\<close> only: when they run the name is not defined, and the
  \<^verbatim>\<open>NameError\<close> is caught nowhere in the filter.\<close>

definition get_operator_value ::
  "pylib \<Rightarrow> nat \<Rightarrow> pyval \<Rightarrow> string \<Rightarrow> string option \<Rightarrow> string option \<Rightarrow> pyval action" where
  "get_operator_value lib location fuzz_val op raw1 raw2 =
     (let param1 = (case raw1 of Some p \<Rightarrow> if p \<noteq> [] then Some (strip_quotes p) else Some p
                               | None \<Rightarrow> None);
          param2 = (case raw2 of Some p \<Rightarrow> if p \<noteq> [] then Some (strip_quotes p) else Some p
                               | None \<Rightarrow> None)
      in if (op = ''un'' \<or> op = ''unquote'') \<and> param1 = None \<and> param2 = None
           then lift (unquote lib fuzz_val)
         else if (op = ''e'' \<or> op = ''encode'') \<and> param1 \<noteq> None \<and> param2 = None
           then raises (Uncaught (NameError ''Facade''))
         else if (op = ''d'' \<or> op = ''decode'') \<and> param1 \<noteq> None \<and> param2 = None
           then raises (Uncaught (NameError ''Facade''))
         else if op = ''r'' \<or> op = ''replace''
           then lift (method_replace fuzz_val param1 param2)
         else if op = ''upper''
           then lift (method_upper lib fuzz_val)
         else if op = ''lower'' \<or> op = ''l''
           then lift (method_lower lib fuzz_val)
         else if op = ''gregex'' \<or> op = ''gre''
           then gregex_value lib param1 fuzz_val
         else if op = ''startswith'' \<or> op = ''sw''
           then lift (method_startswith lib fuzz_val param1)
         else if op = ''unique'' \<or> op = ''u''
           then unique_value lib location fuzz_val
         else raises (FuzzExceptBadOptions
                        ''Bad format, expression should be m,d,e,r,s(value,value)''))"

text \<open>\<^verbatim>\<open>__compute_res_value\<close>, for a \<^verbatim>\<open>fuzz_statement\<close>: the symbol, then the symbol
  inside a \<^verbatim>\<open>diff\<close> call, in the order of the text.\<close>

fun compute_res_value :: "pylib \<Rightarrow> fuzz_statement \<Rightarrow> pyval action" where
  "compute_res_value lib (Statement symb no_call) = compute_symbol lib symb"
| "compute_res_value lib (Statement symb (diff_call symb2)) =
     and_then (compute_symbol lib symb) (\<lambda>fuzz_val.
     and_then (compute_symbol lib symb2) (\<lambda>operator_match.
       lift (diff lib operator_match fuzz_val)))"
| "compute_res_value lib (Statement symb (operator_call location op param1 param2)) =
     and_then (compute_symbol lib symb) (\<lambda>fuzz_val.
       get_operator_value lib location fuzz_val op param1 param2)"

text \<open>The right-hand side of a comparison. \<^verbatim>\<open>__compute_xxx_value\<close> returns
  \<^verbatim>\<open>ERROR_CODE\<close>, which the module imports under \<^verbatim>\<open>TYPE_CHECKING\<close> only, so
  the parse action of \<^verbatim>\<open>XXX\<close> raises a \<^verbatim>\<open>NameError\<close>.\<close>

fun compute_right_side :: "pylib \<Rightarrow> right_side \<Rightarrow> pyval action" where
  "compute_right_side lib error_value = raises (Uncaught (NameError ''ERROR_CODE''))"
| "compute_right_side lib (right_statement st) = compute_res_value lib st"

text \<open>The first lines of \<^verbatim>\<open>__compute_expr\<close>: drop the field of the right-hand side,
  take the field to set.\<close>

definition pop_field_to_set :: "(string option) action" where
  "pop_field_to_set self =
     (let stack1 = (if length (self_stack self) > 1 then butlast (self_stack self)
                    else self_stack self)
      in if stack1 \<noteq> [] then (Inr (Some (last stack1)), self\<lparr>self_stack := butlast stack1\<rparr>)
         else (Inr None, self\<lparr>self_stack := stack1\<rparr>))"

text \<open>The \<^verbatim>\<open>except\<close> clauses of \<^verbatim>\<open>__compute_expr\<close>.\<close>

definition caught :: "py_exception \<Rightarrow> fuzz_exception" where
  "caught e =
     (case e of
        re_error m \<Rightarrow> FuzzExceptBadOptions (''Invalid regex expression used in expression: '' @ m)
      | TypeError m \<Rightarrow> FuzzExceptBadOptions (''Invalid operand types used in expression: '' @ m)
      | _ \<Rightarrow> Uncaught e)"

definition attempt :: "py_exception + 'a \<Rightarrow> 'a action" where
  "attempt r = (case r of Inl e \<Rightarrow> raises (caught e) | Inr x \<Rightarrow> returns x)"

definition compare_ints ::
  "pylib \<Rightarrow> (int \<Rightarrow> int \<Rightarrow> bool) \<Rightarrow> pyval \<Rightarrow> pyval \<Rightarrow> pyval action" where
  "compare_ints lib rel leftvalue rightvalue =
     and_then (attempt (py_int lib leftvalue)) (\<lambda>a.
     and_then (attempt (py_int lib rightvalue)) (\<lambda>b.
       returns (PBool (rel a b))))"

text \<open>The operand of \<^verbatim>\<open>~\<close> and \<^verbatim>\<open>!~\<close>: containment, by the type of the left
  value.\<close>

definition contains_value :: "pylib \<Rightarrow> pyval \<Rightarrow> pyval \<Rightarrow> bool action" where
  "contains_value lib leftvalue rightvalue =
     (case leftvalue of
        PStr ls \<Rightarrow>
          (case rightvalue of
             PStr rs \<Rightarrow> returns (str_contains (str_lower lib ls) (str_lower lib rs))
           | _ \<Rightarrow> raises (Uncaught (AttributeError ''lower'')))
      | PList xs \<Rightarrow> attempt (value_in_any_list_item lib rightvalue leftvalue)
      | PDict d \<Rightarrow>
          (case rightvalue of
             PStr rs \<Rightarrow> returns (str_contains (str_lower lib (py_str lib leftvalue))
                                   (str_lower lib rs))
           | _ \<Rightarrow> raises (Uncaught (AttributeError ''lower'')))
      | _ \<Rightarrow> raises (FuzzExceptBadOptions (''Invalid operand type '' @ py_str lib rightvalue)))"

definition set_field ::
  "pylib \<Rightarrow> string option \<Rightarrow> pyval \<Rightarrow> set_operation \<Rightarrow> pyval action" where
  "set_field lib field_to_set rightvalue operation self =
     (case rsetattr lib (self_fuzz_result self) field_to_set rightvalue operation of
        Inl e \<Rightarrow> (Inl (caught e), self)
      | Inr r \<Rightarrow> (Inr (PBool True), self\<lparr>self_fuzz_result := r\<rparr>))"

definition compute_expr :: "pylib \<Rightarrow> pyval \<Rightarrow> string \<Rightarrow> pyval \<Rightarrow> pyval action" where
  "compute_expr lib leftvalue exp_operator rightvalue =
     and_then pop_field_to_set (\<lambda>field_to_set.
       if exp_operator = ''='' \<or> exp_operator = ''==''
         then returns (PBool (py_str lib leftvalue = py_str lib rightvalue))
       else if exp_operator = ''<='' then compare_ints lib (\<le>) leftvalue rightvalue
       else if exp_operator = ''>='' then compare_ints lib (\<ge>) leftvalue rightvalue
       else if exp_operator = ''<'' then compare_ints lib (<) leftvalue rightvalue
       else if exp_operator = ''>'' then compare_ints lib (>) leftvalue rightvalue
       else if exp_operator = ''!='' then returns (PBool (\<not> py_eq lib leftvalue rightvalue))
       else if exp_operator = ''=~''
         then and_then (attempt (re_search lib rightvalue leftvalue)) (\<lambda>found.
                returns (PBool found))
       else if exp_operator = ''!~'' \<or> exp_operator = ''~''
         then and_then (contains_value lib leftvalue rightvalue) (\<lambda>ret.
                returns (PBool (if exp_operator = ''~'' then ret else \<not> ret)))
       else if exp_operator = '':=''
         then set_field lib field_to_set rightvalue assign
       else if exp_operator = ''=+''
         then set_field lib field_to_set rightvalue operator_add
       else if exp_operator = ''=-''
         then (case rightvalue of
                 PStr s \<Rightarrow> set_field lib field_to_set rightvalue flipped_add
               | _ \<Rightarrow> set_field lib field_to_set rightvalue operator_sub)
       else returns (PBool True))"

fun compute_defn :: "pylib \<Rightarrow> defn \<Rightarrow> pyval action" where
  "compute_defn lib (symbol_expr st exp_operator rs) =
     and_then (compute_res_value lib st) (\<lambda>leftvalue.
     and_then (compute_right_side lib rs) (\<lambda>rightvalue.
       compute_expr lib leftvalue exp_operator rightvalue))"
| "compute_defn lib (plain st) = compute_res_value lib st"

text \<open>\<^verbatim>\<open>__compute_not_operator\<close>.\<close>

definition compute_not_operator :: "bool \<Rightarrow> pyval \<Rightarrow> pyval" where
  "compute_not_operator negated v = (if negated then py_not v else v)"

definition compute_definition_not :: "pylib \<Rightarrow> definition_not \<Rightarrow> pyval action" where
  "compute_definition_not lib dn =
     and_then (compute_defn lib (snd dn)) (\<lambda>v. returns (compute_not_operator (fst dn) v))"

fun compute_definitions ::
  "pylib \<Rightarrow> (bool_operator \<times> definition_not) list \<Rightarrow> ((bool_operator \<times> pyval) list) action" where
  "compute_definitions lib [] = returns []"
| "compute_definitions lib (od # rest) =
     and_then (compute_definition_not lib (snd od)) (\<lambda>v.
     and_then (compute_definitions lib rest) (\<lambda>vs.
       returns ((fst od, v) # vs)))"

text \<open>\<^verbatim>\<open>__myreduce\<close>, on values that are all computed already: it folds them from the
  left and empties the stack.\<close>

definition reduce_step :: "pyval \<Rightarrow> bool_operator \<times> pyval \<Rightarrow> pyval" where
  "reduce_step first ov = (case fst ov of op_and \<Rightarrow> py_and first (snd ov)
                                        | op_or \<Rightarrow> py_or first (snd ov))"

definition myreduce :: "pyval \<Rightarrow> (bool_operator \<times> pyval) list \<Rightarrow> pyval action" where
  "myreduce first rest self = (Inr (foldl reduce_step first rest), self\<lparr>self_stack := []\<rparr>)"

definition compute_definition_expr ::
  "pylib \<Rightarrow> definition_expr \<Rightarrow> (pyval \<times> (bool_operator \<times> pyval) list) action" where
  "compute_definition_expr lib de =
     and_then (compute_definition_not lib (fst de)) (\<lambda>v.
     and_then (compute_definitions lib (snd de)) (\<lambda>vs.
       returns (v, vs)))"

fun compute_element :: "pylib \<Rightarrow> element \<Rightarrow> pyval action" where
  "compute_element lib (nested_definition_not negated de) =
     and_then (compute_definition_expr lib de) (\<lambda>tokens.
     and_then (myreduce (fst tokens) (snd tokens)) (\<lambda>v.
       returns (compute_not_operator negated v)))"
| "compute_element lib (single dn) = compute_definition_not lib dn"

fun compute_elements ::
  "pylib \<Rightarrow> (bool_operator \<times> element) list \<Rightarrow> ((bool_operator \<times> pyval) list) action" where
  "compute_elements lib [] = returns []"
| "compute_elements lib (oe # rest) =
     and_then (compute_element lib (snd oe)) (\<lambda>v.
     and_then (compute_elements lib rest) (\<lambda>vs.
       returns ((fst oe, v) # vs)))"

definition compute_finalformula :: "pylib \<Rightarrow> finalformula \<Rightarrow> pyval action" where
  "compute_finalformula lib formula =
     and_then (compute_element lib (fst formula)) (\<lambda>v.
     and_then (compute_elements lib (snd formula)) (\<lambda>vs.
       myreduce v vs))"

text \<open>The actions that have run when the parse fails: those of the definitions inside a
  parenthesis that is not closed, without \<^verbatim>\<open>__compute_formula\<close> and
  \<^verbatim>\<open>__compute_not_operator\<close> of the group; before them those of the elements
  matched, and after them \<^verbatim>\<open>__myreduce\<close> of \<^verbatim>\<open>finalformula\<close>, which matched
  up to there. The values are dropped with the failure.\<close>

definition compute_unclosed :: "pylib \<Rightarrow> definition_expr option \<Rightarrow> unit action" where
  "compute_unclosed lib unclosed =
     (case unclosed of
        None \<Rightarrow> returns ()
      | Some de \<Rightarrow> and_then (compute_definition_expr lib de) (\<lambda>tokens. returns ()))"

definition compute_matched ::
  "pylib \<Rightarrow> finalformula option \<Rightarrow> definition_expr option \<Rightarrow> unit action" where
  "compute_matched lib matched unclosed =
     (case matched of
        None \<Rightarrow> compute_unclosed lib unclosed
      | Some formula \<Rightarrow>
          and_then (compute_element lib (fst formula)) (\<lambda>v.
          and_then (compute_elements lib (snd formula)) (\<lambda>vs.
          and_then (compute_unclosed lib unclosed) (\<lambda>u.
          and_then (myreduce v vs) (\<lambda>w. returns ())))))"

subsection \<open>Parsing\<close>

text \<open>The grammar of \<^verbatim>\<open>FuzzResFilter.__init__\<close>, read the way pyparsing reads it: each
  element skips white space and then matches at the position reached, a sequence fails
  as a whole when one of its parts fails, and nothing matched is given up again. The
  alternatives of \<^verbatim>\<open>^\<close> are tried without their actions and the longest is then
  matched with them, so a \<^verbatim>\<open>definition\<close> that fails has run no action; the
  alternatives of \<^verbatim>\<open>|\<close> and the repetitions run the actions of what they match,
  also when they fail later. The parser below is that grammar for the expressions written with lower-case letters,
  digits, white space and the characters \<^verbatim>\<open>( ) = ! < > ~ : + - . _ | ,\<close> only. Such
  an expression holds no payload symbol (\<^verbatim>\<open>FUZ\<close>), no \<^verbatim>\<open>XXX\<close> and no quoted
  string (\<^verbatim>\<open>'\<close>), so its terms are result symbols and integers, and the parameters
  of its calls are integers. For every other expression the parse is
  \<open>pyparsing lib\<close>.\<close>

definition is_whitespace :: "char \<Rightarrow> bool" where
  "is_whitespace c = (c \<in> set [CHR '' '', CHR 0x0A, CHR 0x09, CHR 0x0D])"

definition is_digit :: "char \<Rightarrow> bool" where
  "is_digit c = (c \<in> set ''0123456789'')"

definition is_lower :: "char \<Rightarrow> bool" where
  "is_lower c = (c \<in> set ''abcdefghijklmnopqrstuvwxyz'')"

definition in_fragment :: "string \<Rightarrow> bool" where
  "in_fragment s =
     (\<forall>c \<in> set s. is_lower c \<or> is_digit c \<or> is_whitespace c \<or> c \<in> set ''()=!<>~:+-._|,'')"

definition skip_whitespace :: "string \<Rightarrow> string" where
  "skip_whitespace s = dropWhile is_whitespace s"

text \<open>A parser gives what it matched and the rest of the text, or fails.\<close>

type_synonym 'a parser = "string \<Rightarrow> ('a \<times> string) option"

definition starts_with :: "string \<Rightarrow> string \<Rightarrow> bool" where
  "starts_with lit s = (take (length lit) s = lit)"

text \<open>\<^verbatim>\<open>oneOf\<close> of the given words: the first of them that the text starts with. A
  word stands before every word it begins, as \<^verbatim>\<open>oneOf\<close> reorders them.\<close>

definition one_of :: "string list \<Rightarrow> string parser" where
  "one_of lits s =
     (let s' = skip_whitespace s
      in case find (\<lambda>lit. starts_with lit s') lits of
           None \<Rightarrow> None
         | Some lit \<Rightarrow> Some (lit, drop (length lit) s'))"

text \<open>\<^verbatim>\<open>ZeroOrMore\<close>: repeat while the element matches. Every element of this grammar
  consumes text when it matches; the comparison of lengths says so to the termination
  proof.\<close>

function many :: "'a parser \<Rightarrow> string \<Rightarrow> 'a list \<times> string" where
  "many p s =
     (case p s of
        None \<Rightarrow> ([], s)
      | Some (x, s') \<Rightarrow>
          if length s' < length s
          then (case many p s' of (xs, s'') \<Rightarrow> (x # xs, s''))
          else ([], s))"
  by pat_completeness auto
termination
  by (relation "measure (\<lambda>(p, s). length s)") auto

declare many.simps [simp del]

definition int_of_digits :: "string \<Rightarrow> int" where
  "int_of_digits ds = foldl (\<lambda>acc c. 10 * acc + (int (of_char c) - 48)) 0 ds"

definition parse_int_values :: "symbol parser" where
  "parse_int_values s =
     (let s' = skip_whitespace s; ds = takeWhile is_digit s'
      in if ds = [] then None else Some (int_values (int_of_digits ds), dropWhile is_digit s'))"

text \<open>The regular expression of \<^verbatim>\<open>res_symbol\<close>: its alternatives in their order, the
  first that matches wins; \<^verbatim>\<open>r\<close>, \<^verbatim>\<open>history\<close> and \<^verbatim>\<open>plugins\<close> take every
  following word character, dash and dot.\<close>

definition is_path_char :: "char \<Rightarrow> bool" where
  "is_path_char c =
     (is_lower c \<or> is_digit c \<or> c \<in> set ''ABCDEFGHIJKLMNOPQRSTUVWXYZ_-.'')"

definition parse_res_symbol :: "symbol parser" where
  "parse_res_symbol s =
     (let s' = skip_whitespace s
      in case find (\<lambda>n. starts_with n s')
                [''description'', ''nres'', ''code'', ''chars'', ''lines'', ''words'', ''md5'',
                 ''content'', ''timer'', ''url'', ''l'', ''w'', ''c''] of
           Some n \<Rightarrow> Some (res_symbol n, drop (length n) s')
         | None \<Rightarrow>
             (case find (\<lambda>n. starts_with n s') [''r'', ''history'', ''plugins''] of
                Some n \<Rightarrow>
                  Some (res_symbol (n @ takeWhile is_path_char (drop (length n) s')),
                        dropWhile is_path_char (drop (length n) s'))
              | None \<Rightarrow>
                  if starts_with ''h'' s' then Some (res_symbol ''h'', drop 1 s') else None))"

text \<open>\<^verbatim>\<open>(fuzz_symbol | res_symbol | int_values | quoted_str_value)\<close>, of which the
  second and the third can match here.\<close>

definition parse_symbol :: "symbol parser" where
  "parse_symbol s =
     (case parse_res_symbol s of
        Some r \<Rightarrow> Some r
      | None \<Rightarrow> parse_int_values s)"

text \<open>\<^verbatim>\<open>diff_call\<close>: its four literals and its symbol are elements of their own, with
  white space allowed between them.\<close>

definition parse_diff_call :: "call parser" where
  "parse_diff_call s =
     (case one_of [''|''] s of
        None \<Rightarrow> None
      | Some (b, s1) \<Rightarrow>
          (case one_of [''diff''] s1 of
             None \<Rightarrow> None
           | Some (d, s2) \<Rightarrow>
               (case one_of [''(''] s2 of
                  None \<Rightarrow> None
                | Some (l, s3) \<Rightarrow>
                    (case parse_symbol s3 of
                       None \<Rightarrow> None
                     | Some (symb, s4) \<Rightarrow>
                         (case one_of ['')''] s4 of
                            None \<Rightarrow> None
                          | Some (r, s5) \<Rightarrow> Some (diff_call symb, s5))))))"

text \<open>The regular expression of \<^verbatim>\<open>operator_call\<close>, one element without inner white
  space: the bar, an operator name that reaches to the opening parenthesis, no
  parameter, one, or two separated by a comma, and the closing parenthesis. With no
  quote in the text a parameter is a run of digits. \<open>n\<close> is the length of the whole
  expression, from which the offset of the bar follows.\<close>

definition operator_names :: "string list" where
  "operator_names = [''m'', ''d'', ''e'', ''un'', ''u'', ''r'', ''l'', ''sw'', ''gre'', ''gregex'',
     ''unique'', ''startswith'', ''decode'', ''encode'', ''unquote'', ''replace'', ''lower'',
     ''upper'']"

definition parse_operator_call :: "nat \<Rightarrow> call parser" where
  "parse_operator_call n s =
     (let s' = skip_whitespace s; location = n - length s'
      in if \<not> starts_with ''|'' s' then None
         else
           (let name = takeWhile (\<lambda>c. c \<noteq> CHR ''('') (drop 1 s');
                s1 = dropWhile (\<lambda>c. c \<noteq> CHR ''('') (drop 1 s')
            in if name \<notin> set operator_names \<or> \<not> starts_with ''('' s1 then None
               else
                 (let param1 = takeWhile is_digit (drop 1 s1);
                      s2 = dropWhile is_digit (drop 1 s1)
                  in if param1 = [] then
                       (if starts_with '')'' s2
                        then Some (operator_call location name None None, drop 1 s2)
                        else None)
                     else if starts_with '')'' s2
                       then Some (operator_call location name (Some param1) None, drop 1 s2)
                     else if starts_with '','' s2 then
                       (let param2 = takeWhile is_digit (drop 1 s2);
                            s3 = dropWhile is_digit (drop 1 s2)
                        in if param2 \<noteq> [] \<and> starts_with '')'' s3
                           then Some (operator_call location name (Some param1) (Some param2),
                                      drop 1 s3)
                           else None)
                     else None)))"

text \<open>\<^verbatim>\<open>fuzz_statement\<close>: a symbol and \<^verbatim>\<open>Optional(diff_call | operator_call, None)\<close>.\<close>

definition parse_fuzz_statement :: "nat \<Rightarrow> fuzz_statement parser" where
  "parse_fuzz_statement n s =
     (case parse_symbol s of
        None \<Rightarrow> None
      | Some (symb, s1) \<Rightarrow>
          (case parse_diff_call s1 of
             Some (c, s2) \<Rightarrow> Some (Statement symb c, s2)
           | None \<Rightarrow>
               (case parse_operator_call n s1 of
                  Some (c, s2) \<Rightarrow> Some (Statement symb c, s2)
                | None \<Rightarrow> Some (Statement symb no_call, s1))))"

definition parse_symbol_expr :: "nat \<Rightarrow> defn parser" where
  "parse_symbol_expr n s =
     (case parse_fuzz_statement n s of
        None \<Rightarrow> None
      | Some (st, s1) \<Rightarrow>
          (case one_of [''=='', ''!='', ''>='', ''<='', ''=~'', ''!~'', '':='', ''=+'', ''=-'',
                        ''='', ''<'', ''>'', ''~''] s1 of
             None \<Rightarrow> None
           | Some (exp_operator, s2) \<Rightarrow>
               (case parse_fuzz_statement n s2 of
                  None \<Rightarrow> None
                | Some (rs, s3) \<Rightarrow> Some (symbol_expr st exp_operator (right_statement rs), s3))))"

text \<open>\<^verbatim>\<open>symbol_expr ^ fuzz_statement\<close>: the longer match, which is the comparison when
  there is one.\<close>

definition parse_defn :: "nat \<Rightarrow> defn parser" where
  "parse_defn n s =
     (case parse_symbol_expr n s of
        Some r \<Rightarrow> Some r
      | None \<Rightarrow> (case parse_fuzz_statement n s of
                   Some (st, rest) \<Rightarrow> Some (plain st, rest)
                 | None \<Rightarrow> None))"

definition parse_not_operator :: "string \<Rightarrow> bool \<times> string" where
  "parse_not_operator s =
     (case one_of [''not''] s of Some (w, rest) \<Rightarrow> (True, rest) | None \<Rightarrow> (False, s))"

definition parse_definition_not :: "nat \<Rightarrow> definition_not parser" where
  "parse_definition_not n s =
     (case parse_not_operator s of (negated, s1) \<Rightarrow>
        (case parse_defn n s1 of
           None \<Rightarrow> None
         | Some (d, s2) \<Rightarrow> Some ((negated, d), s2)))"

definition parse_operator :: "bool_operator parser" where
  "parse_operator s =
     (case one_of [''and'', ''or''] s of
        Some (w, rest) \<Rightarrow> Some (if w = ''and'' then op_and else op_or, rest)
      | None \<Rightarrow> None)"

definition operator_then :: "'a parser \<Rightarrow> (bool_operator \<times> 'a) parser" where
  "operator_then p s =
     (case parse_operator s of
        None \<Rightarrow> None
      | Some (operator, s1) \<Rightarrow>
          (case p s1 of None \<Rightarrow> None | Some (x, s2) \<Rightarrow> Some ((operator, x), s2)))"

definition parse_definition_expr :: "nat \<Rightarrow> definition_expr parser" where
  "parse_definition_expr n s =
     (case parse_definition_not n s of
        None \<Rightarrow> None
      | Some (dn, s1) \<Rightarrow>
          (case many (operator_then (parse_definition_not n)) s1 of
             (rest, s2) \<Rightarrow> Some ((dn, rest), s2)))"

definition parse_nested_definition_not :: "nat \<Rightarrow> element parser" where
  "parse_nested_definition_not n s =
     (case parse_not_operator s of (negated, s1) \<Rightarrow>
        (case one_of [''(''] s1 of
           None \<Rightarrow> None
         | Some (l, s2) \<Rightarrow>
             (case parse_definition_expr n s2 of
                None \<Rightarrow> None
              | Some (de, s3) \<Rightarrow>
                  (case one_of ['')''] s3 of
                     None \<Rightarrow> None
                   | Some (r, s4) \<Rightarrow> Some (nested_definition_not negated de, s4)))))"

text \<open>\<^verbatim>\<open>(nested_definition_not | definition_expr)\<close>, as the elements it contributes to
  \<^verbatim>\<open>finalformula\<close>.\<close>

definition parse_clause :: "nat \<Rightarrow> (element \<times> (bool_operator \<times> element) list) parser" where
  "parse_clause n s =
     (case parse_nested_definition_not n s of
        Some (e, rest) \<Rightarrow> Some ((e, []), rest)
      | None \<Rightarrow>
          (case parse_definition_expr n s of
             None \<Rightarrow> None
           | Some ((dn, dns), rest) \<Rightarrow>
               Some ((single dn, map (\<lambda>od. (fst od, single (snd od))) dns), rest)))"

definition flatten_clauses ::
  "(bool_operator \<times> element \<times> (bool_operator \<times> element) list) list
     \<Rightarrow> (bool_operator \<times> element) list" where
  "flatten_clauses cs = concat (map (\<lambda>c. (fst c, fst (snd c)) # snd (snd c)) cs)"

text \<open>What is left of a clause that fails: \<^verbatim>\<open>nested_definition_not\<close> has matched
  its parenthesis and the \<^verbatim>\<open>definition_expr\<close> inside, and finds no closing
  parenthesis. The alternative \<^verbatim>\<open>definition_expr\<close> is tried at the parenthesis
  then, where no \<^verbatim>\<open>definition\<close> starts.\<close>

definition unclosed_definition_expr :: "nat \<Rightarrow> string \<Rightarrow> definition_expr option" where
  "unclosed_definition_expr n s =
     (case parse_not_operator s of (negated, s1) \<Rightarrow>
        (case one_of [''(''] s1 of
           None \<Rightarrow> None
         | Some (l, s2) \<Rightarrow>
             (case parse_definition_expr n s2 of
                None \<Rightarrow> None
              | Some (de, s3) \<Rightarrow>
                  (case one_of ['')''] s3 of
                     None \<Rightarrow> Some de
                   | Some (r, s4) \<Rightarrow> None))))"

text \<open>\<^verbatim>\<open>finalformula\<close> with \<^verbatim>\<open>parseAll=True\<close>: the first clause, the clauses
  that follow an operator, and then the end of the text. When the first clause fails
  the parse fails with it. Otherwise \<^verbatim>\<open>finalformula\<close> matches up to the first
  operator that no clause follows, or to the first text that is no operator, and the
  parse fails for what is left.\<close>

definition parse_finalformula :: "string \<Rightarrow> parsed" where
  "parse_finalformula s =
     (case parse_clause (length s) s of
        None \<Rightarrow> ParseException None (unclosed_definition_expr (length s) s)
      | Some ((e, es), s1) \<Rightarrow>
          (case many (operator_then (parse_clause (length s))) s1 of
             (cs, s2) \<Rightarrow>
               if skip_whitespace s2 = [] then ParseResults (e, es @ flatten_clauses cs)
               else ParseException (Some (e, es @ flatten_clauses cs))
                      (case parse_operator s2 of
                         None \<Rightarrow> None
                       | Some (operator, s3) \<Rightarrow> unclosed_definition_expr (length s) s3)))"

text \<open>\<^verbatim>\<open>finalformula.parseString(filter_string, parseAll=True)\<close>.\<close>

definition parseString :: "pylib \<Rightarrow> string \<Rightarrow> parsed" where
  "parseString lib s = (if in_fragment s then parse_finalformula s else pyparsing lib s)"

text \<open>\<^verbatim>\<open>is_filtered\<close>, for the filter's own \<^verbatim>\<open>filter_string\<close>. The actions
  run in the order of the text. An exception of an action ends the parse and reaches the
  \<^verbatim>\<open>except\<close> clauses of \<^verbatim>\<open>is_filtered\<close>; the \<^verbatim>\<open>ParseException\<close> is raised
  when the actions of what matched have run. pyparsing is read here as passing on every
  exception of an action, also an \<^verbatim>\<open>IndexError\<close> that a library function raises
  inside one (the filter catches those of the payload and of \<^verbatim>\<open>rgetattr\<close>
  itself).\<close>

definition is_filtered :: "pylib \<Rightarrow> FuzzResFilter \<Rightarrow> FuzzResult \<Rightarrow> (fuzz_exception + bool) \<times> FuzzResFilter" where
  "is_filtered lib self fuzz_result =
     (let self1 = self\<lparr>self_fuzz_result := fuzz_result\<rparr>
      in case parseString lib (filter_string self1) of
           ParseException matched unclosed \<Rightarrow>
             (case compute_matched lib matched unclosed self1 of
                (Inl (Uncaught (AttributeError m)), self2) \<Rightarrow>
                  (Inl (FuzzExceptIncorrectFilter
                          (''It is only possible to use advanced filters when using a '' @
                           ''non-string payload. '' @ m)), self2)
              | (Inl e, self2) \<Rightarrow> (Inl e, self2)
              | (Inr u, self2) \<Rightarrow>
                  (Inl (FuzzExceptIncorrectFilter
                          (''Incorrect filter expression \"'' @ filter_string self1 @
                           ''\", check documentation. '' @ [CHR 0x0A] @
                           parse_exception_text lib (filter_string self1))), self2))
         | ParseResults formula \<Rightarrow>
             (case compute_finalformula lib formula self1 of
                (Inl (Uncaught (AttributeError m)), self2) \<Rightarrow>
                  (Inl (FuzzExceptIncorrectFilter
                          (''It is only possible to use advanced filters when using a '' @
                           ''non-string payload. '' @ m)), self2)
              | (Inl e, self2) \<Rightarrow> (Inl e, self2)
              | (Inr v, self2) \<Rightarrow> (Inr (\<not> truthy v), self2)))"

subsection \<open>Expressions that keep no state\<close>

text \<open>An expression without a \<^verbatim>\<open>unique\<close> call and without an assignment operator.\<close>

fun stateless_call :: "call \<Rightarrow> bool" where
  "stateless_call (operator_call location op param1 param2) = (op \<noteq> ''unique'' \<and> op \<noteq> ''u'')"
| "stateless_call c = True"

fun stateless_statement :: "fuzz_statement \<Rightarrow> bool" where
  "stateless_statement (Statement symb c) = stateless_call c"

fun stateless_right_side :: "right_side \<Rightarrow> bool" where
  "stateless_right_side error_value = True"
| "stateless_right_side (right_statement st) = stateless_statement st"

fun stateless_defn :: "defn \<Rightarrow> bool" where
  "stateless_defn (symbol_expr st exp_operator rs) =
     (exp_operator \<noteq> '':='' \<and> exp_operator \<noteq> ''=+'' \<and> exp_operator \<noteq> ''=-'' \<and>
      stateless_statement st \<and> stateless_right_side rs)"
| "stateless_defn (plain st) = stateless_statement st"

definition stateless_definition_expr :: "definition_expr \<Rightarrow> bool" where
  "stateless_definition_expr de =
     (stateless_defn (snd (fst de)) \<and> list_all (\<lambda>od. stateless_defn (snd (snd od))) (snd de))"

fun stateless_element :: "element \<Rightarrow> bool" where
  "stateless_element (nested_definition_not negated de) = stateless_definition_expr de"
| "stateless_element (single dn) = stateless_defn (snd dn)"

definition stateless_formula :: "finalformula \<Rightarrow> bool" where
  "stateless_formula formula =
     (stateless_element (fst formula) \<and> list_all (\<lambda>oe. stateless_element (snd oe)) (snd formula))"

text \<open>For an expression that does not parse, what counts is the part of it whose
  actions run.\<close>

definition stateless_parsed :: "parsed \<Rightarrow> bool" where
  "stateless_parsed p =
     (case p of
        ParseResults formula \<Rightarrow> stateless_formula formula
      | ParseException matched unclosed \<Rightarrow>
          (case matched of None \<Rightarrow> True | Some formula \<Rightarrow> stateless_formula formula) \<and>
          (case unclosed of None \<Rightarrow> True | Some de \<Rightarrow> stateless_definition_expr de))"

definition stateless_filter :: "pylib \<Rightarrow> string \<Rightarrow> bool" where
  "stateless_filter lib s = stateless_parsed (parseString lib s)"

text \<open>What such an expression does to the filter object: its outcome is a function of the
  result alone, and it leaves the result, the cache and the filter string as they
  are.\<close>

definition reads_result :: "'a action \<Rightarrow> bool" where
  "reads_result m =
     (\<forall>self self'. self_fuzz_result self = self_fuzz_result self' \<longrightarrow>
        fst (m self) = fst (m self') \<and>
        self_fuzz_result (snd (m self)) = self_fuzz_result self \<and>
        self_cache (snd (m self)) = self_cache self \<and>
        filter_string (snd (m self)) = filter_string self)"

subsection \<open>A library for the examples\<close>

text \<open>Modelled from the spec: \<^verbatim>\<open>rgetattr\<close> and \<^verbatim>\<open>rsetattr\<close> of helpers/obj_dyn.py
  are not among the sources. The spec names the result symbols (\<^verbatim>\<open>code\<close>,
  \<^verbatim>\<open>lines\<close>, \<^verbatim>\<open>words\<close>, \<^verbatim>\<open>chars\<close>, \<^verbatim>\<open>url\<close>, and \<^verbatim>\<open>c\<close>, \<^verbatim>\<open>l\<close>,
  \<^verbatim>\<open>w\<close>, \<^verbatim>\<open>h\<close> for the first four: the auto-filter's identifier is
  "c={code} and l={lines} and w={words}"), and has \<^verbatim>\<open>:=\<close> assign the right-hand value
  to the field and \<^verbatim>\<open>=+\<close> assign after adding it (string concatenation). Only the
  URL is assignable here.\<close>

definition ex_rgetattr :: "pyval \<Rightarrow> string \<Rightarrow> py_exception + pyval" where
  "ex_rgetattr obj field =
     (case obj of
        PRes r \<Rightarrow>
          if field = ''code'' \<or> field = ''c'' then Inr (PInt (code r))
          else if field = ''lines'' \<or> field = ''l'' then Inr (PInt (lines r))
          else if field = ''words'' \<or> field = ''w'' then Inr (PInt (words r))
          else if field = ''chars'' \<or> field = ''h'' then Inr (PInt (chars r))
          else if field = ''url'' then Inr (PStr (url r))
          else Inl (AttributeError field)
      | _ \<Rightarrow> Inl (AttributeError field))"

definition ex_rsetattr ::
  "FuzzResult \<Rightarrow> string option \<Rightarrow> pyval \<Rightarrow> set_operation \<Rightarrow> py_exception + FuzzResult" where
  "ex_rsetattr r field new_val operation =
     (case (field, new_val) of
        (Some f, PStr v) \<Rightarrow>
          if f = ''url'' then
            (case operation of
               assign \<Rightarrow> Inr (r\<lparr>url := v\<rparr>)
             | operator_add \<Rightarrow> Inr (r\<lparr>url := url r @ v\<rparr>)
             | flipped_add \<Rightarrow> Inr (r\<lparr>url := v @ url r\<rparr>)
             | operator_sub \<Rightarrow> Inl (TypeError ''-''))
          else Inl (AttributeError f)
      | _ \<Rightarrow> Inl (AttributeError ''rsetattr''))"

text \<open>The other entries are not used by the examples and raise.\<close>

definition ex_lib :: pylib where
  "ex_lib = \<lparr>ERROR_CODE = -1,
     repr_of = (\<lambda>v. ''<object>''),
     int_of = (\<lambda>v. Inl (ValueError ''int'')),
     eq_other = (\<lambda>a b. a = b),
     obj_hashable = (\<lambda>v. True),
     str_lower = (\<lambda>s. s), str_upper = (\<lambda>s. s), str_strip = (\<lambda>s. s),
     re_search = (\<lambda>p v. Inl (OtherError ''re'')),
     re_group1 = (\<lambda>p v. Inl (OtherError ''re'')),
     unquote = (\<lambda>v. Inl (OtherError ''unquote'')),
     diff = (\<lambda>a b. Inl (OtherError ''diff'')),
     value_in_any_list_item = (\<lambda>a b. Inl (OtherError ''value_in_any_list_item'')),
     rgetattr = ex_rgetattr, rsetattr = ex_rsetattr,
     get_payload_content = (\<lambda>r i. Inl (IndexError ''payload'')),
     pyparsing = (\<lambda>s. ParseException None None),
     parse_exception_text = (\<lambda>s. [])\<rparr>"

text \<open>\<^verbatim>\<open>_compute_fuzz_symbol\<close> with the result it reads as an argument, for the
  proofs.\<close>

definition fuzz_symbol_on ::
  "pylib \<Rightarrow> int option \<Rightarrow> string option \<Rightarrow> FuzzResult \<Rightarrow> pyval action" where
  "fuzz_symbol_on lib index field r self =
     (case get_payload_content lib r (case index of Some i \<Rightarrow> i | None \<Rightarrow> 1) of
           Inl (IndexError m) \<Rightarrow>
             (Inl (FuzzExceptIncorrectFilter
                     ''Non existent FUZZ payload! Use a correct index.''), self)
         | Inl e \<Rightarrow> (Inl (Uncaught e), self)
         | Inr fuzz_val \<Rightarrow>
             (case field of
                Some f \<Rightarrow> if f \<noteq> [] then get_field_value lib fuzz_val f self
                          else (Inr fuzz_val, self)
              | None \<Rightarrow> (Inr fuzz_val, self)))"

section \<open>The auto-filter stage (AutofilterQ)\<close>

text \<open>Modelled from the spec: \<^verbatim>\<open>is_visible\<close> of filters/base_filter.py, which is not
  among the sources: a result is visible when the expression holds for it, that is when
  \<^verbatim>\<open>is_filtered\<close> (which returns the negation of the expression's value) says it is
  not filtered.\<close>

definition FuzzResFilter_is_visible ::
  "pylib \<Rightarrow> FuzzResFilter \<Rightarrow> FuzzResult \<Rightarrow> (fuzz_exception + bool) \<times> FuzzResFilter" where
  "FuzzResFilter_is_visible lib self fuzz_result =
     (case is_filtered lib self fuzz_result of
        (Inl e, self') \<Rightarrow> (Inl e, self')
      | (Inr filtered, self') \<Rightarrow> (Inr (\<not> filtered), self'))"

text \<open>Modelled from the spec: \<^verbatim>\<open>FixSizeOrderedDict\<close> of helpers/obj_dic.py, which is not
  among the sources ("a bounded, insertion-ordered map of identifier to count"; the
  comment in \<^verbatim>\<open>AutofilterQ.__init__\<close>: "If more are found, the oldest one gets
  removed"). The entries stand oldest first. Setting a key that is there keeps its
  place; setting a new key appends it and, beyond the maximum length, drops the
  oldest.\<close>

type_synonym tracker = "(string \<times> int) list"

definition tracker_set :: "nat \<Rightarrow> tracker \<Rightarrow> string \<Rightarrow> int \<Rightarrow> tracker" where
  "tracker_set maximum_length d k v =
     (if k \<in> fst ` set d then map (\<lambda>kv. if fst kv = k then (k, v) else kv) d
      else (let d' = d @ [(k, v)]
            in if maximum_length > 0 \<and> length d' > maximum_length then tl d' else d'))"

definition tracker_move_to_end :: "tracker \<Rightarrow> string \<Rightarrow> tracker" where
  "tracker_move_to_end d k =
     (case map_of d k of
        None \<Rightarrow> d
      | Some v \<Rightarrow> filter (\<lambda>kv. fst kv \<noteq> k) d @ [(k, v)])"

definition tracker_pop :: "tracker \<Rightarrow> string \<Rightarrow> tracker" where
  "tracker_pop d k = filter (\<lambda>kv. fst kv \<noteq> k) d"

text \<open>The stage: its filter, the tracker (at most 15 identifiers) and its channels. The
  colouring of the terminal is a parameter.\<close>

record AutofilterQ =
  af_filter :: FuzzResFilter
  response_tracker_dict :: tracker
  af_out :: stage_out

definition new_AutofilterQ :: "FuzzResult \<Rightarrow> AutofilterQ" where
  "new_AutofilterQ r = \<lparr>af_filter = new_filter [] r, response_tracker_dict = [],
     af_out = empty_out\<rparr>"

definition response_identifier_of :: "FuzzResult \<Rightarrow> string" where
  "response_identifier_of fuzz_result =
     ''c='' @ str_int (code fuzz_result) @ '' and l='' @ str_int (lines fuzz_result) @
     '' and w='' @ str_int (words fuzz_result)"

text \<open>\<^verbatim>\<open>update_filter\<close>: the new filter string, and the result with the finding
  appended.\<close>

definition update_filter ::
  "(string \<Rightarrow> string \<Rightarrow> string) \<Rightarrow> AutofilterQ \<Rightarrow> FuzzResult \<Rightarrow> string
     \<Rightarrow> AutofilterQ \<times> FuzzResult" where
  "update_filter colour q fuzz_result identifier =
     (let new_string = ''not ('' @ identifier @ '')'';
          f = af_filter q;
          f' = (if filter_string f = [] then f\<lparr>filter_string := new_string\<rparr>
                else f\<lparr>filter_string := filter_string f @ '' and '' @ new_string\<rparr>);
          redirect_string =
            (if 300 \<le> code fuzz_result \<and> code fuzz_result < 400
             then ''. Redirects will still be followed in the background.'' else []);
          coloured_identifier = colour ''fgRed'' identifier
      in (q\<lparr>af_filter := f'\<rparr>,
          fuzz_result\<lparr>plugins_res := plugins_res fuzz_result @
            [plugin_from_finding ''AutofilterQ''
               (''Recurring response detected. Filtering out '' @ [CHR 0x27] @
                coloured_identifier @ [CHR 0x27] @ redirect_string) INFO]\<rparr>))"

definition update_response_tracker ::
  "(string \<Rightarrow> string \<Rightarrow> string) \<Rightarrow> AutofilterQ \<Rightarrow> FuzzResult \<Rightarrow> AutofilterQ \<times> FuzzResult" where
  "update_response_tracker colour q fuzz_result =
     (let response_identifier = response_identifier_of fuzz_result
      in case map_of (response_tracker_dict q) response_identifier of
           None \<Rightarrow>
             (q\<lparr>response_tracker_dict :=
                  tracker_set 15 (response_tracker_dict q) response_identifier 1\<rparr>,
              fuzz_result)
         | Some n \<Rightarrow>
             (let q1 = q\<lparr>response_tracker_dict :=
                          tracker_set 15 (response_tracker_dict q) response_identifier (n + 1)\<rparr>
              in if n + 1 \<ge> 10 then
                   (case update_filter colour q1 fuzz_result response_identifier of
                      (q2, fuzz_result') \<Rightarrow>
                        (q2\<lparr>response_tracker_dict :=
                              tracker_pop (response_tracker_dict q2) response_identifier\<rparr>,
                         fuzz_result'))
                 else (q1\<lparr>response_tracker_dict :=
                             tracker_move_to_end (response_tracker_dict q1) response_identifier\<rparr>,
                       fuzz_result)))"

text \<open>\<^verbatim>\<open>AutofilterQ.process\<close>. With no filter string \<^verbatim>\<open>is_visible\<close> is not called.
  After it was called, the result is the one the filter holds.\<close>

definition AutofilterQ_process ::
  "pylib \<Rightarrow> (string \<Rightarrow> string \<Rightarrow> string) \<Rightarrow> AutofilterQ \<Rightarrow> FuzzResult
     \<Rightarrow> fuzz_exception + AutofilterQ" where
  "AutofilterQ_process lib colour q fuzz_result =
     (if (history_method fuzz_result = ''HEAD'' \<and> code fuzz_result = 200) \<or>
         code fuzz_result = ERROR_CODE lib
      then Inr (q\<lparr>af_out := send (af_out q) fuzz_result\<rparr>)
      else if filter_string (af_filter q) = [] then
        (case update_response_tracker colour q fuzz_result of
           (q', fuzz_result') \<Rightarrow> Inr (q'\<lparr>af_out := send (af_out q') fuzz_result'\<rparr>))
      else
        (case FuzzResFilter_is_visible lib (af_filter q) fuzz_result of
           (Inl e, f') \<Rightarrow> Inl e
         | (Inr visible, f') \<Rightarrow>
             if visible then
               (case update_response_tracker colour (q\<lparr>af_filter := f'\<rparr>) (self_fuzz_result f') of
                  (q', fuzz_result') \<Rightarrow> Inr (q'\<lparr>af_out := send (af_out q') fuzz_result'\<rparr>))
             else Inr (q\<lparr>af_filter := f',
                         af_out := discard (af_out q) (self_fuzz_result f')\<rparr>)))"

text \<open>The stage over the results that reach it, in order.\<close>

fun AutofilterQ_run ::
  "pylib \<Rightarrow> (string \<Rightarrow> string \<Rightarrow> string) \<Rightarrow> AutofilterQ \<Rightarrow> FuzzResult list
     \<Rightarrow> fuzz_exception + AutofilterQ" where
  "AutofilterQ_run lib colour q [] = Inr q"
| "AutofilterQ_run lib colour q (fuzz_result # rest) =
     (case AutofilterQ_process lib colour q fuzz_result of
        Inl e \<Rightarrow> Inl e
      | Inr q' \<Rightarrow> AutofilterQ_run lib colour q' rest)"

text \<open>The scenario: results with status 200, 5 lines and 42 words, not answers to a
  \<^verbatim>\<open>HEAD\<close> request, not discarded before they reach the stage; and the finding the
  stage attaches when it starts to filter them.\<close>

definition recurring :: "FuzzResult \<Rightarrow> bool" where
  "recurring r = (code r = 200 \<and> lines r = 5 \<and> words r = 42 \<and> history_method r \<noteq> ''HEAD'' \<and>
                  \<not> discarded r)"

definition recurring_finding :: "(string \<Rightarrow> string \<Rightarrow> string) \<Rightarrow> finding" where
  "recurring_finding colour =
     \<lparr>f_name = ''AutofilterQ'',
      f_message = ''Recurring response detected. Filtering out '' @ [CHR 0x27] @
                  colour ''fgRed'' ''c=200 and l=5 and w=42'' @ [CHR 0x27],
      f_severity = INFO\<rparr>"

definition with_finding :: "finding \<Rightarrow> FuzzResult \<Rightarrow> FuzzResult" where
  "with_finding f r = r\<lparr>plugins_res := plugins_res r @ [f]\<rparr>"

definition mark_discarded :: "FuzzResult \<Rightarrow> FuzzResult" where
  "mark_discarded r = r\<lparr>discarded := True\<rparr>"

text \<open>Twenty such results for twenty payloads.\<close>

definition ex_result :: "nat \<Rightarrow> FuzzResult" where
  "ex_result i = \<lparr>item_type = RESULT, priority = 10, discarded = False, exception = None,
     url = ''http://h/'' @ digits_of i, history_url = ''http://h/'' @ digits_of i,
     history_method = ''GET'', code = 200, lines = 5, words = 42, chars = 300, rlevel = 1,
     plugin_rlevel = 0, backfeed_level = 0, from_plugin = False, is_baseline = False,
     plugins_res = []\<rparr>"

definition ex_stream :: "FuzzResult list" where
  "ex_stream = map ex_result [0..<20]"

section \<open>Theorems: the false-positive probe\<close>

text \<open>Claim C3. When the first nonce probe returns status \<open>s1\<close> and word count \<open>w1\<close>:
  equal status and equal word count give the verdict "false positive" after one request;
  a different status gives "real hit" after one request; equal status with a different
  word count issues a second request, and when that one returns, the candidate is a
  false positive exactly when the two probes do not match in status and word count.\<close>

theorem false_positive_hit_verdict:
  assumes "first_probe net seed options = Inr (s1, w1)"
  shows "(s1 = code seed \<and> w1 = words seed \<longrightarrow>
            fst (false_positive_hit net seed options) \<and>
            length (snd (false_positive_hit net seed options)) = 1) \<and>
         (s1 \<noteq> code seed \<longrightarrow>
            \<not> fst (false_positive_hit net seed options) \<and>
            length (snd (false_positive_hit net seed options)) = 1) \<and>
         (s1 = code seed \<and> w1 \<noteq> words seed \<longrightarrow>
            length (snd (false_positive_hit net seed options)) = 2 \<and>
            (\<forall>s2 w2. second_probe net seed options = Inr (s2, w2) \<longrightarrow>
               (fst (false_positive_hit net seed options) \<longleftrightarrow> \<not> (s2 = s1 \<and> w2 = w1))))"
  using assms
  by (auto simp: false_positive_hit_def first_probe_def second_probe_def Let_def
           split: sum.splits)

theorem false_positive_hit_verdict_witness:
  "first_probe (net_of [Inr \<lparr>status_code = 200, content = ''a b c''\<rparr>]) ex_seed ex_options
     = Inr (200, 3) \<and>
   fst (false_positive_hit (net_of [Inr \<lparr>status_code = 200, content = ''a b c''\<rparr>])
          ex_seed ex_options) \<and>
   first_probe (net_of [Inr \<lparr>status_code = 404, content = ''gone''\<rparr>]) ex_seed ex_options
     = Inr (404, 1) \<and>
   \<not> fst (false_positive_hit (net_of [Inr \<lparr>status_code = 404, content = ''gone''\<rparr>])
          ex_seed ex_options) \<and>
   first_probe (net_of [Inr \<lparr>status_code = 200, content = ''a b''\<rparr>,
                        Inr \<lparr>status_code = 200, content = ''c  d''\<rparr>]) ex_seed ex_options
     = Inr (200, 2) \<and>
   second_probe (net_of [Inr \<lparr>status_code = 200, content = ''a b''\<rparr>,
                         Inr \<lparr>status_code = 200, content = ''c  d''\<rparr>]) ex_seed ex_options
     = Inr (200, 2) \<and>
   \<not> fst (false_positive_hit (net_of [Inr \<lparr>status_code = 200, content = ''a b''\<rparr>,
                                      Inr \<lparr>status_code = 200, content = ''c  d''\<rparr>])
          ex_seed ex_options)"
proof -
  let ?n1 = "net_of [Inr \<lparr>status_code = 200, content = ''a b c''\<rparr>]"
  let ?n2 = "net_of [Inr \<lparr>status_code = 404, content = ''gone''\<rparr>]"
  let ?n3 = "net_of [Inr \<lparr>status_code = 200, content = ''a b''\<rparr>,
                     Inr \<lparr>status_code = 200, content = ''c  d''\<rparr>]"
  have p1: "first_probe ?n1 ex_seed ex_options = Inr (200, 3)"
    by (simp add: first_probe_def get_response_tuple_def net_of_def isspace_def)
  have p2: "first_probe ?n2 ex_seed ex_options = Inr (404, 1)"
    by (simp add: first_probe_def get_response_tuple_def net_of_def isspace_def)
  have p3: "first_probe ?n3 ex_seed ex_options = Inr (200, 2)"
    by (simp add: first_probe_def get_response_tuple_def net_of_def isspace_def)
  have q3: "second_probe ?n3 ex_seed ex_options = Inr (200, 2)"
    by (simp add: second_probe_def get_response_tuple_def net_of_def isspace_def)
  have c: "code ex_seed = 200" "words ex_seed = 3"
    by (simp_all add: ex_seed_def)
  from false_positive_hit_verdict [OF p1] c
  have r1: "fst (false_positive_hit ?n1 ex_seed ex_options)" by simp
  from false_positive_hit_verdict [OF p2] c
  have r2: "\<not> fst (false_positive_hit ?n2 ex_seed ex_options)" by simp
  from false_positive_hit_verdict [OF p3] c q3
  have r3: "\<not> fst (false_positive_hit ?n3 ex_seed ex_options)" by simp
  from p1 p2 p3 q3 r1 r2 r3 show ?thesis by blast
qed

text \<open>Claim C10. A nonce probe that raises never suppresses a recursion: when the first
  request raises, and when the second request (issued because the first one had the
  candidate's status and another word count) raises, the verdict is \<open>False\<close>, a real
  hit.\<close>

theorem probe_exception_is_real_hit:
  "(first_probe net seed options = Inl e \<longrightarrow>
      false_positive_hit net seed options =
        (False, [str_replace (history_url seed) ''FUZZ'' ''thisdoesnotexist123''])) \<and>
   (first_probe net seed options = Inr (s1, w1) \<and> s1 = code seed \<and> w1 \<noteq> words seed \<and>
    second_probe net seed options = Inl e \<longrightarrow>
      \<not> fst (false_positive_hit net seed options) \<and>
      length (snd (false_positive_hit net seed options)) = 2)"
  by (auto simp: false_positive_hit_def first_probe_def second_probe_def Let_def
           split: sum.splits)

theorem probe_exception_is_real_hit_witness:
  "first_probe (net_of [Inl ''connection refused'']) ex_seed ex_options = Inl Exception \<and>
   \<not> fst (false_positive_hit (net_of [Inl ''connection refused'']) ex_seed ex_options) \<and>
   first_probe (net_of [Inr \<lparr>status_code = 200, content = ''a b''\<rparr>, Inl ''timeout''])
      ex_seed ex_options = Inr (200, 2) \<and>
   second_probe (net_of [Inr \<lparr>status_code = 200, content = ''a b''\<rparr>, Inl ''timeout''])
      ex_seed ex_options = Inl Exception \<and>
   \<not> fst (false_positive_hit (net_of [Inr \<lparr>status_code = 200, content = ''a b''\<rparr>,
                                      Inl ''timeout'']) ex_seed ex_options)"
proof -
  let ?n1 = "net_of [Inl ''connection refused'']"
  let ?n2 = "net_of [Inr \<lparr>status_code = 200, content = ''a b''\<rparr>, Inl ''timeout'']"
  have p1: "first_probe ?n1 ex_seed ex_options = Inl Exception"
    by (simp add: first_probe_def get_response_tuple_def net_of_def)
  have p2: "first_probe ?n2 ex_seed ex_options = Inr (200, 2)"
    by (simp add: first_probe_def get_response_tuple_def net_of_def isspace_def)
  have q2: "second_probe ?n2 ex_seed ex_options = Inl Exception"
    by (simp add: second_probe_def get_response_tuple_def net_of_def)
  have c: "code ex_seed = 200" "words ex_seed \<noteq> 2"
    by (simp_all add: ex_seed_def)
  from probe_exception_is_real_hit [of ?n1 ex_seed ex_options Exception] p1
  have r1: "\<not> fst (false_positive_hit ?n1 ex_seed ex_options)" by simp
  from probe_exception_is_real_hit [of ?n2 ex_seed ex_options Exception 200 2] p2 q2 c
  have r2: "\<not> fst (false_positive_hit ?n2 ex_seed ex_options)" by simp
  from p1 p2 q2 r1 r2 show ?thesis by blast
qed

section \<open>Theorems: transport errors\<close>

text \<open>Claim C6. A result that the HTTP pool returns (not to be requeued) with an exception:
  in scanmode it is handed to \<open>send\<close>, exactly as a result without an exception is; out
  of scanmode the stage throws the exception instead of forwarding the result, and the
  consumer of the results queue raises it and cancels the job.\<close>

theorem transport_error_scanmode:
  assumes "exception r = Some e"
  shows "(scanmode \<longrightarrow>
            read_http_result scanmode q (r, False) = q\<lparr>hq_out := send (hq_out q) r\<rparr> \<and>
            (\<forall>r'. exception r' = None \<longrightarrow>
               read_http_result scanmode q (r', False) = q\<lparr>hq_out := send (hq_out q) r'\<rparr>)) \<and>
         (\<not> scanmode \<longrightarrow>
            read_http_result scanmode q (r, False) = q\<lparr>hq_out := throw (hq_out q) e\<rparr> \<and>
            queue_out (hq_out (read_http_result scanmode q (r, False))) = queue_out (hq_out q) \<and>
            queue_discard (hq_out (read_http_result scanmode q (r, False))) = queue_discard (hq_out q) \<and>
            fuzz_step (Some (last (results_queue (hq_out (read_http_result scanmode q (r, False))))))
              = (Raise (Some e), True))"
  using assms
  by (simp add: read_http_result_def throw_def fuzz_step_def Fuzzer_next_def error_item_def)

theorem transport_error_scanmode_witness:
  "exception ex_error_result = Some ''Connection refused'' \<and>
   queue_out (hq_out (read_http_result True ex_http_queue (ex_error_result, False)))
     = [ex_error_result] \<and>
   results_queue (hq_out (read_http_result True ex_http_queue (ex_error_result, False))) = [] \<and>
   queue_out (hq_out (read_http_result False ex_http_queue (ex_error_result, False))) = [] \<and>
   results_queue (hq_out (read_http_result False ex_http_queue (ex_error_result, False)))
     = [error_item ''Connection refused'']"
proof -
  have e: "exception ex_error_result = Some ''Connection refused''"
    by (simp add: ex_error_result_def)
  have d: "\<not> discarded ex_error_result"
    by (simp add: ex_error_result_def)
  from transport_error_scanmode [OF e, of True ex_http_queue]
  have t: "read_http_result True ex_http_queue (ex_error_result, False)
             = ex_http_queue\<lparr>hq_out := send (hq_out ex_http_queue) ex_error_result\<rparr>"
    by simp
  from transport_error_scanmode [OF e, of False ex_http_queue]
  have f: "read_http_result False ex_http_queue (ex_error_result, False)
             = ex_http_queue\<lparr>hq_out := throw (hq_out ex_http_queue) ''Connection refused''\<rparr>"
    by simp
  show ?thesis
    unfolding t f using e d
    by (simp add: send_def throw_def ex_http_queue_def empty_out_def)
qed

section \<open>Theorems: baseline results\<close>

text \<open>Claim C9. A baseline result is never discarded by a filter stage. The pre-filter
  stage hands it to \<open>send\<close> whatever the filter is, with the filter untouched: the
  verdict is not evaluated. The main filter stage stores the baseline first and, when the
  filter returns any verdict at all (also \<open>False\<close>), hands the result to \<open>send\<close>. For
  an item that is not yet discarded, \<open>send\<close> puts it on the output channel.\<close>

theorem baseline_never_discarded:
  assumes "is_baseline r"
  shows "SliceQ_process F (f, out) r = Inr (f, send out r) \<and>
         (\<forall>v f2 r2. is_visible F (set_baseline F f r) r = (Inr v, f2, r2) \<and> is_baseline r2 \<longrightarrow>
            FilterQ_process F (f, out) r = Inr (f2, send out r2)) \<and>
         (\<forall>r2. \<not> discarded r2 \<longrightarrow>
            queue_out (send out r2) = queue_out out @ [r2] \<and>
            queue_discard (send out r2) = queue_discard out)"
  using assms
  by (auto simp: SliceQ_process_def FilterQ_process_def send_def)

theorem baseline_never_discarded_witness:
  "is_baseline ex_baseline \<and>
   SliceQ_process raise_all (None, empty_out) ex_baseline
     = Inr (None, empty_out\<lparr>queue_out := [ex_baseline]\<rparr>) \<and>
   is_visible hide_all (set_baseline hide_all None ex_baseline) ex_baseline
     = (Inr False, Some 404, ex_baseline) \<and>
   FilterQ_process hide_all (None, empty_out) ex_baseline
     = Inr (Some 404, empty_out\<lparr>queue_out := [ex_baseline]\<rparr>)"
proof -
  have b: "is_baseline ex_baseline" "\<not> discarded ex_baseline"
    by (simp_all add: ex_baseline_def)
  have v: "is_visible hide_all (set_baseline hide_all None ex_baseline) ex_baseline
             = (Inr False, Some 404, ex_baseline)"
    by (simp add: hide_all_def ex_baseline_def)
  have s: "send empty_out ex_baseline = empty_out\<lparr>queue_out := [ex_baseline]\<rparr>"
    using b by (simp add: send_def empty_out_def)
  from baseline_never_discarded [OF b(1), of raise_all None empty_out] s
  have r1: "SliceQ_process raise_all (None, empty_out) ex_baseline
              = Inr (None, empty_out\<lparr>queue_out := [ex_baseline]\<rparr>)"
    by simp
  from baseline_never_discarded [OF b(1), of hide_all None empty_out] v b(1) s
  have r2: "FilterQ_process hide_all (None, empty_out) ex_baseline
              = Inr (Some 404, empty_out\<lparr>queue_out := [ex_baseline]\<rparr>)"
    by auto
  from b v r1 r2 show ?thesis by blast
qed

section \<open>Theorems: priorities of routed seeds\<close>

lemma PRIORITY_STEP_pos: "0 < PRIORITY_STEP"
  by (simp add: PRIORITY_STEP_def)

lemma RoutingQ_process_level:
  "current_priority_level (session (RoutingQ_process q x)) =
     (if item_type x = SEED then current_priority_level (session q) + PRIORITY_STEP
      else current_priority_level (session q))"
  by (simp add: RoutingQ_process_def assign_next_priority_level_def Let_def)

lemma RoutingQ_process_route_seed:
  "route_seed (RoutingQ_process q x) =
     (if item_type x = SEED
      then route_seed q @ [x\<lparr>priority := current_priority_level (session q) + PRIORITY_STEP\<rparr>]
      else route_seed q)"
  by (simp add: RoutingQ_process_def assign_next_priority_level_def Let_def)

text \<open>The invariant of a run: no priority in the system is above the session's level.\<close>

lemma routed_seeds_below_level:
  assumes "p0 \<le> current_priority_level (session q)"
    and "\<forall>s \<in> set (route_seed q). priority s \<le> current_priority_level (session q)"
    and "well_caused p0 q items"
  shows "\<forall>(cause, assigned) \<in> set (routed_seeds q items). cause < assigned"
  using assms
proof (induction items arbitrary: q)
  case Nil
  then show ?case by simp
next
  case (Cons x rest)
  let ?q' = "RoutingQ_process q x"
  have below: "priority x \<le> current_priority_level (session q)"
    using Cons.prems by auto
  have p0': "p0 \<le> current_priority_level (session ?q')"
    using Cons.prems(1) PRIORITY_STEP_pos by (simp add: RoutingQ_process_level)
  have inv': "\<forall>s \<in> set (route_seed ?q'). priority s \<le> current_priority_level (session ?q')"
    using Cons.prems(2) PRIORITY_STEP_pos
    by (auto simp: RoutingQ_process_level RoutingQ_process_route_seed)
  have rest: "\<forall>(cause, assigned) \<in> set (routed_seeds ?q' rest). cause < assigned"
    using Cons.IH [OF p0' inv'] Cons.prems(3) by simp
  have head: "item_type x = SEED \<Longrightarrow> priority x < priority (last (route_seed ?q'))"
    using below PRIORITY_STEP_pos by (simp add: RoutingQ_process_route_seed)
  show ?case using rest head by auto
qed

text \<open>Claim C1. In every run of the routing stage from a new session, every \<open>SEED\<close> is
  routed with a priority strictly greater than the priority of the item that caused it.
  The start seed's priority \<open>p0\<close> is set in fuzzobjects.py, which is not among the
  sources; it is taken to be at most the session's first level, \<open>PRIORITY_STEP\<close>.\<close>

theorem routed_seed_priority_above_cause:
  assumes "p0 \<le> PRIORITY_STEP" and "well_caused p0 new_routing items"
  shows "\<forall>(cause, assigned) \<in> set (routed_seeds new_routing items). cause < assigned"
proof (rule routed_seeds_below_level [OF _ _ assms(2)])
  show "p0 \<le> current_priority_level (session new_routing)"
    using assms(1) by (simp add: new_routing_def new_session_def)
  show "\<forall>s \<in> set (route_seed new_routing).
          priority s \<le> current_priority_level (session new_routing)"
    by (simp add: new_routing_def)
qed

lemma ex_run_routed: "routed_seeds new_routing ex_run = [(10, 20), (10, 30), (20, 40)]"
  by (simp add: ex_run_def seed_at_def new_routing_def new_session_def PRIORITY_STEP_def
        RoutingQ_process_def assign_next_priority_level_def new_seed_def Let_def)

lemma ex_run_well_caused: "well_caused 10 new_routing ex_run"
  by (simp add: ex_run_def seed_at_def new_routing_def new_session_def PRIORITY_STEP_def
        RoutingQ_process_def assign_next_priority_level_def new_seed_def Let_def)

theorem routed_seed_priority_above_cause_witness:
  "(10::int) \<le> PRIORITY_STEP \<and> well_caused 10 new_routing ex_run \<and>
   routed_seeds new_routing ex_run ! 2 = (20, 40) \<and>
   fst (routed_seeds new_routing ex_run ! 2) < snd (routed_seeds new_routing ex_run ! 2)"
proof -
  have s: "(10::int) \<le> PRIORITY_STEP" by (simp add: PRIORITY_STEP_def)
  have m: "routed_seeds new_routing ex_run ! 2 \<in> set (routed_seeds new_routing ex_run)"
    by (simp add: ex_run_routed)
  from routed_seed_priority_above_cause [OF s ex_run_well_caused] m
  have "fst (routed_seeds new_routing ex_run ! 2) < snd (routed_seeds new_routing ex_run ! 2)"
    by (auto simp: split_beta)
  with s ex_run_well_caused show ?thesis by (simp add: ex_run_routed)
qed

text \<open>Claim C5, as stated, fails: in the run \<open>ex_run\<close> the second directory found under
  the start seed (priority 10) is routed with priority 30, not 20, because the first one
  has advanced the session's level in between.\<close>

theorem routed_seed_priority_not_parent_plus_step:
  "well_caused 10 new_routing ex_run \<and>
   routed_seeds new_routing ex_run ! 1 = (10, 30) \<and>
   snd (routed_seeds new_routing ex_run ! 1)
     \<noteq> fst (routed_seeds new_routing ex_run ! 1) + PRIORITY_STEP"
  using ex_run_well_caused by (simp add: ex_run_routed PRIORITY_STEP_def)

lemma routed_seeds_levels:
  "map snd (routed_seeds q items) =
     map (\<lambda>k. current_priority_level (session q) + PRIORITY_STEP * (int k + 1))
       [0..<length (filter (\<lambda>x. item_type x = SEED) items)]"
proof (induction items arbitrary: q)
  case Nil
  then show ?case by simp
next
  case (Cons x rest)
  show ?case
  proof (cases "item_type x = SEED")
    case True
    have "map snd (routed_seeds q (x # rest)) =
            (current_priority_level (session q) + PRIORITY_STEP)
              # map snd (routed_seeds (RoutingQ_process q x) rest)"
      using True by (simp add: RoutingQ_process_route_seed)
    also have "map snd (routed_seeds (RoutingQ_process q x) rest) =
        map (\<lambda>k. current_priority_level (session q) + PRIORITY_STEP * (int (Suc k) + 1))
          [0..<length (filter (\<lambda>x. item_type x = SEED) rest)]"
      using True by (simp add: Cons.IH RoutingQ_process_level algebra_simps)
    finally show ?thesis
      using True by (simp add: map_upt_Suc del: upt_Suc)
  next
    case False
    then show ?thesis by (simp add: Cons.IH RoutingQ_process_level)
  qed
qed

text \<open>Claim C5, amended. The priority a routed \<open>SEED\<close> gets is the session's level
  advanced by \<open>PRIORITY_STEP\<close>: counting from 0, the \<open>k\<close>-th seed routed in a run
  gets \<open>PRIORITY_STEP * (k + 2)\<close>, whatever the priority of the seed it was derived
  from.\<close>

theorem routed_seed_priority_is_session_level:
  "map snd (routed_seeds new_routing items) =
     map (\<lambda>k. PRIORITY_STEP * (int k + 2))
       [0..<length (filter (\<lambda>x. item_type x = SEED) items)]"
  by (simp add: routed_seeds_levels new_routing_def new_session_def algebra_simps)

theorem routed_seed_priority_is_session_level_witness:
  "map snd (routed_seeds new_routing ex_run) = [20, 30, 40]"
proof -
  have "length (filter (\<lambda>x. item_type x = SEED) ex_run) = 3"
    by (simp add: ex_run_def seed_at_def)
  with routed_seed_priority_is_session_level [of ex_run] show ?thesis
    by (simp add: PRIORITY_STEP_def upt_rec)
qed


section \<open>Theorems: the requeue limit of the plugin stage\<close>

lemma str_int_15: "str_int 15 = ''15''"
  by (simp add: str_int_def digits_of.simps)

text \<open>Claim C4, amended. A plugin output whose seed is a \<open>BACKFEED\<close> with
  \<open>backfeed_level\<close> at the requeue limit of 15 or above is never enqueued: the turn of
  the loop ends without an error, puts nothing on the stage's channels and counts no
  queued request. The informational finding is appended to the result the plugins ran on
  when the output reaches the limit check: it carries no exception and no visible
  message, the transport is HTTP, the seed is in scope and its URL is not in the
  processed cache. An output without exception and visible message that fails one of the
  three checks before the limit is dropped and leaves the state as it was, without a
  finding.\<close>

theorem backfeed_requeue_limit:
  assumes "pl_seed plugin = Some seed" and "item_type seed = BACKFEED"
    and "backfeed_level seed \<ge> 15"
  shows "\<exists>st'. process_plugin env st plugin = Inr st' \<and>
           queue_out (ps_out st') = queue_out (ps_out st) \<and>
           queue_discard (ps_out st') = queue_discard (ps_out st) \<and>
           queued_dict st' = queued_dict st \<and>
           (pl_exception plugin = None \<and> \<not> (pl_message plugin \<noteq> [] \<and> pl_is_visible plugin) \<and>
            transport env = ''http/s'' \<and>
            check_in_scope env (ps_result st) (history_url seed) (domain_scope env) \<and>
            url seed \<notin> set (cache_processed (ps_cache st)) \<longrightarrow>
              plugins_res (ps_result st') =
                plugins_res (ps_result st) @
                  [\<lparr>f_name = pl_name plugin,
                    f_message = ''Plugin '' @ pl_name plugin @
                      '': This request has been requeued 15 times. '' @
                      ''Will not enqueue an additional request to '' @ url seed,
                    f_severity = INFO\<rparr>]) \<and>
           (pl_exception plugin = None \<and> \<not> (pl_message plugin \<noteq> [] \<and> pl_is_visible plugin) \<and>
            (transport env \<noteq> ''http/s'' \<or>
             \<not> check_in_scope env (ps_result st) (history_url seed) (domain_scope env) \<or>
             url seed \<in> set (cache_processed (ps_cache st))) \<longrightarrow> st' = st)"
  using assms
  by (auto simp: process_plugin_def append_finding_def throw_def check_cache_def
        requeue_limit_def requeue_message_def plugin_from_finding_def str_int_15
        split: option.splits)

theorem backfeed_requeue_limit_witness:
  "pl_seed (ex_backfeed_plugin ''http://h/a.js'' 15) = Some (backfeed_at ''http://h/a.js'' 15) \<and>
   item_type (backfeed_at ''http://h/a.js'' 15) = BACKFEED \<and>
   backfeed_level (backfeed_at ''http://h/a.js'' 15) \<ge> 15 \<and>
   (\<exists>st'. process_plugin ex_plugin_env ex_plugin_state (ex_backfeed_plugin ''http://h/a.js'' 15)
            = Inr st' \<and>
          queue_out (ps_out st') = [] \<and> queue_discard (ps_out st') = [] \<and>
          plugins_res (ps_result st') =
            [\<lparr>f_name = ''links'',
              f_message = ''Plugin links: This request has been requeued 15 times. '' @
                ''Will not enqueue an additional request to http://h/a.js'',
              f_severity = INFO\<rparr>])"
proof -
  let ?p = "ex_backfeed_plugin ''http://h/a.js'' 15"
  let ?s = "backfeed_at ''http://h/a.js'' 15"
  have h: "pl_seed ?p = Some ?s" "item_type ?s = BACKFEED" "backfeed_level ?s \<ge> 15"
    by (simp_all add: ex_backfeed_plugin_def backfeed_at_def)
  have g: "pl_exception ?p = None" "\<not> (pl_message ?p \<noteq> [] \<and> pl_is_visible ?p)"
    "transport ex_plugin_env = ''http/s''"
    "check_in_scope ex_plugin_env (ps_result ex_plugin_state) (history_url ?s)
       (domain_scope ex_plugin_env)"
    "url ?s \<notin> set (cache_processed (ps_cache ex_plugin_state))"
    "pl_name ?p = ''links''" "url ?s = ''http://h/a.js''"
    by (simp_all add: ex_backfeed_plugin_def backfeed_at_def ex_plugin_env_def
          ex_plugin_state_def)
  have e: "queue_out (ps_out ex_plugin_state) = []" "queue_discard (ps_out ex_plugin_state) = []"
    "plugins_res (ps_result ex_plugin_state) = []"
    by (simp_all add: ex_plugin_state_def empty_out_def ex_seed_def)
  from backfeed_requeue_limit [OF h, of ex_plugin_env ex_plugin_state] g e
  have "\<exists>st'. process_plugin ex_plugin_env ex_plugin_state ?p = Inr st' \<and>
          queue_out (ps_out st') = [] \<and> queue_discard (ps_out st') = [] \<and>
          plugins_res (ps_result st') =
            [\<lparr>f_name = ''links'',
              f_message = ''Plugin links: This request has been requeued 15 times. '' @
                ''Will not enqueue an additional request to http://h/a.js'',
              f_severity = INFO\<rparr>]"
    by auto
  with h show ?thesis by blast
qed

text \<open>Claim C4, as stated, fails: a \<open>BACKFEED\<close> at the requeue limit gets no finding
  when its URL is in the processed cache already, because the cache check and its
  \<^verbatim>\<open>continue\<close> come before the limit check, nor when its URL is out of scope. The
  turn of the loop leaves the state, and with it the findings of the result, as they
  were.\<close>

theorem backfeed_at_limit_dropped_without_finding:
  "pl_seed (ex_backfeed_plugin ''http://h/admin/'' 15) = Some (backfeed_at ''http://h/admin/'' 15) \<and>
   item_type (backfeed_at ''http://h/admin/'' 15) = BACKFEED \<and>
   backfeed_level (backfeed_at ''http://h/admin/'' 15) = 15 \<and>
   process_plugin ex_plugin_env ex_plugin_state (ex_backfeed_plugin ''http://h/admin/'' 15)
     = Inr ex_plugin_state \<and>
   process_plugin ex_out_of_scope_env ex_plugin_state (ex_backfeed_plugin ''http://h/a.js'' 15)
     = Inr ex_plugin_state \<and>
   plugins_res (ps_result ex_plugin_state) = []"
  by (simp add: process_plugin_def ex_backfeed_plugin_def backfeed_at_def ex_plugin_env_def
        ex_out_of_scope_env_def ex_plugin_state_def check_cache_def ex_seed_def)


section \<open>Theorems: the empty dictionary\<close>

lemma wait_for_room_returns:
  "k < fuel \<Longrightarrow> qsize (look + k) \<le> limit \<Longrightarrow> \<exists>l. wait_for_room qsize limit fuel look = Some l"
proof (induction fuel arbitrary: look k)
  case 0
  then show ?case by simp
next
  case (Suc fuel)
  show ?case
  proof (cases "qsize look > limit")
    case False
    then show ?thesis by simp
  next
    case True
    with Suc.prems have "k \<noteq> 0" by (cases k) auto
    then obtain k' where k': "k = Suc k'" by (cases k) auto
    with Suc.prems have "k' < fuel" "qsize (Suc look + k') \<le> limit" by auto
    from Suc.IH [OF this] True show ?thesis by simp
  qed
qed

lemma wait_for_processed_returns:
  "k < fuel \<Longrightarrow> processed (look + k) \<noteq> 0 \<Longrightarrow> \<exists>l. wait_for_processed processed fuel look = Some l"
proof (induction fuel arbitrary: look k)
  case 0
  then show ?case by simp
next
  case (Suc fuel)
  show ?case
  proof (cases "processed look = 0")
    case False
    then show ?thesis by simp
  next
    case True
    with Suc.prems have "k \<noteq> 0" by (cases k) auto
    then obtain k' where k': "k = Suc k'" by (cases k) auto
    with Suc.prems have "k' < fuel" "processed (Suc look + k') \<noteq> 0" by auto
    from Suc.IH [OF this] True show ?thesis by simp
  qed
qed

lemma SeedQueue_send_dictio:
  "SeedQueue_send env fuel q item = Some q' \<Longrightarrow> compiled_dictio q' = compiled_dictio q"
  by (auto simp: SeedQueue_send_def split: if_splits option.splits)

lemma SeedQueue_send_looks:
  "SeedQueue_send env fuel q item = Some q' \<Longrightarrow> sq_looks q' = sq_looks q \<or> \<not> discarded item"
  by (auto simp: SeedQueue_send_def split: if_splits option.splits)

lemma send_word_dictio:
  "send_word env fuel q w = Some q' \<Longrightarrow> compiled_dictio q' = compiled_dictio q"
  by (auto simp: send_word_def Let_def split: prod.splits if_splits dest!: SeedQueue_send_dictio)

lemma send_word_returns:
  assumes "k < fuel" and "qsize_at env (sq_looks q + k) \<le> concurrent env * 5"
  shows "\<exists>q'. send_word env fuel q w = Some q'"
proof -
  from wait_for_room_returns [of k fuel "qsize_at env" "sq_looks q" "concurrent env * 5"] assms
  obtain l where "wait_for_room (qsize_at env) (concurrent env * 5) fuel (sq_looks q) = Some l"
    by blast
  then show ?thesis
    by (auto simp: send_word_def SeedQueue_send_def Let_def split: prod.splits)
qed

lemma send_baseline_dictio:
  "send_baseline env fuel q = Some q' \<Longrightarrow>
     compiled_dictio q' = compiled_dictio q \<and> sq_looks q' = sq_looks q"
  by (auto simp: send_baseline_def Let_def split: option.splits if_splits)

lemma send_baseline_returns:
  assumes "k < fuel" and "processed_at env (sq_waits q + k) \<noteq> 0"
  shows "\<exists>q'. send_baseline env fuel q = Some q'"
proof -
  from wait_for_processed_returns [of k fuel "processed_at env" "sq_waits q"] assms
  obtain l where "wait_for_processed (processed_at env) fuel (sq_waits q) = Some l"
    by blast
  then show ?thesis
    by (auto simp: send_baseline_def Let_def split: option.splits)
qed

lemma send_dictionary_empty:
  assumes "compiled_dictio q = []"
  shows "send_dictionary env fuel q =
           (case send_word env fuel q [\<lparr>fw_content = [], fw_type = WORD\<rparr>] of
              None \<Rightarrow> None
            | Some q1 \<Rightarrow> Some (Some (FuzzExceptBadOptions
                                      ''Empty dictionary! Please check payload or filter.''), q1))"
  using assms
  by (auto simp: send_dictionary_def split: option.splits list.splits dest!: send_word_dictio)

lemma seed_to_emit_simps:
  "sq_looks (seed_to_emit env q x) = sq_looks q"
  "sq_waits (seed_to_emit env q x) = sq_waits q"
  "compiled_dictio (seed_to_emit env q x) =
     (if item_type x = STARTSEED then compiled_dictio q else compile_dictio env x)"
  by (simp_all add: seed_to_emit_def add_initial_recursion_to_cache_def restart_def)

lemma SeedQueue_process_emits:
  assumes "item_type x = STARTSEED \<or> item_type x = SEED"
    and "\<not> (limitrequests env \<and> queued_requests env > LIMITREQUESTS_THRESHOLD env)"
  shows "SeedQueue_process env fuel q x =
           send_baseline_and_dictionary env fuel (seed_to_emit env q x)"
  using assms by (auto simp: SeedQueue_process_def seed_to_emit_def Let_def)

lemma SeedQueue_process_limited:
  assumes "item_type x = STARTSEED \<or> item_type x = SEED"
    and "limitrequests env \<and> queued_requests env > LIMITREQUESTS_THRESHOLD env"
  shows "SeedQueue_process env fuel q x = Some (None, end_seed (seed_to_emit env q x))"
  using assms by (auto simp: SeedQueue_process_def seed_to_emit_def Let_def)

lemma end_seed_seed_to_emit:
  "queue_out (sq_out (end_seed (seed_to_emit env q x))) =
     queue_out (sq_out q) @
       [endseed_item (priority (if item_type x = STARTSEED then compiled_seed q else x))]"
  by (simp add: end_seed_def seed_to_emit_def send_last_def restart_def
        add_initial_recursion_to_cache_def)

text \<open>Claim C8, amended. For a \<open>STARTSEED\<close> or \<open>SEED\<close> whose payload iterator yields
  nothing, \<^verbatim>\<open>SeedQueue.process\<close> raises the \<^verbatim>\<open>FuzzExceptBadOptions\<close> that
  reports the empty dictionary, unless the request limit is active and the pool holds
  more queued requests than the threshold: then it does not read the iterator and ends
  the seed normally, with an \<open>ENDSEED\<close> of the seed's priority and no exception. Without
  the limit every return of \<^verbatim>\<open>process\<close> is that exception, and it does return once
  the wait after the baseline and the blocking put of the request for the empty payload
  end within the fuel.\<close>

theorem SeedQueue_process_empty_dictionary:
  assumes "item_type fuzz_item = STARTSEED \<and> compiled_dictio q = [] \<or>
           item_type fuzz_item = SEED \<and> compile_dictio env fuzz_item = []"
  shows "(limitrequests env \<and> queued_requests env > LIMITREQUESTS_THRESHOLD env \<longrightarrow>
            (\<exists>q'. SeedQueue_process env fuel q fuzz_item = Some (None, q') \<and>
                   queue_out (sq_out q') =
                     queue_out (sq_out q) @
                       [endseed_item (priority (if item_type fuzz_item = STARTSEED
                                                then compiled_seed q else fuzz_item))])) \<and>
         (\<not> (limitrequests env \<and> queued_requests env > LIMITREQUESTS_THRESHOLD env) \<longrightarrow>
            (\<forall>r q'. SeedQueue_process env fuel q fuzz_item = Some (r, q') \<longrightarrow>
               r = Some (FuzzExceptBadOptions
                           ''Empty dictionary! Please check payload or filter.'')) \<and>
            ((\<exists>k<fuel. processed_at env (sq_waits q + k) \<noteq> 0) \<and>
             (\<exists>k<fuel. qsize_at env (sq_looks q + k) \<le> concurrent env * 5) \<longrightarrow>
               (\<exists>q'. SeedQueue_process env fuel q fuzz_item =
                        Some (Some (FuzzExceptBadOptions
                                      ''Empty dictionary! Please check payload or filter.''), q'))))"
proof -
  let ?q0 = "seed_to_emit env q fuzz_item"
  let ?e = "FuzzExceptBadOptions ''Empty dictionary! Please check payload or filter.''"
  let ?limited = "limitrequests env \<and> queued_requests env > LIMITREQUESTS_THRESHOLD env"
  have ty: "item_type fuzz_item = STARTSEED \<or> item_type fuzz_item = SEED"
    using assms by blast
  have d0: "compiled_dictio ?q0 = []"
    using assms by (auto simp: seed_to_emit_simps)
  have limited: "\<exists>q'. SeedQueue_process env fuel q fuzz_item = Some (None, q') \<and>
                   queue_out (sq_out q') =
                     queue_out (sq_out q) @
                       [endseed_item (priority (if item_type fuzz_item = STARTSEED
                                                then compiled_seed q else fuzz_item))]"
    if l: ?limited
    using SeedQueue_process_limited [OF ty l, of fuel q]
      end_seed_seed_to_emit [of env q fuzz_item] by simp
  have part1: "r = Some ?e"
    if nl: "\<not> ?limited" and ret: "SeedQueue_process env fuel q fuzz_item = Some (r, q')" for r q'
  proof -
    have p: "SeedQueue_process env fuel q fuzz_item = send_baseline_and_dictionary env fuel ?q0"
      by (rule SeedQueue_process_emits [OF ty nl])
    from ret p obtain qb where qb: "send_baseline env fuel ?q0 = Some qb"
      and sd: "send_dictionary env fuel qb = Some (r, q')"
      by (auto simp: send_baseline_and_dictionary_def split: option.splits)
    from send_baseline_dictio [OF qb] d0 have "compiled_dictio qb = []" by simp
    from send_dictionary_empty [OF this, of env fuel] sd show ?thesis
      by (auto split: option.splits)
  qed
  have part2: "\<exists>q'. SeedQueue_process env fuel q fuzz_item = Some (Some ?e, q')"
    if nl: "\<not> ?limited"
      and w: "\<exists>k<fuel. processed_at env (sq_waits q + k) \<noteq> 0"
      and r: "\<exists>k<fuel. qsize_at env (sq_looks q + k) \<le> concurrent env * 5"
  proof -
    have p: "SeedQueue_process env fuel q fuzz_item = send_baseline_and_dictionary env fuel ?q0"
      by (rule SeedQueue_process_emits [OF ty nl])
    from w obtain k where "k < fuel" "processed_at env (sq_waits ?q0 + k) \<noteq> 0"
      by (auto simp: seed_to_emit_simps)
    from send_baseline_returns [OF this]
    obtain qb where qb: "send_baseline env fuel ?q0 = Some qb" by blast
    from send_baseline_dictio [OF qb] d0
    have db: "compiled_dictio qb = []" and lb: "sq_looks qb = sq_looks q"
      by (simp_all add: seed_to_emit_simps)
    from r lb obtain k' where "k' < fuel" "qsize_at env (sq_looks qb + k') \<le> concurrent env * 5"
      by auto
    from send_word_returns [OF this]
    obtain q1 where "send_word env fuel qb [\<lparr>fw_content = [], fw_type = WORD\<rparr>] = Some q1"
      by blast
    with send_dictionary_empty [OF db, of env fuel] qb p show ?thesis
      by (simp add: send_baseline_and_dictionary_def)
  qed
  from limited part1 part2 show ?thesis by blast
qed

theorem SeedQueue_process_empty_dictionary_witness:
  "item_type (seed_at ''http://h/admin/FUZZ'' 20) = SEED \<and>
   compile_dictio ex_seed_env (seed_at ''http://h/admin/FUZZ'' 20) = [] \<and>
   \<not> (limitrequests ex_seed_env \<and>
      queued_requests ex_seed_env > LIMITREQUESTS_THRESHOLD ex_seed_env) \<and>
   processed_at ex_seed_env (sq_waits ex_seed_queue + 1) \<noteq> 0 \<and>
   qsize_at ex_seed_env (sq_looks ex_seed_queue + 1) \<le> concurrent ex_seed_env * 5 \<and>
   (\<exists>q'. SeedQueue_process ex_seed_env 5 ex_seed_queue (seed_at ''http://h/admin/FUZZ'' 20) =
            Some (Some (FuzzExceptBadOptions
                          ''Empty dictionary! Please check payload or filter.''), q')) \<and>
   compile_dictio ex_limited_env (seed_at ''http://h/admin/FUZZ'' 20) = [] \<and>
   limitrequests ex_limited_env \<and>
   queued_requests ex_limited_env > LIMITREQUESTS_THRESHOLD ex_limited_env \<and>
   (\<exists>q'. SeedQueue_process ex_limited_env 5 ex_seed_queue (seed_at ''http://h/admin/FUZZ'' 20) =
            Some (None, q') \<and>
          queue_out (sq_out q') = [endseed_item 20])"
proof -
  let ?x = "seed_at ''http://h/admin/FUZZ'' 20"
  have a: "item_type ?x = STARTSEED \<and> compiled_dictio ex_seed_queue = [] \<or>
           item_type ?x = SEED \<and> compile_dictio ex_seed_env ?x = []"
    by (simp add: seed_at_def ex_seed_env_def)
  have a': "item_type ?x = STARTSEED \<and> compiled_dictio ex_seed_queue = [] \<or>
           item_type ?x = SEED \<and> compile_dictio ex_limited_env ?x = []"
    by (simp add: seed_at_def ex_seed_env_def ex_limited_env_def)
  have f: "item_type ?x = SEED" "compile_dictio ex_seed_env ?x = []"
    "compile_dictio ex_limited_env ?x = []" "item_type ?x \<noteq> STARTSEED" "priority ?x = 20"
    by (simp_all add: seed_at_def ex_seed_env_def ex_limited_env_def)
  have l: "\<not> (limitrequests ex_seed_env \<and>
              queued_requests ex_seed_env > LIMITREQUESTS_THRESHOLD ex_seed_env)"
    by (simp add: ex_seed_env_def)
  have l': "limitrequests ex_limited_env"
    "queued_requests ex_limited_env > LIMITREQUESTS_THRESHOLD ex_limited_env"
    by (simp_all add: ex_seed_env_def ex_limited_env_def)
  have w: "processed_at ex_seed_env (sq_waits ex_seed_queue + 1) \<noteq> 0"
    by (simp add: ex_seed_env_def)
  have r: "qsize_at ex_seed_env (sq_looks ex_seed_queue + 1) \<le> concurrent ex_seed_env * 5"
    by (simp add: ex_seed_env_def)
  have w': "\<exists>k<5. processed_at ex_seed_env (sq_waits ex_seed_queue + k) \<noteq> 0"
    using w by (intro exI [of _ 1]) simp
  have r': "\<exists>k<5. qsize_at ex_seed_env (sq_looks ex_seed_queue + k) \<le> concurrent ex_seed_env * 5"
    using r by (intro exI [of _ 1]) simp
  have o: "queue_out (sq_out ex_seed_queue) = []"
    by (simp add: ex_seed_queue_def empty_out_def)
  from SeedQueue_process_empty_dictionary [OF a, of 5] l w' r'
  have 1: "\<exists>q'. SeedQueue_process ex_seed_env 5 ex_seed_queue ?x =
                  Some (Some (FuzzExceptBadOptions
                                ''Empty dictionary! Please check payload or filter.''), q')"
    by blast
  from SeedQueue_process_empty_dictionary [OF a', of 5] l'
  have "\<exists>q'. SeedQueue_process ex_limited_env 5 ex_seed_queue ?x = Some (None, q') \<and>
          queue_out (sq_out q') =
            queue_out (sq_out ex_seed_queue) @
              [endseed_item (priority (if item_type ?x = STARTSEED
                                       then compiled_seed ex_seed_queue else ?x))]"
    by blast
  then have 2: "\<exists>q'. SeedQueue_process ex_limited_env 5 ex_seed_queue ?x = Some (None, q') \<and>
          queue_out (sq_out q') = [endseed_item 20]"
    using f(4,5) o by simp
  from f(1,2,3) l l' w r 1 2 show ?thesis by blast
qed

text \<open>Claim C8, as stated, fails: with \<^verbatim>\<open>limitrequests\<close> set and 1001 requests queued
  against a threshold of 1000, a \<open>SEED\<close> whose payload iterator is empty is completed
  normally. \<^verbatim>\<open>process\<close> raises nothing and puts the \<open>ENDSEED\<close> on the output
  queue.\<close>

theorem limited_seed_ends_without_bad_options:
  "item_type (seed_at ''http://h/admin/FUZZ'' 20) = SEED \<and>
   compile_dictio ex_limited_env (seed_at ''http://h/admin/FUZZ'' 20) = [] \<and>
   SeedQueue_process ex_limited_env 5 ex_seed_queue (seed_at ''http://h/admin/FUZZ'' 20) =
     Some (None, ex_seed_queue\<lparr>compiled_seed := seed_at ''http://h/admin/FUZZ'' 20,
                               sq_out := empty_out\<lparr>queue_out := [endseed_item 20]\<rparr>\<rparr>)"
  by (simp add: SeedQueue_process_def ex_limited_env_def ex_seed_env_def ex_seed_queue_def
        seed_at_def restart_def end_seed_def send_last_def empty_out_def Let_def)


section \<open>Theorems: evaluating a filter twice\<close>

lemma reads_result_returns: "reads_result (returns x)"
  by (simp add: reads_result_def returns_def)

lemma reads_result_raises: "reads_result (raises e)"
  by (simp add: reads_result_def raises_def)

lemma reads_result_and_then:
  assumes "reads_result m" and "\<And>x. reads_result (f x)"
  shows "reads_result (and_then m f)"
  unfolding reads_result_def
proof (intro allI impI)
  fix self self' :: FuzzResFilter
  assume eq: "self_fuzz_result self = self_fuzz_result self'"
  from assms(1) eq have m: "fst (m self) = fst (m self')"
    "self_fuzz_result (snd (m self)) = self_fuzz_result self"
    "self_fuzz_result (snd (m self')) = self_fuzz_result self'"
    "self_cache (snd (m self)) = self_cache self"
    "filter_string (snd (m self)) = filter_string self"
    unfolding reads_result_def by metis+
  show "fst (and_then m f self) = fst (and_then m f self') \<and>
        self_fuzz_result (snd (and_then m f self)) = self_fuzz_result self \<and>
        self_cache (snd (and_then m f self)) = self_cache self \<and>
        filter_string (snd (and_then m f self)) = filter_string self"
  proof (cases "fst (m self)")
    case (Inl e)
    with m show ?thesis
      by (cases "m self"; cases "m self'") (auto simp: and_then_def)
  next
    case (Inr x)
    have eq': "self_fuzz_result (snd (m self)) = self_fuzz_result (snd (m self'))"
      using m eq by simp
    from assms(2) [of x] eq'
    have f: "fst (f x (snd (m self))) = fst (f x (snd (m self')))"
      "self_fuzz_result (snd (f x (snd (m self)))) = self_fuzz_result (snd (m self))"
      "self_cache (snd (f x (snd (m self)))) = self_cache (snd (m self))"
      "filter_string (snd (f x (snd (m self)))) = filter_string (snd (m self))"
      unfolding reads_result_def by metis+
    with Inr m show ?thesis
      by (cases "m self"; cases "m self'") (auto simp: and_then_def)
  qed
qed

lemma reads_result_lift: "reads_result (lift r)"
  by (cases r) (simp_all add: lift_def reads_result_returns reads_result_raises)

lemma reads_result_attempt: "reads_result (attempt r)"
  by (cases r) (simp_all add: attempt_def reads_result_returns reads_result_raises)

lemma get_field_value_shape:
  "\<exists>r. \<forall>self. get_field_value lib v field self =
           (r, self\<lparr>self_stack := self_stack self @ [field]\<rparr>)"
proof (cases "rgetattr lib v field")
  case (Inl e)
  then show ?thesis
    by (cases e) (simp_all add: get_field_value_def Let_def)
next
  case (Inr x)
  then show ?thesis by (simp add: get_field_value_def Let_def)
qed

lemma reads_result_get_field_value: "reads_result (get_field_value lib v field)"
proof -
  from get_field_value_shape [of lib v field] obtain r where
    "\<And>self. get_field_value lib v field self =
             (r, self\<lparr>self_stack := self_stack self @ [field]\<rparr>)"
    by blast
  then show ?thesis by (simp add: reads_result_def)
qed

lemma reads_result_on_result:
  assumes "\<And>r. reads_result (g r)"
  shows "reads_result (\<lambda>self. g (self_fuzz_result self) self)"
  using assms unfolding reads_result_def by metis

lemma reads_result_compute_res_symbol: "reads_result (compute_res_symbol lib field)"
proof -
  have "compute_res_symbol lib field =
          (\<lambda>self. get_field_value lib (PRes (self_fuzz_result self)) field self)"
    by (rule ext) (simp add: compute_res_symbol_def)
  then show ?thesis
    using reads_result_on_result [of "\<lambda>r. get_field_value lib (PRes r) field"]
    by (simp add: reads_result_get_field_value)
qed

lemma reads_result_pair: "reads_result (\<lambda>self. (x, self))"
  by (simp add: reads_result_def)

lemma reads_result_fuzz_symbol_on: "reads_result (fuzz_symbol_on lib index field r)"
proof (cases "get_payload_content lib r (case index of Some i \<Rightarrow> i | None \<Rightarrow> 1)")
  case (Inl e)
  then have "\<exists>x. fuzz_symbol_on lib index field r = (\<lambda>self. (x, self))"
    by (cases e) (auto simp: fuzz_symbol_on_def fun_eq_iff)
  then show ?thesis using reads_result_pair by auto
next
  case (Inr v)
  show ?thesis
  proof (cases "\<exists>f. field = Some f \<and> f \<noteq> []")
    case True
    then obtain f where "field = Some f" "f \<noteq> []" by blast
    with Inr have "fuzz_symbol_on lib index field r = get_field_value lib v f"
      by (simp add: fuzz_symbol_on_def fun_eq_iff)
    then show ?thesis by (simp add: reads_result_get_field_value)
  next
    case False
    with Inr have "fuzz_symbol_on lib index field r = (\<lambda>self. (Inr v, self))"
      by (cases field) (auto simp: fuzz_symbol_on_def fun_eq_iff)
    then show ?thesis by (simp add: reads_result_pair)
  qed
qed

lemma reads_result_compute_fuzz_symbol: "reads_result (compute_fuzz_symbol lib index field)"
proof -
  have "compute_fuzz_symbol lib index field =
          (\<lambda>self. fuzz_symbol_on lib index field (self_fuzz_result self) self)"
    by (rule ext) (simp add: compute_fuzz_symbol_def fuzz_symbol_on_def Let_def)
  then show ?thesis
    using reads_result_on_result [of "fuzz_symbol_on lib index field"]
    by (simp add: reads_result_fuzz_symbol_on)
qed

lemma reads_result_compute_symbol: "reads_result (compute_symbol lib symb)"
  by (cases symb)
     (simp_all add: reads_result_compute_fuzz_symbol reads_result_compute_res_symbol
        reads_result_returns)

lemma reads_result_gregex_value: "reads_result (gregex_value lib param1 fuzz_val)"
proof (cases "re_group1 lib (case param1 of Some p \<Rightarrow> PStr p | None \<Rightarrow> PNone) fuzz_val")
  case (Inl e)
  then show ?thesis
    by (cases e) (simp_all add: gregex_value_def reads_result_raises)
next
  case (Inr g)
  then show ?thesis
    by (cases g) (simp_all add: gregex_value_def reads_result_returns)
qed

lemma reads_result_get_operator_value:
  assumes "op \<noteq> ''unique''" and "op \<noteq> ''u''"
  shows "reads_result (get_operator_value lib location fuzz_val op raw1 raw2)"
  using assms
  by (simp add: get_operator_value_def Let_def reads_result_lift reads_result_returns
        reads_result_raises reads_result_gregex_value split: option.split)

lemma reads_result_compute_res_value:
  "stateless_statement st \<Longrightarrow> reads_result (compute_res_value lib st)"
proof (cases st)
  case (Statement symb c)
  assume "stateless_statement st"
  with Statement show ?thesis
    by (cases c)
       (auto intro!: reads_result_and_then reads_result_compute_symbol reads_result_lift
          reads_result_get_operator_value)
qed

lemma reads_result_compute_right_side:
  "stateless_right_side rs \<Longrightarrow> reads_result (compute_right_side lib rs)"
  by (cases rs) (simp_all add: reads_result_raises reads_result_compute_res_value)

lemma pop_field_to_set_shape:
  "\<exists>x st. pop_field_to_set self = (Inr x, self\<lparr>self_stack := st\<rparr>)"
  by (auto simp: pop_field_to_set_def Let_def)

lemma reads_result_after_pop:
  assumes "\<And>f. reads_result (k f)" and "\<And>f f'. k f = k f'"
  shows "reads_result (and_then pop_field_to_set k)"
  unfolding reads_result_def
proof (intro allI impI)
  fix self self' :: FuzzResFilter
  assume eq: "self_fuzz_result self = self_fuzz_result self'"
  obtain x st where p: "pop_field_to_set self = (Inr x, self\<lparr>self_stack := st\<rparr>)"
    using pop_field_to_set_shape by blast
  obtain x' st' where p': "pop_field_to_set self' = (Inr x', self'\<lparr>self_stack := st'\<rparr>)"
    using pop_field_to_set_shape by blast
  have a: "and_then pop_field_to_set k self = k x (self\<lparr>self_stack := st\<rparr>)"
    by (simp add: and_then_def p)
  have a': "and_then pop_field_to_set k self' = k x (self'\<lparr>self_stack := st'\<rparr>)"
    using assms(2) [of x' x] by (simp add: and_then_def p')
  have "self_fuzz_result (self\<lparr>self_stack := st\<rparr>) = self_fuzz_result (self'\<lparr>self_stack := st'\<rparr>)"
    using eq by simp
  with assms(1) [of x]
  have "fst (k x (self\<lparr>self_stack := st\<rparr>)) = fst (k x (self'\<lparr>self_stack := st'\<rparr>)) \<and>
        self_fuzz_result (snd (k x (self\<lparr>self_stack := st\<rparr>))) =
          self_fuzz_result (self\<lparr>self_stack := st\<rparr>) \<and>
        self_cache (snd (k x (self\<lparr>self_stack := st\<rparr>))) = self_cache (self\<lparr>self_stack := st\<rparr>) \<and>
        filter_string (snd (k x (self\<lparr>self_stack := st\<rparr>))) =
          filter_string (self\<lparr>self_stack := st\<rparr>)"
    unfolding reads_result_def by blast
  then show "fst (and_then pop_field_to_set k self) = fst (and_then pop_field_to_set k self') \<and>
        self_fuzz_result (snd (and_then pop_field_to_set k self)) = self_fuzz_result self \<and>
        self_cache (snd (and_then pop_field_to_set k self)) = self_cache self \<and>
        filter_string (snd (and_then pop_field_to_set k self)) = filter_string self"
    by (simp add: a a')
qed

lemma reads_result_compare_ints: "reads_result (compare_ints lib rel l r)"
  unfolding compare_ints_def
  by (intro reads_result_and_then reads_result_attempt reads_result_returns)

lemma reads_result_contains_value: "reads_result (contains_value lib l r)"
proof (cases l)
  case (PStr ls)
  then show ?thesis
    by (cases r) (simp_all add: contains_value_def reads_result_returns reads_result_raises)
next
  case (PDict d)
  then show ?thesis
    by (cases r) (simp_all add: contains_value_def reads_result_returns reads_result_raises)
qed (simp_all add: contains_value_def reads_result_raises reads_result_attempt)

lemma reads_result_compute_expr:
  assumes "exp_operator \<noteq> '':=''" and "exp_operator \<noteq> ''=+''" and "exp_operator \<noteq> ''=-''"
  shows "reads_result (compute_expr lib l exp_operator r)"
  unfolding compute_expr_def
proof (rule reads_result_after_pop)
  fix f f' :: "string option"
  show "reads_result
          (if exp_operator = ''='' \<or> exp_operator = ''==''
             then returns (PBool (py_str lib l = py_str lib r))
           else if exp_operator = ''<='' then compare_ints lib (\<le>) l r
           else if exp_operator = ''>='' then compare_ints lib (\<ge>) l r
           else if exp_operator = ''<'' then compare_ints lib (<) l r
           else if exp_operator = ''>'' then compare_ints lib (>) l r
           else if exp_operator = ''!='' then returns (PBool (\<not> py_eq lib l r))
           else if exp_operator = ''=~''
             then and_then (attempt (re_search lib r l)) (\<lambda>found. returns (PBool found))
           else if exp_operator = ''!~'' \<or> exp_operator = ''~''
             then and_then (contains_value lib l r) (\<lambda>ret.
                    returns (PBool (if exp_operator = ''~'' then ret else \<not> ret)))
           else if exp_operator = '':=''
             then set_field lib f r assign
           else if exp_operator = ''=+''
             then set_field lib f r operator_add
           else if exp_operator = ''=-''
             then (case r of
                     PStr s \<Rightarrow> set_field lib f r flipped_add
                   | _ \<Rightarrow> set_field lib f r operator_sub)
           else returns (PBool True))"
    using assms
    by (auto intro!: reads_result_and_then reads_result_attempt reads_result_returns
          reads_result_compare_ints reads_result_contains_value)
next
  fix f f' :: "string option"
  show "(if exp_operator = ''='' \<or> exp_operator = ''==''
             then returns (PBool (py_str lib l = py_str lib r))
           else if exp_operator = ''<='' then compare_ints lib (\<le>) l r
           else if exp_operator = ''>='' then compare_ints lib (\<ge>) l r
           else if exp_operator = ''<'' then compare_ints lib (<) l r
           else if exp_operator = ''>'' then compare_ints lib (>) l r
           else if exp_operator = ''!='' then returns (PBool (\<not> py_eq lib l r))
           else if exp_operator = ''=~''
             then and_then (attempt (re_search lib r l)) (\<lambda>found. returns (PBool found))
           else if exp_operator = ''!~'' \<or> exp_operator = ''~''
             then and_then (contains_value lib l r) (\<lambda>ret.
                    returns (PBool (if exp_operator = ''~'' then ret else \<not> ret)))
           else if exp_operator = '':=''
             then set_field lib f r assign
           else if exp_operator = ''=+''
             then set_field lib f r operator_add
           else if exp_operator = ''=-''
             then (case r of
                     PStr s \<Rightarrow> set_field lib f r flipped_add
                   | _ \<Rightarrow> set_field lib f r operator_sub)
           else returns (PBool True)) =
        (if exp_operator = ''='' \<or> exp_operator = ''==''
             then returns (PBool (py_str lib l = py_str lib r))
           else if exp_operator = ''<='' then compare_ints lib (\<le>) l r
           else if exp_operator = ''>='' then compare_ints lib (\<ge>) l r
           else if exp_operator = ''<'' then compare_ints lib (<) l r
           else if exp_operator = ''>'' then compare_ints lib (>) l r
           else if exp_operator = ''!='' then returns (PBool (\<not> py_eq lib l r))
           else if exp_operator = ''=~''
             then and_then (attempt (re_search lib r l)) (\<lambda>found. returns (PBool found))
           else if exp_operator = ''!~'' \<or> exp_operator = ''~''
             then and_then (contains_value lib l r) (\<lambda>ret.
                    returns (PBool (if exp_operator = ''~'' then ret else \<not> ret)))
           else if exp_operator = '':=''
             then set_field lib f' r assign
           else if exp_operator = ''=+''
             then set_field lib f' r operator_add
           else if exp_operator = ''=-''
             then (case r of
                     PStr s \<Rightarrow> set_field lib f' r flipped_add
                   | _ \<Rightarrow> set_field lib f' r operator_sub)
           else returns (PBool True))"
    using assms by simp
qed

lemma reads_result_compute_defn:
  "stateless_defn d \<Longrightarrow> reads_result (compute_defn lib d)"
  by (cases d)
     (auto intro!: reads_result_and_then reads_result_compute_res_value
        reads_result_compute_right_side reads_result_compute_expr)

lemma reads_result_compute_definition_not:
  "stateless_defn (snd dn) \<Longrightarrow> reads_result (compute_definition_not lib dn)"
  unfolding compute_definition_not_def
  by (intro reads_result_and_then reads_result_compute_defn reads_result_returns)

lemma reads_result_compute_definitions:
  "list_all (\<lambda>od. stateless_defn (snd (snd od))) ods \<Longrightarrow>
     reads_result (compute_definitions lib ods)"
proof (induction ods)
  case Nil
  then show ?case by (simp add: reads_result_returns)
next
  case (Cons od ods)
  then show ?case
    by (auto intro!: reads_result_and_then reads_result_compute_definition_not
          reads_result_returns)
qed

lemma reads_result_myreduce: "reads_result (myreduce first rest)"
  by (simp add: reads_result_def myreduce_def)

lemma reads_result_compute_definition_expr:
  "stateless_definition_expr de \<Longrightarrow> reads_result (compute_definition_expr lib de)"
  unfolding compute_definition_expr_def stateless_definition_expr_def
  by (auto intro!: reads_result_and_then reads_result_compute_definition_not
        reads_result_compute_definitions reads_result_returns)

lemma reads_result_compute_element:
  "stateless_element e \<Longrightarrow> reads_result (compute_element lib e)"
  by (cases e)
     (auto intro!: reads_result_and_then reads_result_compute_definition_expr
        reads_result_myreduce reads_result_returns reads_result_compute_definition_not)

lemma reads_result_compute_elements:
  "list_all (\<lambda>oe. stateless_element (snd oe)) oes \<Longrightarrow>
     reads_result (compute_elements lib oes)"
proof (induction oes)
  case Nil
  then show ?case by (simp add: reads_result_returns)
next
  case (Cons oe oes)
  then show ?case
    by (auto intro!: reads_result_and_then reads_result_compute_element reads_result_returns)
qed

lemma reads_result_compute_finalformula:
  "stateless_formula formula \<Longrightarrow> reads_result (compute_finalformula lib formula)"
  unfolding compute_finalformula_def stateless_formula_def
  by (auto intro!: reads_result_and_then reads_result_compute_element
        reads_result_compute_elements reads_result_myreduce)

lemma reads_result_compute_unclosed:
  "(case unclosed of None \<Rightarrow> True | Some de \<Rightarrow> stateless_definition_expr de) \<Longrightarrow>
     reads_result (compute_unclosed lib unclosed)"
  unfolding compute_unclosed_def
  by (cases unclosed)
     (auto intro!: reads_result_and_then reads_result_compute_definition_expr
        reads_result_returns)

lemma reads_result_compute_matched:
  assumes "case matched of None \<Rightarrow> True | Some formula \<Rightarrow> stateless_formula formula"
    and "case unclosed of None \<Rightarrow> True | Some de \<Rightarrow> stateless_definition_expr de"
  shows "reads_result (compute_matched lib matched unclosed)"
proof (cases matched)
  case None
  with assms(2) show ?thesis
    by (simp add: compute_matched_def reads_result_compute_unclosed)
next
  case (Some formula)
  with assms(1) have "stateless_element (fst formula)"
    "list_all (\<lambda>oe. stateless_element (snd oe)) (snd formula)"
    by (simp_all add: stateless_formula_def)
  with Some assms(2) show ?thesis
    unfolding compute_matched_def
    by (auto intro!: reads_result_and_then reads_result_compute_element
          reads_result_compute_elements reads_result_compute_unclosed reads_result_myreduce
          reads_result_returns)
qed

lemma is_filtered_shape:
  "is_filtered lib self r =
     (case parseString lib (filter_string self) of
        ParseException matched unclosed \<Rightarrow>
          (case fst (compute_matched lib matched unclosed (self\<lparr>self_fuzz_result := r\<rparr>)) of
             Inl (Uncaught (AttributeError m)) \<Rightarrow>
               Inl (FuzzExceptIncorrectFilter
                      (''It is only possible to use advanced filters when using a '' @
                       ''non-string payload. '' @ m))
           | Inl e \<Rightarrow> Inl e
           | Inr u \<Rightarrow>
               Inl (FuzzExceptIncorrectFilter
                      (''Incorrect filter expression \"'' @ filter_string self @
                       ''\", check documentation. '' @ [CHR 0x0A] @
                       parse_exception_text lib (filter_string self))),
           snd (compute_matched lib matched unclosed (self\<lparr>self_fuzz_result := r\<rparr>)))
      | ParseResults formula \<Rightarrow>
          (case fst (compute_finalformula lib formula (self\<lparr>self_fuzz_result := r\<rparr>)) of
             Inl (Uncaught (AttributeError m)) \<Rightarrow>
               Inl (FuzzExceptIncorrectFilter
                      (''It is only possible to use advanced filters when using a '' @
                       ''non-string payload. '' @ m))
           | Inl e \<Rightarrow> Inl e
           | Inr v \<Rightarrow> Inr (\<not> truthy v),
           snd (compute_finalformula lib formula (self\<lparr>self_fuzz_result := r\<rparr>))))"
  by (simp add: is_filtered_def Let_def
        split: parsed.split prod.split sum.split fuzz_exception.split py_exception.split)

lemma reads_result_same:
  "reads_result m \<Longrightarrow> self_fuzz_result self = self_fuzz_result self' \<Longrightarrow>
     fst (m self) = fst (m self')"
  unfolding reads_result_def by blast

lemma reads_result_keeps:
  assumes "reads_result m"
  shows "self_fuzz_result (snd (m self)) = self_fuzz_result self"
    and "self_cache (snd (m self)) = self_cache self"
    and "filter_string (snd (m self)) = filter_string self"
proof -
  have "self_fuzz_result self = self_fuzz_result self" by simp
  with assms have "fst (m self) = fst (m self) \<and>
      self_fuzz_result (snd (m self)) = self_fuzz_result self \<and>
      self_cache (snd (m self)) = self_cache self \<and>
      filter_string (snd (m self)) = filter_string self"
    unfolding reads_result_def by (elim allE [of _ self] impE) assumption
  then show "self_fuzz_result (snd (m self)) = self_fuzz_result self"
    and "self_cache (snd (m self)) = self_cache self"
    and "filter_string (snd (m self)) = filter_string self"
    by simp_all
qed

lemma is_filtered_reads:
  assumes "stateless_filter lib (filter_string self)"
    and "filter_string self' = filter_string self"
  shows "fst (is_filtered lib self' r) = fst (is_filtered lib self r) \<and>
         self_fuzz_result (snd (is_filtered lib self r)) = r \<and>
         self_cache (snd (is_filtered lib self r)) = self_cache self \<and>
         filter_string (snd (is_filtered lib self r)) = filter_string self"
proof (cases "parseString lib (filter_string self)")
  case (ParseException matched unclosed)
  with assms(1) have "case matched of None \<Rightarrow> True | Some formula \<Rightarrow> stateless_formula formula"
    "case unclosed of None \<Rightarrow> True | Some de \<Rightarrow> stateless_definition_expr de"
    by (simp_all add: stateless_filter_def stateless_parsed_def)
  then have rr: "reads_result (compute_matched lib matched unclosed)"
    by (rule reads_result_compute_matched)
  let ?s = "self\<lparr>self_fuzz_result := r\<rparr>" and ?s' = "self'\<lparr>self_fuzz_result := r\<rparr>"
  have "self_fuzz_result ?s' = self_fuzz_result ?s" by simp
  with rr have a: "fst (compute_matched lib matched unclosed ?s') =
                   fst (compute_matched lib matched unclosed ?s)"
    by (rule reads_result_same)
  have b: "self_fuzz_result (snd (compute_matched lib matched unclosed ?s)) = r"
    "self_cache (snd (compute_matched lib matched unclosed ?s)) = self_cache self"
    "filter_string (snd (compute_matched lib matched unclosed ?s)) = filter_string self"
    using reads_result_keeps [OF rr, of ?s] by simp_all
  from ParseException assms(2) a b show ?thesis
    by (simp add: is_filtered_shape split: sum.split fuzz_exception.split py_exception.split)
next
  case (ParseResults formula)
  with assms(1) have "stateless_formula formula"
    by (simp add: stateless_filter_def stateless_parsed_def)
  then have rr: "reads_result (compute_finalformula lib formula)"
    by (rule reads_result_compute_finalformula)
  let ?s = "self\<lparr>self_fuzz_result := r\<rparr>" and ?s' = "self'\<lparr>self_fuzz_result := r\<rparr>"
  have "self_fuzz_result ?s' = self_fuzz_result ?s" by simp
  with rr have a: "fst (compute_finalformula lib formula ?s') =
                   fst (compute_finalformula lib formula ?s)"
    by (rule reads_result_same)
  have b: "self_fuzz_result (snd (compute_finalformula lib formula ?s)) = r"
    "self_cache (snd (compute_finalformula lib formula ?s)) = self_cache self"
    "filter_string (snd (compute_finalformula lib formula ?s)) = filter_string self"
    using reads_result_keeps [OF rr, of ?s] by simp_all
  from ParseResults assms(2) a b show ?thesis by (simp add: is_filtered_shape)
qed

text \<open>Claim C7, amended. For every filter whose expression holds no \<^verbatim>\<open>unique\<close> call
  and no assignment operator (for an expression that does not parse: none in the part
  whose actions run before the parse fails), and for every result, evaluating the filter
  a second time on the same result gives the verdict of the first time, or the same
  exception; the first evaluation leaves the result and the cache of the filter as they
  were.\<close>

theorem stateless_filter_same_verdict:
  assumes "stateless_filter lib (filter_string self)"
  shows "fst (is_filtered lib (snd (is_filtered lib self r))
                (self_fuzz_result (snd (is_filtered lib self r))))
           = fst (is_filtered lib self r) \<and>
         self_fuzz_result (snd (is_filtered lib self r)) = r \<and>
         self_cache (snd (is_filtered lib self r)) = self_cache self"
proof -
  let ?self1 = "snd (is_filtered lib self r)"
  from is_filtered_reads [OF assms, of self r]
  have r1: "self_fuzz_result ?self1 = r" "self_cache ?self1 = self_cache self"
    "filter_string ?self1 = filter_string self"
    by simp_all
  from is_filtered_reads [OF assms r1(3), of r]
  have "fst (is_filtered lib ?self1 r) = fst (is_filtered lib self r)" by simp
  with r1 show ?thesis by simp
qed

theorem stateless_filter_same_verdict_witness:
  "stateless_filter ex_lib (filter_string (new_filter ''not (c=200 and l=5 and w=3)'' ex_seed)) \<and>
   fst (is_filtered ex_lib (new_filter ''not (c=200 and l=5 and w=3)'' ex_seed) ex_seed)
     = Inr True \<and>
   fst (is_filtered ex_lib
          (snd (is_filtered ex_lib (new_filter ''not (c=200 and l=5 and w=3)'' ex_seed) ex_seed))
          ex_seed)
     = Inr True"
proof -
  let ?f = "new_filter ''not (c=200 and l=5 and w=3)'' ex_seed"
  have h: "stateless_filter ex_lib (filter_string ?f)"
    by code_simp
  have v: "fst (is_filtered ex_lib ?f ex_seed) = Inr True"
    by code_simp
  note t = stateless_filter_same_verdict [OF h, of ex_seed]
  from t have e: "self_fuzz_result (snd (is_filtered ex_lib ?f ex_seed)) = ex_seed"
    by blast
  from t have "fst (is_filtered ex_lib (snd (is_filtered ex_lib ?f ex_seed))
                      (self_fuzz_result (snd (is_filtered ex_lib ?f ex_seed))))
                 = fst (is_filtered ex_lib ?f ex_seed)"
    by blast
  then have "fst (is_filtered ex_lib (snd (is_filtered ex_lib ?f ex_seed)) ex_seed) = Inr True"
    unfolding e v .
  with h v show ?thesis by blast
qed

text \<open>Claim C7, as stated, fails for \<^verbatim>\<open>unique\<close>: the filter \<^verbatim>\<open>code|u()\<close> lets a
  result with status 200 through the first time and filters the same result the second
  time, because the first evaluation has put 200 into the set kept for the call at
  offset 4.\<close>

theorem unique_changes_verdict:
  "fst (is_filtered ex_lib (new_filter ''code|u()'' ex_seed) ex_seed) = Inr False \<and>
   self_fuzz_result (snd (is_filtered ex_lib (new_filter ''code|u()'' ex_seed) ex_seed))
     = ex_seed \<and>
   self_cache (snd (is_filtered ex_lib (new_filter ''code|u()'' ex_seed) ex_seed)) 4
     = [PInt 200] \<and>
   fst (is_filtered ex_lib
          (snd (is_filtered ex_lib (new_filter ''code|u()'' ex_seed) ex_seed)) ex_seed)
     = Inr True"
  by code_simp

text \<open>An assignment changes the result it is evaluated on, here with the assignable URL
  of the example library: after \<^verbatim>\<open>url=+url\<close> the result is no longer the one that
  was given.\<close>

lemma assignment_changes_result:
  "fst (is_filtered ex_lib (new_filter ''url=+url'' ex_seed) ex_seed) = Inr False \<and>
   url (self_fuzz_result (snd (is_filtered ex_lib (new_filter ''url=+url'' ex_seed) ex_seed)))
     = ''http://h/admin/FUZZhttp://h/admin/FUZZ''"
  by code_simp

text \<open>An expression that does not parse has run the actions of what matched: the
  \<^verbatim>\<open>unique\<close> call of \<^verbatim>\<open>code|u() x\<close> has remembered the status before the
  parse fails at \<^verbatim>\<open>x\<close>, and inside a parenthesis that is never closed the call has
  run as well. Neither expression counts as one that keeps no state.\<close>

lemma failed_parse_has_run_actions:
  "fst (is_filtered ex_lib (new_filter ''code|u() x'' ex_seed) ex_seed) =
     Inl (FuzzExceptIncorrectFilter
            (''Incorrect filter expression \"code|u() x\", check documentation. '' @ [CHR 0x0A])) \<and>
   self_cache (snd (is_filtered ex_lib (new_filter ''code|u() x'' ex_seed) ex_seed)) 4
     = [PInt 200] \<and>
   \<not> stateless_filter ex_lib ''code|u() x'' \<and>
   self_cache (snd (is_filtered ex_lib (new_filter ''c=200 and (code|u()'' ex_seed) ex_seed)) 15
     = [PInt 200] \<and>
   self_stack (snd (is_filtered ex_lib (new_filter ''c=200 and (code|u()'' ex_seed) ex_seed))
     = [] \<and>
   self_stack (snd (is_filtered ex_lib (new_filter ''(code|u()'' ex_seed) ex_seed))
     = [''code''] \<and>
   \<not> stateless_filter ex_lib ''(code|u()''"
  by code_simp


section \<open>Theorems: the auto-filter\<close>

lemma recurring_identifier:
  "recurring r \<Longrightarrow> response_identifier_of r = ''c=200 and l=5 and w=42''"
  by (simp add: recurring_def response_identifier_of_def str_int_def digits_of.simps)

lemma recurring_filter_parse:
  "parseString lib ''not (c=200 and l=5 and w=42)'' =
     ParseResults (nested_definition_not True
       ((False,
         symbol_expr (Statement (res_symbol ''c'') no_call) ''=''
           (right_statement (Statement (int_values 200) no_call))),
        [(op_and, False,
          symbol_expr (Statement (res_symbol ''l'') no_call) ''=''
            (right_statement (Statement (int_values 5) no_call))),
         (op_and, False,
          symbol_expr (Statement (res_symbol ''w'') no_call) ''=''
            (right_statement (Statement (int_values 42) no_call)))]),
       [])"
proof -
  have "in_fragment ''not (c=200 and l=5 and w=42)''" by code_simp
  moreover have "parse_finalformula ''not (c=200 and l=5 and w=42)'' =
     ParseResults (nested_definition_not True
       ((False,
         symbol_expr (Statement (res_symbol ''c'') no_call) ''=''
           (right_statement (Statement (int_values 200) no_call))),
        [(op_and, False,
          symbol_expr (Statement (res_symbol ''l'') no_call) ''=''
            (right_statement (Statement (int_values 5) no_call))),
         (op_and, False,
          symbol_expr (Statement (res_symbol ''w'') no_call) ''=''
            (right_statement (Statement (int_values 42) no_call)))]),
       [])"
    by code_simp
  ultimately show ?thesis by (simp add: parseString_def)
qed

lemma str_int_200: "str_int 200 = ''200''" "str_int 5 = ''5''" "str_int 42 = ''42''"
  by (simp_all add: str_int_def digits_of.simps)

lemma recurring_is_filtered:
  assumes "recurring r"
    and "\<And>x. rgetattr lib (PRes x) ''c'' = Inr (PInt (code x))"
    and "\<And>x. rgetattr lib (PRes x) ''l'' = Inr (PInt (lines x))"
    and "\<And>x. rgetattr lib (PRes x) ''w'' = Inr (PInt (words x))"
    and "filter_string f = ''not (c=200 and l=5 and w=42)''"
  shows "is_filtered lib f r = (Inr True, f\<lparr>self_stack := [], self_fuzz_result := r\<rparr>)"
  using assms(1)
  by (simp add: is_filtered_def Let_def assms(5) recurring_filter_parse
        compute_finalformula_def compute_definition_expr_def compute_definition_not_def
        compute_expr_def compute_res_symbol_def get_field_value_def pop_field_to_set_def
        compute_not_operator_def myreduce_def reduce_step_def py_and_def py_not_def
        and_then_def returns_def assms(2,3,4) recurring_def str_int_200)

lemma send_kept: "\<not> discarded r \<Longrightarrow> send out r = out\<lparr>queue_out := queue_out out @ [r]\<rparr>"
  by (simp add: send_def)

lemma discard_marked:
  "discard out r = out\<lparr>queue_discard := queue_discard out @ [mark_discarded r]\<rparr>"
  by (simp add: discard_def send_def mark_discarded_def)

lemma process_counting:
  assumes "recurring r" and "ERROR_CODE lib \<noteq> 200"
    and "filter_string (af_filter q) = []"
    and "response_tracker_dict q = (if n = 0 then [] else [(''c=200 and l=5 and w=42'', int n)])"
    and "n < 9"
  shows "AutofilterQ_process lib colour q r =
           Inr (q\<lparr>response_tracker_dict := [(''c=200 and l=5 and w=42'', int (Suc n))],
                  af_out := (af_out q)\<lparr>queue_out := queue_out (af_out q) @ [r]\<rparr>\<rparr>)"
proof -
  have m: "history_method r \<noteq> ''HEAD''" "code r = 200" "\<not> discarded r"
    using assms(1) by (simp_all add: recurring_def)
  show ?thesis
  proof (cases "n = 0")
    case True
    with assms m show ?thesis
      by (simp add: AutofilterQ_process_def update_response_tracker_def Let_def
            recurring_identifier tracker_set_def send_kept)
  next
    case False
    with assms m show ?thesis
      by (simp add: AutofilterQ_process_def update_response_tracker_def Let_def
            recurring_identifier tracker_set_def tracker_move_to_end_def send_kept)
  qed
qed

lemma process_tenth:
  assumes "recurring r" and "ERROR_CODE lib \<noteq> 200"
    and "filter_string (af_filter q) = []"
    and "response_tracker_dict q = [(''c=200 and l=5 and w=42'', 9)]"
  shows "AutofilterQ_process lib colour q r =
           Inr (q\<lparr>af_filter := (af_filter q)\<lparr>filter_string := ''not (c=200 and l=5 and w=42)''\<rparr>,
                  response_tracker_dict := [],
                  af_out := (af_out q)\<lparr>queue_out := queue_out (af_out q) @
                              [with_finding (recurring_finding colour) r]\<rparr>\<rparr>)"
proof -
  have m: "history_method r \<noteq> ''HEAD''" "code r = 200" "\<not> discarded r"
    using assms(1) by (simp_all add: recurring_def)
  have d: "\<not> discarded (with_finding (recurring_finding colour) r)"
    using m by (simp add: with_finding_def)
  show ?thesis
    using assms m d
    by (simp add: AutofilterQ_process_def update_response_tracker_def Let_def
          recurring_identifier tracker_set_def tracker_pop_def update_filter_def
          plugin_from_finding_def with_finding_def recurring_finding_def send_def)
qed

lemma process_filtering:
  assumes "recurring r" and "ERROR_CODE lib \<noteq> 200"
    and "\<And>x. rgetattr lib (PRes x) ''c'' = Inr (PInt (code x))"
    and "\<And>x. rgetattr lib (PRes x) ''l'' = Inr (PInt (lines x))"
    and "\<And>x. rgetattr lib (PRes x) ''w'' = Inr (PInt (words x))"
    and "filter_string (af_filter q) = ''not (c=200 and l=5 and w=42)''"
  shows "AutofilterQ_process lib colour q r =
           Inr (q\<lparr>af_filter := (af_filter q)\<lparr>self_stack := [], self_fuzz_result := r\<rparr>,
                  af_out := (af_out q)\<lparr>queue_discard := queue_discard (af_out q) @
                              [mark_discarded r]\<rparr>\<rparr>)"
proof -
  have m: "history_method r \<noteq> ''HEAD''" "code r = 200"
    using assms(1) by (simp_all add: recurring_def)
  have f: "is_filtered lib (af_filter q) r =
             (Inr True, (af_filter q)\<lparr>self_stack := [], self_fuzz_result := r\<rparr>)"
    by (rule recurring_is_filtered [OF assms(1) assms(3,4,5) assms(6)])
  show ?thesis
    using assms(2,6) m
    by (simp add: AutofilterQ_process_def FuzzResFilter_is_visible_def f discard_marked)
qed

lemma run_append:
  "AutofilterQ_run lib colour q (xs @ ys) =
     (case AutofilterQ_run lib colour q xs of
        Inl e \<Rightarrow> Inl e
      | Inr q' \<Rightarrow> AutofilterQ_run lib colour q' ys)"
  by (induction xs arbitrary: q) (auto split: sum.splits)

lemma run_counting:
  assumes "\<forall>r \<in> set rs. recurring r" and "ERROR_CODE lib \<noteq> 200"
    and "filter_string (af_filter q) = []"
    and "response_tracker_dict q = (if n = 0 then [] else [(''c=200 and l=5 and w=42'', int n)])"
    and "n + length rs \<le> 9"
  shows "\<exists>q'. AutofilterQ_run lib colour q rs = Inr q' \<and>
           af_filter q' = af_filter q \<and>
           response_tracker_dict q' =
             (if n + length rs = 0 then [] else [(''c=200 and l=5 and w=42'', int (n + length rs))]) \<and>
           queue_out (af_out q') = queue_out (af_out q) @ rs \<and>
           queue_discard (af_out q') = queue_discard (af_out q)"
  using assms
proof (induction rs arbitrary: q n)
  case Nil
  then show ?case by simp
next
  case (Cons r rs)
  let ?q1 = "q\<lparr>response_tracker_dict := [(''c=200 and l=5 and w=42'', int (Suc n))],
               af_out := (af_out q)\<lparr>queue_out := queue_out (af_out q) @ [r]\<rparr>\<rparr>"
  have r: "recurring r" and n: "n < 9" using Cons.prems by auto
  have p: "AutofilterQ_process lib colour q r = Inr ?q1"
    by (rule process_counting [OF r Cons.prems(2,3,4) n])
  have "\<exists>q'. AutofilterQ_run lib colour ?q1 rs = Inr q' \<and>
           af_filter q' = af_filter ?q1 \<and>
           response_tracker_dict q' =
             (if Suc n + length rs = 0 then []
              else [(''c=200 and l=5 and w=42'', int (Suc n + length rs))]) \<and>
           queue_out (af_out q') = queue_out (af_out ?q1) @ rs \<and>
           queue_discard (af_out q') = queue_discard (af_out ?q1)"
    using Cons.prems by (intro Cons.IH) auto
  then show ?case using p by auto
qed

lemma run_filtering:
  assumes "\<forall>r \<in> set rs. recurring r" and "ERROR_CODE lib \<noteq> 200"
    and "\<And>x. rgetattr lib (PRes x) ''c'' = Inr (PInt (code x))"
    and "\<And>x. rgetattr lib (PRes x) ''l'' = Inr (PInt (lines x))"
    and "\<And>x. rgetattr lib (PRes x) ''w'' = Inr (PInt (words x))"
    and "filter_string (af_filter q) = ''not (c=200 and l=5 and w=42)''"
  shows "\<exists>q'. AutofilterQ_run lib colour q rs = Inr q' \<and>
           filter_string (af_filter q') = ''not (c=200 and l=5 and w=42)'' \<and>
           response_tracker_dict q' = response_tracker_dict q \<and>
           queue_out (af_out q') = queue_out (af_out q) \<and>
           queue_discard (af_out q') = queue_discard (af_out q) @ map mark_discarded rs"
  using assms(1,6)
proof (induction rs arbitrary: q)
  case Nil
  then show ?case by simp
next
  case (Cons r rs)
  let ?q1 = "q\<lparr>af_filter := (af_filter q)\<lparr>self_stack := [], self_fuzz_result := r\<rparr>,
               af_out := (af_out q)\<lparr>queue_discard := queue_discard (af_out q) @
                           [mark_discarded r]\<rparr>\<rparr>"
  have r: "recurring r" using Cons.prems by auto
  have p: "AutofilterQ_process lib colour q r = Inr ?q1"
    by (rule process_filtering [OF r assms(2,3,4,5) Cons.prems(2)])
  have "\<exists>q'. AutofilterQ_run lib colour ?q1 rs = Inr q' \<and>
           filter_string (af_filter q') = ''not (c=200 and l=5 and w=42)'' \<and>
           response_tracker_dict q' = response_tracker_dict ?q1 \<and>
           queue_out (af_out q') = queue_out (af_out ?q1) \<and>
           queue_discard (af_out q') = queue_discard (af_out ?q1) @ map mark_discarded rs"
    using Cons.prems by (intro Cons.IH) auto
  then show ?case using p by auto
qed

lemma autofilter_run_recurring:
  assumes "\<forall>r \<in> set rs. recurring r" and "length rs \<ge> 10" and "ERROR_CODE lib \<noteq> 200"
    and "\<And>x. rgetattr lib (PRes x) ''c'' = Inr (PInt (code x))"
    and "\<And>x. rgetattr lib (PRes x) ''l'' = Inr (PInt (lines x))"
    and "\<And>x. rgetattr lib (PRes x) ''w'' = Inr (PInt (words x))"
  shows "\<exists>q. AutofilterQ_run lib colour (new_AutofilterQ r0) rs = Inr q \<and>
           queue_out (af_out q) =
             take 9 rs @ [with_finding (recurring_finding colour) (rs ! 9)] \<and>
           queue_discard (af_out q) = map mark_discarded (drop 10 rs) \<and>
           filter_string (af_filter q) = ''not (c=200 and l=5 and w=42)''"
proof -
  let ?q0 = "new_AutofilterQ r0"
  have "9 < length rs" using assms(2) by simp
  then have "rs ! 9 # drop (Suc 9) rs = drop 9 rs"
    by (rule Cons_nth_drop_Suc)
  then have d9: "drop 9 rs = rs ! 9 # drop 10 rs" by simp
  have split: "rs = take 9 rs @ (rs ! 9) # drop 10 rs"
    using append_take_drop_id [of 9 rs] unfolding d9 by simp
  have all1: "\<forall>r \<in> set (take 9 rs). recurring r" using assms(1) by (auto dest: in_set_takeD)
  have r9: "recurring (rs ! 9)" using assms(1,2) by simp
  have all3: "\<forall>r \<in> set (drop 10 rs). recurring r" using assms(1) by (auto dest: in_set_dropD)
  have len: "length (take 9 rs) = 9" using assms(2) by simp
  from run_counting [OF all1 assms(3), of ?q0 0 colour]
  obtain q1 where q1: "AutofilterQ_run lib colour ?q0 (take 9 rs) = Inr q1"
    "af_filter q1 = af_filter ?q0"
    "response_tracker_dict q1 = [(''c=200 and l=5 and w=42'', 9)]"
    "queue_out (af_out q1) = take 9 rs" "queue_discard (af_out q1) = []"
    using len by (auto simp: new_AutofilterQ_def new_filter_def empty_out_def)
  have f1: "filter_string (af_filter q1) = []"
    using q1(2) by (simp add: new_AutofilterQ_def new_filter_def)
  let ?q2 = "q1\<lparr>af_filter := (af_filter q1)\<lparr>filter_string := ''not (c=200 and l=5 and w=42)''\<rparr>,
                  response_tracker_dict := [],
                  af_out := (af_out q1)\<lparr>queue_out := queue_out (af_out q1) @
                              [with_finding (recurring_finding colour) (rs ! 9)]\<rparr>\<rparr>"
  have p2: "AutofilterQ_process lib colour q1 (rs ! 9) = Inr ?q2"
    by (rule process_tenth [OF r9 assms(3) f1 q1(3)])
  have f2: "filter_string (af_filter ?q2) = ''not (c=200 and l=5 and w=42)''" by simp
  from run_filtering [OF all3 assms(3,4,5,6) f2, of colour]
  obtain q3 where q3: "AutofilterQ_run lib colour ?q2 (drop 10 rs) = Inr q3"
    "filter_string (af_filter q3) = ''not (c=200 and l=5 and w=42)''"
    "queue_out (af_out q3) = queue_out (af_out ?q2)"
    "queue_discard (af_out q3) = queue_discard (af_out ?q2) @ map mark_discarded (drop 10 rs)"
    by blast
  have "AutofilterQ_run lib colour ?q0 rs =
          AutofilterQ_run lib colour ?q0 (take 9 rs @ (rs ! 9) # drop 10 rs)"
    using split by simp
  also have "\<dots> = Inr q3"
    by (simp add: run_append q1(1) p2 q3(1))
  finally have "AutofilterQ_run lib colour ?q0 rs = Inr q3" .
  with q3 q1 show ?thesis by simp
qed

text \<open>Claim C2, amended. For a stream of at least ten results (twenty in the scenario) with
  status 200, 5 lines and 42 words entering a new auto-filter stage, none of them the
  answer to a \<^verbatim>\<open>HEAD\<close> request or an error: the first ten are sent, the tenth with
  the finding that announces the filter, every result from the eleventh onward is
  discarded, and the filter string is \<^verbatim>\<open>not (c=200 and l=5 and w=42)\<close>. The symbols
  \<^verbatim>\<open>c\<close>, \<^verbatim>\<open>l\<close> and \<^verbatim>\<open>w\<close> are resolved outside complexfilter.py; they are
  taken to give the status, the lines and the words of the result.\<close>

theorem autofilter_filters_from_the_eleventh:
  assumes "\<forall>r \<in> set rs. recurring r" and "length rs \<ge> 10" and "ERROR_CODE lib \<noteq> 200"
    and "\<forall>x. rgetattr lib (PRes x) ''c'' = Inr (PInt (code x))"
    and "\<forall>x. rgetattr lib (PRes x) ''l'' = Inr (PInt (lines x))"
    and "\<forall>x. rgetattr lib (PRes x) ''w'' = Inr (PInt (words x))"
  shows "\<exists>q. AutofilterQ_run lib colour (new_AutofilterQ r0) rs = Inr q \<and>
           queue_out (af_out q) =
             take 9 rs @ [with_finding (recurring_finding colour) (rs ! 9)] \<and>
           queue_discard (af_out q) = map mark_discarded (drop 10 rs) \<and>
           filter_string (af_filter q) = ''not (c=200 and l=5 and w=42)''"
  using assms by (intro autofilter_run_recurring) simp_all

lemma ex_stream_recurring: "\<forall>r \<in> set ex_stream. recurring r"
  by (simp add: ex_stream_def ex_result_def recurring_def)

lemma ex_lib_symbols:
  "rgetattr ex_lib (PRes x) ''c'' = Inr (PInt (code x))"
  "rgetattr ex_lib (PRes x) ''l'' = Inr (PInt (lines x))"
  "rgetattr ex_lib (PRes x) ''w'' = Inr (PInt (words x))"
  "ERROR_CODE ex_lib \<noteq> 200"
  by (simp_all add: ex_lib_def ex_rgetattr_def)

theorem autofilter_filters_from_the_eleventh_witness:
  "list_all recurring ex_stream \<and> length ex_stream = 20 \<and> ERROR_CODE ex_lib \<noteq> 200 \<and>
   (\<exists>q. AutofilterQ_run ex_lib (\<lambda>c s. s) (new_AutofilterQ (ex_result 0)) ex_stream = Inr q \<and>
        queue_out (af_out q) =
          take 9 ex_stream @ [with_finding (recurring_finding (\<lambda>c s. s)) (ex_stream ! 9)] \<and>
        queue_discard (af_out q) = map mark_discarded (drop 10 ex_stream) \<and>
        filter_string (af_filter q) = ''not (c=200 and l=5 and w=42)'')"
proof -
  have l: "length ex_stream = 20" by (simp add: ex_stream_def)
  then have l': "length ex_stream \<ge> 10" by simp
  have a: "list_all recurring ex_stream"
    using ex_stream_recurring by (simp add: list_all_iff)
  from autofilter_filters_from_the_eleventh [OF ex_stream_recurring l' ex_lib_symbols(4),
      of "\<lambda>c s. s" "ex_result 0"] ex_lib_symbols(1,2,3)
  have "\<exists>q. AutofilterQ_run ex_lib (\<lambda>c s. s) (new_AutofilterQ (ex_result 0)) ex_stream = Inr q \<and>
        queue_out (af_out q) =
          take 9 ex_stream @ [with_finding (recurring_finding (\<lambda>c s. s)) (ex_stream ! 9)] \<and>
        queue_discard (af_out q) = map mark_discarded (drop 10 ex_stream) \<and>
        filter_string (af_filter q) = ''not (c=200 and l=5 and w=42)''"
    by simp
  with a l ex_lib_symbols(4) show ?thesis by blast
qed

text \<open>Claim C2, as stated, fails: of the twenty results of \<open>ex_stream\<close> the tenth is
  sent, with the finding attached, and the first one discarded is the eleventh. The
  tracker reaches 10 while the tenth result is processed, and \<^verbatim>\<open>process\<close> sends the
  result after it has updated the tracker.\<close>

theorem tenth_recurring_result_is_sent:
  "\<exists>q. AutofilterQ_run ex_lib (\<lambda>c s. s) (new_AutofilterQ (ex_result 0)) ex_stream = Inr q \<and>
       length (queue_out (af_out q)) = 10 \<and>
       queue_out (af_out q) ! 9 = with_finding (recurring_finding (\<lambda>c s. s)) (ex_result 9) \<and>
       length (queue_discard (af_out q)) = 10 \<and>
       hd (queue_discard (af_out q)) = mark_discarded (ex_result 10)"
proof -
  have l: "length ex_stream \<ge> 10" by (simp add: ex_stream_def)
  from autofilter_run_recurring [OF ex_stream_recurring l ex_lib_symbols(4)
      ex_lib_symbols(1,2,3), of "\<lambda>c s. s" "ex_result 0"]
  obtain q where q: "AutofilterQ_run ex_lib (\<lambda>c s. s) (new_AutofilterQ (ex_result 0)) ex_stream = Inr q"
    "queue_out (af_out q) =
       take 9 ex_stream @ [with_finding (recurring_finding (\<lambda>c s. s)) (ex_stream ! 9)]"
    "queue_discard (af_out q) = map mark_discarded (drop 10 ex_stream)"
    by blast
  have n9: "ex_stream ! 9 = ex_result 9" by (simp add: ex_stream_def)
  have len: "length ex_stream = 20" by (simp add: ex_stream_def)
  have d: "drop 10 ex_stream = map ex_result [10..<20]"
    by (simp add: ex_stream_def drop_map)
  have h: "hd (map mark_discarded (drop 10 ex_stream)) = mark_discarded (ex_result 10)"
    unfolding d by (simp add: upt_rec)
  have "length (queue_out (af_out q)) = 10" using q(2) len by simp
  moreover have "queue_out (af_out q) ! 9 = with_finding (recurring_finding (\<lambda>c s. s)) (ex_result 9)"
    using q(2) len n9 by (simp add: nth_append)
  moreover have "length (queue_discard (af_out q)) = 10" using q(3) len by simp
  moreover have "hd (queue_discard (af_out q)) = mark_discarded (ex_result 10)"
    using q(3) h by simp
  ultimately show ?thesis using q(1) by blast
qed

end
